(* ===== verification/Prelude.thy ===== *)
theory Prelude
  imports Complex_Main "HOL-Library.Sublist"
begin

text \<open>
  Shared vocabulary of the development: the error values the script raises, the
  exception-with-state result type that models JavaScript's in-place mutation followed
  by a possible \<open>throw\<close>, the string functions behind the case-insensitive regular
  expressions of the resolvers, and generic lemmas on lists and options that the
  component theories use through the \<open>model_simps\<close> collection.
\<close>

named_theorems model_simps "rewrite rules of the model shared by the component proofs"

section \<open>Errors and the exception-with-state result\<close>

text \<open>
  The script throws string literals (\<open>throw "..."\<close>); the host application throws its
  own errors when an API call is rejected (a value of the wrong dimension, a property
  that cannot take an expression). Both end the current operation and are shown by the
  caller's \<open>catch\<close> as an alert.
\<close>

datatype error = Thrown string | HostFault string

text \<open>
  A JavaScript function that mutates the document and may throw is a function from the
  state to a result and the state reached: the mutations made before a \<open>throw\<close> stay
  in the document, as they do in the host. \<open>Inl\<close> is the error.
\<close>

type_synonym ('s, 'a) exc = "'s \<Rightarrow> (error + 'a) \<times> 's"

definition ret :: "'a \<Rightarrow> ('s, 'a) exc" where
  "ret a s = (Inr a, s)"

definition throw :: "error \<Rightarrow> ('s, 'a) exc" where
  "throw e s = (Inl e, s)"

definition ebind :: "('s, 'a) exc \<Rightarrow> ('a \<Rightarrow> ('s, 'b) exc) \<Rightarrow> ('s, 'b) exc" where
  "ebind m f s = (case m s of (Inl e, s') \<Rightarrow> (Inl e, s') | (Inr a, s') \<Rightarrow> f a s')"

text \<open>\<open>try { m } catch (_) { h }\<close>: the handler runs from the state the failure left.\<close>

definition try_catch :: "('s, 'a) exc \<Rightarrow> ('s, 'a) exc \<Rightarrow> ('s, 'a) exc" where
  "try_catch m h s = (case m s of (Inl e, s') \<Rightarrow> h s' | r \<Rightarrow> r)"

text \<open>Lifting a pure fallible computation and a pure state change.\<close>

definition lift :: "error + 'a \<Rightarrow> ('s, 'a) exc" where
  "lift r s = (r, s)"

definition modify :: "('s \<Rightarrow> error + 's) \<Rightarrow> ('s, unit) exc" where
  "modify f s = (case f s of Inl e \<Rightarrow> (Inl e, s) | Inr s' \<Rightarrow> (Inr (), s'))"

text \<open>A state property every step keeps: the frame lemmas of the components.\<close>

definition keeps :: "('s \<Rightarrow> bool) \<Rightarrow> ('s, 'a) exc \<Rightarrow> bool" where
  "keeps P m \<longleftrightarrow> (\<forall>s. P s \<longrightarrow> P (snd (m s)))"

text \<open>
  Straight-line code: statements run in order, the first that throws ends the
  sequence; a call whose result is not used.
\<close>

fun seq :: "('s, unit) exc list \<Rightarrow> ('s, unit) exc" where
  "seq [] = ret ()"
| "seq (m # ms) = ebind m (\<lambda>_. seq ms)"

definition discard :: "('s, 'a) exc \<Rightarrow> ('s, unit) exc" where
  "discard m = ebind m (\<lambda>_. ret ())"

section \<open>Strings\<close>

text \<open>
  Names are byte strings (\<open>char list\<close>), a non-ASCII letter being its UTF-8 bytes.
  JavaScript's \<open>toLowerCase\<close> and the \<open>/i\<close> flag fold letters case-insensitively.
  On ASCII letters that sets bit 5 of an upper-case letter (\<open>lower_char\<close>); the
  upper-case letters of Latin-1 (U+00C0 to U+00DE but the sign U+00D7) are the two bytes
  \<open>C3 80\<close> to \<open>C3 9E\<close>, and their lower-case letters are 32 further on in the second
  byte (\<open>lower_cont\<close>), so \<open>lower\<close> folds that byte after a \<open>C3\<close>. Letters beyond
  Latin-1 (Greek, Cyrillic, Latin Extended) are left as they are.
\<close>

definition is_upper :: "char \<Rightarrow> bool" where
  "is_upper c \<longleftrightarrow> 65 \<le> (of_char c :: nat) \<and> (of_char c :: nat) \<le> 90"

definition lower_char :: "char \<Rightarrow> char" where
  "lower_char c =
     (case c of Char b0 b1 b2 b3 b4 b5 b6 b7 \<Rightarrow>
        if is_upper c then Char b0 b1 b2 b3 b4 True b6 b7 else c)"

definition lower_cont :: "char \<Rightarrow> char" where
  "lower_cont d =
     (if 128 \<le> (of_char d :: nat) \<and> (of_char d :: nat) \<le> 158 \<and> (of_char d :: nat) \<noteq> 151
      then char_of (of_char d + (32 :: nat)) else d)"

fun lower :: "string \<Rightarrow> string" where
  "lower [] = []"
| "lower [c] = [lower_char c]"
| "lower (c # d # s) =
     (if c = CHR 0xC3 then c # lower_cont d # lower s else lower_char c # lower (d # s))"

text \<open>The white-space class \<open>\s\<close> of the regular expressions, on ASCII.\<close>

definition is_ws :: "char \<Rightarrow> bool" where
  "is_ws c \<longleftrightarrow> (of_char c :: nat) \<in> {9, 10, 11, 12, 13, 32}"

section \<open>Lists and options\<close>

text \<open>
  \<open>find_idx P xs\<close> is the index of the first element satisfying \<open>P\<close>: the
  JavaScript loops \<open>for (i = 1; i <= n; i++) if (P(xs[i])) return xs[i]\<close> return
  the element at that index; the model keeps the index, which is what a path into
  the document needs.
\<close>

fun find_idx :: "('a \<Rightarrow> bool) \<Rightarrow> 'a list \<Rightarrow> nat option" where
  "find_idx P [] = None"
| "find_idx P (x # xs) = (if P x then Some 0 else map_option Suc (find_idx P xs))"

text \<open>
  \<open>a || b\<close> on objects that may be \<open>null\<close>: the first that is not null. It is
  \<open>Option.orelse\<close> under another name; the model writes it \<open>alt\<close>.
\<close>

definition alt :: "'a option \<Rightarrow> 'a option \<Rightarrow> 'a option" where
  "alt a b = (case a of None \<Rightarrow> b | Some x \<Rightarrow> Some x)"

section \<open>Lemmas\<close>

lemma ret_apply [simp, model_simps]: "ret a s = (Inr a, s)"
  by (simp add: ret_def)

lemma throw_apply [simp, model_simps]: "throw e s = (Inl e, s)"
  by (simp add: throw_def)

lemma lift_apply [simp, model_simps]: "lift r s = (r, s)"
  by (simp add: lift_def)

lemma ebind_apply [model_simps]:
  "ebind m f s = (case m s of (Inl e, s') \<Rightarrow> (Inl e, s') | (Inr a, s') \<Rightarrow> f a s')"
  by (simp add: ebind_def)

lemma ebind_Inr [simp]: "m s = (Inr a, s') \<Longrightarrow> ebind m f s = f a s'"
  by (simp add: ebind_def)

lemma ebind_Inl [simp]: "m s = (Inl e, s') \<Longrightarrow> ebind m f s = (Inl e, s')"
  by (simp add: ebind_def)

lemma ebind_ret [simp]: "ebind (ret a) f = f a"
  by (rule ext) (simp add: ebind_def)

lemma ebind_throw [simp]: "ebind (throw e) f = throw e"
  by (rule ext) (simp add: ebind_def)

lemma try_catch_Inr [simp]: "m s = (Inr a, s') \<Longrightarrow> try_catch m h s = (Inr a, s')"
  by (simp add: try_catch_def)

lemma try_catch_Inl [simp]: "m s = (Inl e, s') \<Longrightarrow> try_catch m h s = h s'"
  by (simp add: try_catch_def)

lemma modify_apply [model_simps]:
  "modify f s = (case f s of Inl e \<Rightarrow> (Inl e, s) | Inr s' \<Rightarrow> (Inr (), s'))"
  by (simp add: modify_def)

lemma keeps_ret [simp]: "keeps P (ret a)"
  by (simp add: keeps_def)

lemma keeps_throw [simp]: "keeps P (throw e)"
  by (simp add: keeps_def)

lemma keeps_lift [simp]: "keeps P (lift r)"
  by (simp add: keeps_def)

lemma keeps_ebind [intro]:
  "keeps P m \<Longrightarrow> (\<And>a. keeps P (f a)) \<Longrightarrow> keeps P (ebind m f)"
  by (auto simp: keeps_def ebind_def split: prod.splits sum.splits)

lemma keeps_try_catch [intro]: "keeps P m \<Longrightarrow> keeps P h \<Longrightarrow> keeps P (try_catch m h)"
  by (auto simp: keeps_def try_catch_def split: prod.splits sum.splits)

lemma keeps_modify [intro]:
  "(\<And>s s'. P s \<Longrightarrow> f s = Inr s' \<Longrightarrow> P s') \<Longrightarrow> keeps P (modify f)"
  by (auto simp: keeps_def modify_def split: sum.splits)

lemma lower_char_idem [simp]: "lower_char (lower_char c) = lower_char c"
  by (cases c) (simp add: lower_char_def is_upper_def)

lemma lower_char_C3: "lower_char c = CHR 0xC3 \<longleftrightarrow> c = CHR 0xC3"
  by (cases c) (auto simp: lower_char_def is_upper_def)

lemma lower_cont_idem [simp]: "lower_cont (lower_cont d) = lower_cont d"
  by (simp add: lower_cont_def)

lemma lower_Cons: "c \<noteq> CHR 0xC3 \<Longrightarrow> lower (c # s) = lower_char c # lower s"
  by (cases s) simp_all

lemma lower_Cons_C3: "lower (CHR 0xC3 # d # s) = CHR 0xC3 # lower_cont d # lower s"
  by simp

lemma lower_idem [simp]: "lower (lower s) = lower s"
  by (induction s rule: lower.induct) (simp_all add: lower_Cons lower_char_C3)

lemma length_lower [simp]: "length (lower s) = length s"
  by (induction s rule: lower.induct) simp_all

lemma lower_append [simp]:
  "(xs \<noteq> [] \<longrightarrow> last xs \<noteq> CHR 0xC3) \<Longrightarrow> lower (xs @ ys) = lower xs @ lower ys"
  by (induction xs rule: lower.induct) (simp_all add: lower_Cons split: if_splits)

lemma find_idx_Some_iff:
  "find_idx P xs = Some i \<longleftrightarrow> i < length xs \<and> P (xs ! i) \<and> (\<forall>j < i. \<not> P (xs ! j))"
proof (induction xs arbitrary: i)
  case Nil
  then show ?case by simp
next
  case (Cons x xs)
  show ?case
  proof (cases i)
    case 0
    then show ?thesis by auto
  next
    case (Suc k)
    then show ?thesis
      using Cons.IH[of k] by (auto simp: less_Suc_eq_0_disj)
  qed
qed

lemma find_idx_None_iff: "find_idx P xs = None \<longleftrightarrow> (\<forall>x \<in> set xs. \<not> P x)"
  by (induction xs) auto

lemma find_idx_Some_less [dest]: "find_idx P xs = Some i \<Longrightarrow> i < length xs"
  by (simp add: find_idx_Some_iff)

lemma find_idx_Some_P [dest]: "find_idx P xs = Some i \<Longrightarrow> P (xs ! i)"
  by (simp add: find_idx_Some_iff)

lemma find_idx_append_notin:
  "\<forall>x \<in> set xs. \<not> P x \<Longrightarrow> find_idx P (xs @ ys) = map_option ((+) (length xs)) (find_idx P ys)"
  by (induction xs) (cases "find_idx P ys"; simp)+

lemma find_idx_append_in:
  "find_idx P xs = Some i \<Longrightarrow> find_idx P (xs @ ys) = Some i"
  by (induction xs arbitrary: i) auto

lemma find_idx_cong:
  "(\<And>x. x \<in> set xs \<Longrightarrow> P x = Q x) \<Longrightarrow> find_idx P xs = find_idx Q xs"
  by (induction xs) auto

lemma alt_simps [simp, model_simps]: "alt None b = b" "alt (Some x) b = Some x"
  by (simp_all add: alt_def)

lemma alt_None_iff [simp]: "alt a b = None \<longleftrightarrow> a = None \<and> b = None"
  by (cases a) simp_all

lemma alt_None_right [simp]: "alt a None = a"
  by (cases a) simp_all

lemma alt_assoc: "alt (alt a b) c = alt a (alt b c)"
  by (cases a) simp_all

lemma map_filter_append [simp]: "List.map_filter f (xs @ ys) = List.map_filter f xs @ List.map_filter f ys"
  by (simp add: map_filter_def)

lemma map_filter_single [simp]: "List.map_filter f [x] = (case f x of None \<Rightarrow> [] | Some y \<Rightarrow> [y])"
  by (simp add: map_filter_def split: option.split)

lemma map_filter_filter_None:
  "(\<And>x. \<not> P x \<Longrightarrow> f x = None) \<Longrightarrow> List.map_filter f (filter P xs) = List.map_filter f xs"
  by (induction xs) (auto simp: map_filter_def)

lemma seq_append: "seq (xs @ ys) = ebind (seq xs) (\<lambda>_. seq ys)"
  by (induction xs) (auto simp: ebind_def ret_def fun_eq_iff split: prod.splits sum.splits)

lemma Some_eq_map_option_iff [simp]: "(Some y = map_option f x) = (\<exists>z. x = Some z \<and> y = f z)"
  by (cases x) auto

lemma find_idx_update_same:
  "P x = P (xs ! j) \<Longrightarrow> find_idx P (xs[j := x]) = find_idx P xs"
proof (induction xs arbitrary: j)
  case (Cons y ys)
  then show ?case by (cases j) auto
qed simp

lemma in_set_map_filter: "x \<in> set (List.map_filter f xs) \<Longrightarrow> \<exists>y \<in> set xs. f y = Some x"
  by (induction xs) (auto simp: List.map_filter_def split: if_splits)

end
