(* ===== verification/Host.thy ===== *)
theory Host
  imports Prelude
begin

text \<open>
  The host's document model, as far as the script uses it. The script is an After
  Effects ExtendScript: it reads and writes a tree of properties (a layer is a property
  group; \<open>layer.property("ADBE Transform Group")\<close> is one of its children, and so
  on down to leaf properties with values and expressions). Nothing of this theory is
  code of the repository; it is the collaborator every component calls, modelled from
  the API the sources use and from spec section 6:
  \<^item> a node has the host's match name (the canonical id), a display name, a value
    type, a value, an expression with its enabled flag, and children;
  \<^item> a node is addressed by a \<^emph>\<open>path\<close>, the list of child positions from the layer,
    so that a handle the script keeps in a variable is a path the model keeps;
  \<^item> \<open>property(name)\<close>, \<open>property(i)\<close>, \<open>setValue\<close>, \<open>expression = \<close>,
    \<open>addProperty\<close> and \<open>sourceRectAtTime\<close> are the operations below. The parts
    the host computes and the script cannot see (the default children of a new
    repeater, the bounding box of rendered content, number formatting) are the fields
    of a \<open>host\<close> record that every operation takes as a parameter, so that every
    lemma holds for any host that behaves so.
\<close>

section \<open>Property nodes\<close>

text \<open>\<open>PropertyValueType\<close> of the host; groups have none (\<open>NoValue\<close>).\<close>

datatype pvtype = NoValue | OneD | TwoD | TwoD_SPATIAL | ThreeD | ThreeD_SPATIAL
  | ShapeType | OtherType

text \<open>
  Values: a number, an array of numbers, a path shape (its vertex list), or nothing.
  JavaScript numbers are doubles; the model reads them as reals (see the header).
\<close>

datatype pval = VNone | VNum real | VVec "real list" | VShape "(real \<times> real) list"

record attrs =
  match_name :: string
  pname :: string
  pvt :: pvtype
  pvalue :: pval
  expression :: string
  expr_enabled :: bool
  can_set_expr :: bool

datatype node = Node (attrs: attrs) (kids: "node list")

type_synonym path = "nat list"

text \<open>Constructors for leaf properties and groups, as the host creates them.\<close>

definition mk_leaf :: "string \<Rightarrow> string \<Rightarrow> pvtype \<Rightarrow> pval \<Rightarrow> node" where
  "mk_leaf m nm t v = Node \<lparr>match_name = m, pname = nm, pvt = t, pvalue = v, expression = [],
     expr_enabled = False, can_set_expr = True\<rparr> []"

definition mk_group :: "string \<Rightarrow> string \<Rightarrow> node list \<Rightarrow> node" where
  "mk_group m nm ks = Node \<lparr>match_name = m, pname = nm, pvt = NoValue, pvalue = VNone, expression = [],
     expr_enabled = False, can_set_expr = False\<rparr> ks"

abbreviation mname :: "node \<Rightarrow> string" where
  "mname n \<equiv> match_name (attrs n)"

abbreviation dname :: "node \<Rightarrow> string" where
  "dname n \<equiv> pname (attrs n)"

abbreviation vtype :: "node \<Rightarrow> pvtype" where
  "vtype n \<equiv> pvt (attrs n)"

abbreviation val_of :: "node \<Rightarrow> pval" where
  "val_of n \<equiv> pvalue (attrs n)"

section \<open>Child lookup: \<open>property(name)\<close> and \<open>property(i)\<close>\<close>

text \<open>
  \<open>group.property(name)\<close> returns the first child whose match name or display
  name is \<open>name\<close>, or \<open>null\<close>; \<open>group.property(i)\<close> counts from 1 and is \<open>null\<close>
  out of range. Both return a child position here.
\<close>

definition prop_by_name :: "node \<Rightarrow> string \<Rightarrow> nat option" where
  "prop_by_name g s = find_idx (\<lambda>c. mname c = s \<or> dname c = s) (kids g)"

definition prop_by_index :: "node \<Rightarrow> nat \<Rightarrow> nat option" where
  "prop_by_index g j = (if 1 \<le> j \<and> j \<le> length (kids g) then Some (j - 1) else None)"

section \<open>Paths: reading and writing inside the tree\<close>

fun get_at :: "node \<Rightarrow> path \<Rightarrow> node option" where
  "get_at n [] = Some n"
| "get_at n (i # p) = (if i < length (kids n) then get_at (kids n ! i) p else None)"

fun upd_at :: "path \<Rightarrow> (node \<Rightarrow> node) \<Rightarrow> node \<Rightarrow> node" where
  "upd_at [] f n = f n"
| "upd_at (i # p) f n =
     (if i < length (kids n) then Node (attrs n) ((kids n)[i := upd_at p f (kids n ! i)]) else n)"

text \<open>Two paths are independent when neither is a prefix of the other.\<close>

fun indep :: "path \<Rightarrow> path \<Rightarrow> bool" where
  "indep [] q = False"
| "indep p [] = False"
| "indep (i # p) (j # q) = (i \<noteq> j \<or> indep p q)"

text \<open>
  Appending a child below \<open>g\<close> (what \<open>addProperty\<close> does) keeps every node that
  is not an ancestor of the new one where it was: children keep their positions.
\<close>

definition append_kid :: "node \<Rightarrow> node \<Rightarrow> node" where
  "append_kid c g = Node (attrs g) (kids g @ [c])"

text \<open>
  The names of a group's children decide every \<open>property(name)\<close> lookup in it. A
  write that keeps the names of the node it replaces keeps them all.
\<close>

definition names_of :: "node \<Rightarrow> (string \<times> string) list" where
  "names_of g = map (\<lambda>c. (mname c, dname c)) (kids g)"

section \<open>Writes the host accepts or rejects\<close>

text \<open>
  \<open>setValue\<close> throws when the value does not fit the property: a number for a
  one-dimensional property, an array of two for a two-dimensional one, two or three
  for a three-dimensional one (a layer's anchor point and position are three-dimensional
  even on a 2D layer, and the host takes \<open>[x, y]\<close> for them), a shape for a path;
  groups take no value.
\<close>

fun fits :: "pvtype \<Rightarrow> pval \<Rightarrow> bool" where
  "fits OneD (VNum _) = True"
| "fits TwoD (VVec xs) = (length xs = 2)"
| "fits TwoD_SPATIAL (VVec xs) = (length xs = 2)"
| "fits ThreeD (VVec xs) = (length xs = 2 \<or> length xs = 3)"
| "fits ThreeD_SPATIAL (VVec xs) = (length xs = 2 \<or> length xs = 3)"
| "fits ShapeType (VShape _) = True"
| "fits _ _ = False"

definition set_value :: "pval \<Rightarrow> node \<Rightarrow> error + node" where
  "set_value v n =
     (if fits (vtype n) v then Inr (Node (attrs n\<lparr>pvalue := v\<rparr>) (kids n))
      else Inl (HostFault ''setValue: value does not fit the property''))"

text \<open>
  Assigning \<open>p.expression = e\<close> throws on a property that cannot take one; a
  non-empty expression is enabled, the empty one disables it. \<open>expressionEnabled = b\<close>
  sets the flag alone.
\<close>

definition set_expression :: "string \<Rightarrow> node \<Rightarrow> error + node" where
  "set_expression e n =
     (if can_set_expr (attrs n) then Inr (Node (attrs n\<lparr>expression := e, expr_enabled := (e \<noteq> [])\<rparr>) (kids n))
      else Inl (HostFault ''expression: property cannot take an expression''))"

definition set_expr_enabled :: "bool \<Rightarrow> node \<Rightarrow> error + node" where
  "set_expr_enabled b n =
     (if can_set_expr (attrs n) then Inr (Node (attrs n\<lparr>expr_enabled := b\<rparr>) (kids n))
      else Inl (HostFault ''expressionEnabled: property cannot take an expression''))"

definition set_name :: "string \<Rightarrow> node \<Rightarrow> node" where
  "set_name s n = Node (attrs n\<lparr>pname := s\<rparr>) (kids n)"

section \<open>Layers, compositions and the host's computed answers\<close>

record rect =
  rleft :: real
  rtop :: real
  rwidth :: real
  rheight :: real

text \<open>
  What the host computes and the script only queries:
  \<^item> \<open>new_prop m\<close>: the node \<open>addProperty(m)\<close> appends (its default children and
    values), or \<open>None\<close> when the host refuses;
  \<^item> \<open>source_rect b c\<close>: \<open>layer.sourceRectAtTime(layer.time, b)\<close> for a layer
    whose contents group is \<open>c\<close> (it is computed in layer space from the contents
    alone, so the layer's transform does not enter it);
  \<^item> \<open>to_fixed1\<close>: \<open>Number.prototype.toFixed(1)\<close>.
\<close>

record host =
  new_prop :: "string \<Rightarrow> node option"
  source_rect :: "bool \<Rightarrow> node option \<Rightarrow> rect"
  to_fixed1 :: "real \<Rightarrow> string"

text \<open>
  A layer is a property group (\<open>lnode\<close>, whose match name is the layer's) with a
  comment and a selection flag. The state the script's functions pass along is the
  layer they were handed.
\<close>

record layer =
  lnode :: node
  comment :: string
  selected :: bool

definition node_at :: "layer \<Rightarrow> path \<Rightarrow> node option" where
  "node_at l p = get_at (lnode l) p"

text \<open>
  A write through a handle: a path that leads nowhere is a \<open>null\<close> handle, and
  calling a method on it is a \<open>TypeError\<close>.
\<close>

definition write_at :: "path \<Rightarrow> (node \<Rightarrow> error + node) \<Rightarrow> (layer, unit) exc" where
  "write_at p f l =
     (case node_at l p of
        None \<Rightarrow> (Inl (HostFault ''TypeError: null handle''), l)
      | Some n \<Rightarrow> (case f n of
                    Inl e \<Rightarrow> (Inl e, l)
                  | Inr n' \<Rightarrow> (Inr (), l\<lparr>lnode := upd_at p (\<lambda>_. n') (lnode l)\<rparr>)))"

definition read_at :: "path \<Rightarrow> (layer, node) exc" where
  "read_at p l =
     (case node_at l p of
        None \<Rightarrow> (Inl (HostFault ''TypeError: null handle''), l)
      | Some n \<Rightarrow> (Inr n, l))"

text \<open>
  \<open>addProperty(m)\<close> on the group at \<open>g\<close>: \<open>None\<close> for \<open>null\<close> (the host refused),
  else the path of the new child.
\<close>

definition add_property :: "host \<Rightarrow> path \<Rightarrow> string \<Rightarrow> layer \<Rightarrow> (path option \<times> layer)" where
  "add_property h g m l =
     (case (node_at l g, new_prop h m) of
        (Some gn, Some c) \<Rightarrow>
          (Some (g @ [length (kids gn)]), l\<lparr>lnode := upd_at g (append_kid c) (lnode l)\<rparr>)
      | _ \<Rightarrow> (None, l))"

section \<open>Lemmas\<close>

lemma mk_leaf_sel [simp]:
  "mname (mk_leaf m nm t v) = m" "dname (mk_leaf m nm t v) = nm" "vtype (mk_leaf m nm t v) = t"
  "val_of (mk_leaf m nm t v) = v" "kids (mk_leaf m nm t v) = []"
  "expression (attrs (mk_leaf m nm t v)) = []" "expr_enabled (attrs (mk_leaf m nm t v)) = False"
  "can_set_expr (attrs (mk_leaf m nm t v)) = True"
  by (simp_all add: mk_leaf_def)

lemma mk_group_sel [simp]:
  "mname (mk_group m nm ks) = m" "dname (mk_group m nm ks) = nm" "vtype (mk_group m nm ks) = NoValue"
  "val_of (mk_group m nm ks) = VNone" "kids (mk_group m nm ks) = ks"
  "expression (attrs (mk_group m nm ks)) = []" "expr_enabled (attrs (mk_group m nm ks)) = False"
  "can_set_expr (attrs (mk_group m nm ks)) = False"
  by (simp_all add: mk_group_def)

lemma prop_by_name_Some:
  "prop_by_name g s = Some i \<Longrightarrow> i < length (kids g) \<and> (mname (kids g ! i) = s \<or> dname (kids g ! i) = s)"
  by (auto simp: prop_by_name_def find_idx_Some_iff)

lemma prop_by_name_None:
  "prop_by_name g s = None \<longleftrightarrow> (\<forall>c \<in> set (kids g). mname c \<noteq> s \<and> dname c \<noteq> s)"
  by (auto simp: prop_by_name_def find_idx_None_iff)

lemma get_at_append: "get_at n (p @ q) = Option.bind (get_at n p) (\<lambda>m. get_at m q)"
  by (induction n p rule: get_at.induct) auto

lemma get_upd_same:
  "get_at n p = Some m \<Longrightarrow> get_at (upd_at p f n) p = Some (f m)"
  by (induction n p rule: get_at.induct) (auto split: if_splits)

lemma get_upd_indep:
  "indep p q \<Longrightarrow> get_at (upd_at q f n) p = get_at n p"
proof (induction p arbitrary: q n)
  case Nil
  then show ?case by simp
next
  case (Cons i p)
  then obtain j q' where q: "q = j # q'" by (cases q) auto
  show ?case
    using Cons.prems Cons.IH by (auto simp: q nth_list_update)
qed

lemma upd_at_invalid: "get_at n p = None \<Longrightarrow> upd_at p f n = n"
proof (induction n p rule: get_at.induct)
  case (2 n i p)
  then show ?case by (cases n) (auto split: if_splits)
qed simp

lemma get_upd_None_iff: "get_at (upd_at q f n) q = None \<longleftrightarrow> get_at n q = None"
  by (induction n q rule: get_at.induct) auto

lemma upd_at_cong:
  "get_at n p = Some m \<Longrightarrow> f m = g m \<Longrightarrow> upd_at p f n = upd_at p g n"
  by (induction n p rule: get_at.induct) (auto split: if_splits)

lemma upd_at_id: "get_at n p = Some m \<Longrightarrow> f m = m \<Longrightarrow> upd_at p f n = n"
proof (induction n p rule: get_at.induct)
  case (1 n)
  then show ?case by simp
next
  case (2 n i p)
  then show ?case by (cases n) (auto split: if_splits)
qed

lemma get_append_kid_other:
  assumes "get_at n p = Some m" and "\<not> prefix p g"
  shows "get_at (upd_at g (append_kid c) n) p = Some m"
  using assms
proof (induction n p arbitrary: g rule: get_at.induct)
  case (1 n)
  then show ?case by simp
next
  case (2 n i p)
  show ?case
  proof (cases g)
    case Nil
    with "2.prems" show ?thesis by (auto simp: append_kid_def nth_append split: if_splits)
  next
    case (Cons j g')
    with "2.prems" "2.IH"[of g'] show ?thesis by (auto simp: nth_list_update split: if_splits)
  qed
qed

lemma find_idx_map: "find_idx P (map h xs) = find_idx (\<lambda>x. P (h x)) xs"
  by (induction xs) auto

lemma prop_by_name_names:
  "names_of g = names_of g' \<Longrightarrow> prop_by_name g s = prop_by_name g' s"
proof -
  assume eq: "names_of g = names_of g'"
  have "prop_by_name g s = find_idx (\<lambda>(a, b). a = s \<or> b = s) (names_of g)" for g
    by (simp add: prop_by_name_def names_of_def find_idx_map)
  with eq show ?thesis by metis
qed

lemma attrs_upd_at_Cons [simp]: "attrs (upd_at (i # q) f n) = attrs n"
  by simp

lemma length_kids_upd_at_Cons [simp]: "length (kids (upd_at (i # q) f n)) = length (kids n)"
  by simp

lemma kids_upd_at_Cons_nth:
  "i < length (kids n) \<Longrightarrow> kids (upd_at (i # q) f n) ! i = upd_at q f (kids n ! i)"
  by simp

lemma names_of_upd:
  assumes "get_at n (i # q) = Some m" and "mname (f m) = mname m" and "dname (f m) = dname m"
  shows "names_of (upd_at (i # q) f n) = names_of n"
proof (cases q)
  case Nil
  with assms show ?thesis
    by (auto simp: names_of_def map_update split: if_splits)
      (metis (no_types, lifting) length_map list_update_id nth_map)
next
  case (Cons j q')
  with assms show ?thesis
    by (auto simp: names_of_def map_update split: if_splits)
      (metis (no_types, lifting) length_map list_update_id nth_map)
qed

lemma set_value_Inr:
  "set_value v n = Inr n' \<longleftrightarrow> fits (vtype n) v \<and> n' = Node (attrs n\<lparr>pvalue := v\<rparr>) (kids n)"
  by (auto simp: set_value_def)

lemma set_expression_Inr:
  "set_expression e n = Inr n' \<longleftrightarrow>
     can_set_expr (attrs n) \<and> n' = Node (attrs n\<lparr>expression := e, expr_enabled := (e \<noteq> [])\<rparr>) (kids n)"
  by (auto simp: set_expression_def)

lemma write_at_Inr:
  "write_at p f l = (Inr u, l') \<longleftrightarrow>
     (\<exists>n n'. node_at l p = Some n \<and> f n = Inr n' \<and> l' = l\<lparr>lnode := upd_at p (\<lambda>_. n') (lnode l)\<rparr>)"
  by (auto simp: write_at_def split: option.splits sum.splits)

lemma write_at_Inl:
  "write_at p f l = (Inl e, l') \<Longrightarrow> l' = l"
  by (auto simp: write_at_def split: option.splits sum.splits)

lemma node_at_write_same:
  "write_at p f l = (Inr u, l') \<Longrightarrow> node_at l p = Some n \<Longrightarrow> f n = Inr n' \<Longrightarrow> node_at l' p = Some n'"
  by (auto simp: write_at_Inr node_at_def get_upd_same)

lemma node_at_write_indep:
  "write_at p f l = (r, l') \<Longrightarrow> indep q p \<Longrightarrow> node_at l' q = node_at l q"
  by (auto simp: write_at_def node_at_def get_upd_indep split: option.splits sum.splits)

lemma write_at_other_fields [simp]:
  "write_at p f l = (r, l') \<Longrightarrow> comment l' = comment l \<and> selected l' = selected l"
  by (auto simp: write_at_def split: option.splits sum.splits)

lemma node_at_add_property_other:
  "add_property h g m l = (r, l') \<Longrightarrow> node_at l q = Some n \<Longrightarrow> \<not> prefix q g \<Longrightarrow> node_at l' q = Some n"
  by (auto simp: add_property_def node_at_def get_append_kid_other split: option.splits prod.splits)

lemma upd_upd_same: "upd_at p f (upd_at p g n) = upd_at p (\<lambda>x. f (g x)) n"
  by (induction p arbitrary: n) auto

lemma get_upd_shape:
  "get_at n p = Some m \<Longrightarrow> kids m' = kids m \<Longrightarrow>
     (get_at (upd_at p (\<lambda>_. m') n) q = None) = (get_at n q = None)"
proof (induction p arbitrary: n q)
  case Nil
  then show ?case by (cases q) auto
next
  case (Cons i p)
  then show ?case by (cases q) (auto simp: nth_list_update split: if_splits)
qed

lemma indep_Cons_head: "indep q [i] \<Longrightarrow> indep q (i # p)"
  by (cases q; cases "tl q") auto

lemma map_update_same:
  assumes "g x = g (xs ! i)"
  shows "map g (xs[i := x]) = map g xs"
proof (cases "i < length xs")
  case True
  then show ?thesis using assms by (intro nth_equalityI) (auto simp: nth_list_update)
qed (simp add: list_update_beyond)

lemma names_of_upd_deep: "names_of (upd_at (i # j # q) f n) = names_of n"
  unfolding names_of_def by (simp add: map_update_same)

lemma names_of_upd_attrs:
  "(\<And>m. attrs (f m) = attrs m) \<Longrightarrow> names_of (upd_at [i] f n) = names_of n"
  unfolding names_of_def by (simp add: map_update_same)

lemma indep_append_left: "indep p q \<Longrightarrow> indep (p @ x) q"
  by (induction p q rule: indep.induct) auto

end
