(* ===== verification/Scenes.thy ===== *)
theory Scenes
  imports Host
begin

text \<open>
  Concrete documents the witnesses run the model on: a shape layer holding one
  rectangle of size 100 by 50 with a stroke of width 10 (the example of spec section 8),
  the repeater the host appends for \<open>addProperty("ADBE Vector Filter - Repeater")\<close>
  with its default values, the slider and point controls the host appends for
  \<open>addProperty("ADBE Slider Control")\<close> and \<open>addProperty("ADBE Point Control")\<close>,
  and a host answering with them. Match names and default values are those of After
  Effects; the rectangle the host reports for the contents is fixed, with and without
  the stroke.
\<close>

section \<open>A shape layer with one stroked rectangle\<close>

definition demo_rect_group_sw :: "real \<Rightarrow> node" where
  "demo_rect_group_sw w =
     mk_group ''ADBE Vector Group'' ''Rectangle 1''
       [mk_group ''ADBE Vectors Group'' ''Contents''
          [mk_group ''ADBE Vector Shape - Rect'' ''Rectangle Path 1''
             [mk_leaf ''ADBE Vector Rect Size'' ''Size'' TwoD (VVec [100, 50]),
              mk_leaf ''ADBE Vector Rect Position'' ''Position'' TwoD_SPATIAL (VVec [0, 0]),
              mk_leaf ''ADBE Vector Rect Roundness'' ''Roundness'' OneD (VNum 0)],
           mk_group ''ADBE Vector Graphic - Stroke'' ''Stroke 1''
             [mk_leaf ''ADBE Vector Stroke Width'' ''Stroke Width'' OneD (VNum w)],
           mk_group ''ADBE Vector Graphic - Fill'' ''Fill 1''
             [mk_leaf ''ADBE Vector Fill Opacity'' ''Opacity'' OneD (VNum 100)]],
        mk_group ''ADBE Vector Transform Group'' ''Transform''
          [mk_leaf ''ADBE Vector Anchor'' ''Anchor Point'' TwoD_SPATIAL (VVec [0, 0]),
           mk_leaf ''ADBE Vector Position'' ''Position'' TwoD_SPATIAL (VVec [0, 0])]]"

definition demo_rect_group :: node where
  "demo_rect_group = demo_rect_group_sw 10"

definition demo_transform :: "real \<Rightarrow> real \<Rightarrow> real \<Rightarrow> real \<Rightarrow> node" where
  "demo_transform ax ay px py =
     mk_group ''ADBE Transform Group'' ''Transform''
       [mk_leaf ''ADBE Anchor Point'' ''Anchor Point'' ThreeD_SPATIAL (VVec [ax, ay, 0]),
        mk_leaf ''ADBE Position'' ''Position'' ThreeD_SPATIAL (VVec [px, py, 0]),
        mk_leaf ''ADBE Scale'' ''Scale'' ThreeD (VVec [100, 100, 100]),
        mk_leaf ''ADBE Rotate Z'' ''Rotation'' OneD (VNum 0),
        mk_leaf ''ADBE Opacity'' ''Opacity'' OneD (VNum 100)]"

definition demo_layer_node :: "node list \<Rightarrow> node list \<Rightarrow> node" where
  "demo_layer_node contents effects =
     mk_group ''ADBE Vector Layer'' ''Shape Layer 1''
       [demo_transform 10 5 960 540,
        mk_group ''ADBE Root Vectors Group'' ''Contents'' contents,
        mk_group ''ADBE Effect Parade'' ''Effects'' effects]"

definition demo_layer :: layer where
  "demo_layer = \<lparr>lnode = demo_layer_node [demo_rect_group] [], comment = [], selected = True\<rparr>"

definition demo_layer_sw :: "real \<Rightarrow> layer" where
  "demo_layer_sw w = \<lparr>lnode = demo_layer_node [demo_rect_group_sw w] [], comment = [], selected = True\<rparr>"

definition empty_layer :: layer where
  "empty_layer = \<lparr>lnode = demo_layer_node [] [], comment = [], selected = True\<rparr>"

section \<open>What the host appends\<close>

definition ae_repeater :: node where
  "ae_repeater =
     mk_group ''ADBE Vector Filter - Repeater'' ''Repeater 1''
       [mk_leaf ''ADBE Vector Repeater Copies'' ''Copies'' OneD (VNum 3),
        mk_leaf ''ADBE Vector Repeater Offset'' ''Offset'' OneD (VNum 0),
        mk_leaf ''ADBE Vector Repeater Order'' ''Composite'' OneD (VNum 1),
        mk_group ''ADBE Vector Repeater Transform'' ''Transform''
          [mk_leaf ''ADBE Vector Repeater Anchor'' ''Anchor Point'' TwoD_SPATIAL (VVec [0, 0]),
           mk_leaf ''ADBE Vector Repeater Position'' ''Position'' TwoD_SPATIAL (VVec [100, 0]),
           mk_leaf ''ADBE Vector Repeater Scale'' ''Scale'' TwoD (VVec [100, 100]),
           mk_leaf ''ADBE Vector Repeater Rotation'' ''Rotation'' OneD (VNum 0),
           mk_leaf ''ADBE Vector Repeater Opacity 1'' ''Start Opacity'' OneD (VNum 100),
           mk_leaf ''ADBE Vector Repeater Opacity 2'' ''End Opacity'' OneD (VNum 100)]]"

definition ae_slider :: node where
  "ae_slider =
     mk_group ''ADBE Slider Control'' ''Slider Control''
       [mk_leaf ''ADBE Slider Control-0001'' ''Slider'' OneD (VNum 0)]"

definition ae_point :: node where
  "ae_point =
     mk_group ''ADBE Point Control'' ''Point Control''
       [mk_leaf ''ADBE Point Control-0001'' ''Point'' TwoD_SPATIAL (VVec [0, 0])]"

definition ae_new_prop :: "string \<Rightarrow> node option" where
  "ae_new_prop m =
     (if m = ''ADBE Vector Filter - Repeater'' then Some ae_repeater
      else if m = ''ADBE Slider Control'' then Some ae_slider
      else if m = ''ADBE Point Control'' then Some ae_point
      else None)"

text \<open>
  The rectangle the host reports for the demo contents: 100 by 50 around the origin,
  five more on every side when the stroke's extent is included.
\<close>

definition demo_rect :: "bool \<Rightarrow> node option \<Rightarrow> rect" where
  "demo_rect b c =
     (if b then \<lparr>rleft = -55, rtop = -30, rwidth = 110, rheight = 60\<rparr>
      else \<lparr>rleft = -50, rtop = -25, rwidth = 100, rheight = 50\<rparr>)"

definition demo_host :: host where
  "demo_host = \<lparr>new_prop = ae_new_prop, source_rect = demo_rect, to_fixed1 = (\<lambda>_. ''0.0'')\<rparr>"

text \<open>The demo layer after \<open>addRepeater\<close>: the repeater is the second item of the contents.\<close>

definition demo_layer_rep :: layer where
  "demo_layer_rep = \<lparr>lnode = demo_layer_node [demo_rect_group, ae_repeater] [], comment = [], selected = True\<rparr>"

text \<open>
  The same repeater as a German-language host names it: the match names are those of
  \<open>ae_repeater\<close>, the display names contain none of the English words the
  scripts' regular expressions look for, except \<open>Position\<close>.
\<close>

definition de_repeater :: node where
  "de_repeater =
     mk_group ''ADBE Vector Filter - Repeater'' ''Repetierer 1''
       [mk_leaf ''ADBE Vector Repeater Copies'' ''Kopien'' OneD (VNum 3),
        mk_leaf ''ADBE Vector Repeater Offset'' ''Versatz'' OneD (VNum 0),
        mk_leaf ''ADBE Vector Repeater Order'' ''Zusammensetzen'' OneD (VNum 1),
        mk_group ''ADBE Vector Repeater Transform'' ''Transformieren''
          [mk_leaf ''ADBE Vector Repeater Anchor'' ''Ankerpunkt'' TwoD_SPATIAL (VVec [0, 0]),
           mk_leaf ''ADBE Vector Repeater Position'' ''Position'' TwoD_SPATIAL (VVec [100, 0]),
           mk_leaf ''ADBE Vector Repeater Scale'' ''Skalierung'' TwoD (VVec [100, 100]),
           mk_leaf ''ADBE Vector Repeater Rotation'' ''Drehung'' OneD (VNum 0),
           mk_leaf ''ADBE Vector Repeater Opacity 1'' ''Anfangsdeckkraft'' OneD (VNum 100),
           mk_leaf ''ADBE Vector Repeater Opacity 2'' ''Enddeckkraft'' OneD (VNum 100)]]"

definition demo_layer_de :: layer where
  "demo_layer_de = \<lparr>lnode = demo_layer_node [demo_rect_group, de_repeater] [], comment = [], selected = True\<rparr>"

section \<open>Lemmas\<close>

lemmas scene_defs = demo_layer_def empty_layer_def demo_layer_node_def demo_transform_def demo_rect_group_def
  demo_layer_sw_def demo_rect_group_sw_def demo_layer_rep_def demo_layer_de_def
  mk_group_def mk_leaf_def

end
