(* ===== verification/Resolver.thy ===== *)
theory Resolver
  imports Scenes
begin

text \<open>
  The Property Resolver (spec 4.1): the script's "robust finders" that locate a
  sub-property of a host group by match name, then by a case-insensitive pattern on the
  display name (with a value type), then by value type alone. The sources are
  \<open>findOneD\<close>, \<open>findVectorPosition\<close>, \<open>findRotation\<close>, \<open>findCopies\<close> of
  src/CenterAP_AddRepeater_v2.0.jsx and the inline searches of \<open>bindRepeater\<close> and
  \<open>linkRepeaterToLayerControls\<close>. Each finder is a pure function of the group node
  returning a child position, so it is side-effect free by construction.
\<close>

section \<open>The regular expressions\<close>

text \<open>
  The patterns the script tests are alternations of literal words, one with \<open>\s*\<close>
  between two words. \<open>re.test(s)\<close> holds when one alternative matches at some
  position of \<open>s\<close>; with the \<open>/i\<close> flag both sides are case-folded.
\<close>

datatype ratom = Lit string | WsStar

type_synonym regex = "ratom list list"

fun match_here :: "ratom list \<Rightarrow> string \<Rightarrow> bool" where
  "match_here [] s = True"
| "match_here (Lit w # r) s = (take (length w) s = w \<and> match_here r (drop (length w) s))"
| "match_here (WsStar # r) s =
     (match_here r s \<or> (case s of [] \<Rightarrow> False | c # cs \<Rightarrow> is_ws c \<and> match_here (WsStar # r) cs))"

fun tails :: "'a list \<Rightarrow> 'a list list" where
  "tails [] = [[]]"
| "tails (x # xs) = (x # xs) # tails xs"

fun fold_atom :: "ratom \<Rightarrow> ratom" where
  "fold_atom (Lit w) = Lit (lower w)"
| "fold_atom WsStar = WsStar"

definition re_test :: "regex \<Rightarrow> string \<Rightarrow> bool" where
  "re_test re s = list_ex (\<lambda>t. list_ex (\<lambda>a. match_here (map fold_atom a) t) re) (tails (lower s))"

text \<open>The patterns of the v2.0 script, in the order of their alternatives.\<close>

definition re_anchor :: regex where "re_anchor = [[Lit ''anchor'']]"

definition re_position :: regex where "re_position = [[Lit ''position'']]"

definition re_scale :: regex where "re_scale = [[Lit ''scale'']]"

definition re_offset :: regex where "re_offset = [[Lit ''offset'']]"

text \<open>\<open>/rotation|rotaci_n|rotation/i\<close> where the blank is an accented o, two UTF-8 bytes.\<close>

definition re_rotation :: regex where
  "re_rotation = [[Lit ''rotation''], [Lit (''rotaci'' @ [char_of (195::nat), char_of (179::nat)] @ ''n'')],
     [Lit ''rotation'']]"

definition re_copies :: regex where
  "re_copies = [[Lit ''copies''], [Lit ''copias''], [Lit ''copie''], [Lit ''kopien''], [Lit ''copie'']]"

definition re_start_opacity :: regex where
  "re_start_opacity = [[Lit ''start'', WsStar, Lit ''opacity''], [Lit ''opacidad'']]"

definition re_end_opacity :: regex where
  "re_end_opacity = [[Lit ''end'', WsStar, Lit ''opacity''], [Lit ''opacidad'']]"

section \<open>The finders of the script\<close>

text \<open>
  The first of a list of candidate names that resolves (\<open>for (...) { p =
  parent.property(name); if (p) return p; }\<close>).
\<close>

fun first_some :: "('a \<Rightarrow> 'b option) \<Rightarrow> 'a list \<Rightarrow> 'b option" where
  "first_some f [] = None"
| "first_some f (x # xs) = alt (f x) (first_some f xs)"

text \<open>
  \<open>findOneD(parent, preferredMatchNames, nameRegex)\<close>: a preferred name, else the first
  child whose display name matches and whose value type is \<open>OneD\<close>, else the first
  \<open>OneD\<close> child whatever its name (the "last resort").
\<close>

definition find_one_d :: "node \<Rightarrow> string list \<Rightarrow> regex \<Rightarrow> nat option" where
  "find_one_d g pref re =
     alt (first_some (prop_by_name g) pref)
       (alt (find_idx (\<lambda>q. re_test re (dname q) \<and> vtype q = OneD) (kids g))
            (find_idx (\<lambda>r. vtype r = OneD) (kids g)))"

definition is_2d :: "pvtype \<Rightarrow> bool" where
  "is_2d t \<longleftrightarrow> t = TwoD \<or> t = TwoD_SPATIAL"

text \<open>\<open>findVectorPosition(xform)\<close>: by match name, else by lower-cased name and a 2D type.\<close>

definition find_vector_position :: "node \<Rightarrow> nat option" where
  "find_vector_position x =
     alt (prop_by_name x ''ADBE Vector Position'')
       (find_idx (\<lambda>q. re_test re_position (lower (dname q)) \<and> is_2d (vtype q)) (kids x))"

definition find_rotation :: "node \<Rightarrow> nat option" where
  "find_rotation x =
     alt (prop_by_name x ''ADBE Vector Rotation'')
       (alt (prop_by_name x ''ADBE Vector Repeater Rotation'') (find_one_d x [] re_rotation))"

definition find_copies :: "node \<Rightarrow> nat option" where
  "find_copies r =
     alt (prop_by_name r ''ADBE Vector Repeater Copies'')
       (alt (prop_by_name r ''ADBE Vector Repeater Copies 2'') (find_one_d r [] re_copies))"

text \<open>
  The repeater's transform group, looked up the same way in \<open>bindRepeater\<close>,
  \<open>applyRepeaterPreset\<close> and \<open>linkRepeaterToLayerControls\<close>.
\<close>

definition rep_xform :: "node \<Rightarrow> nat option" where
  "rep_xform r =
     alt (prop_by_name r ''ADBE Vector Repeater Transform'') (prop_by_name r ''ADBE Vector Transform Group'')"

text \<open>The anchor search of \<open>bindRepeater\<close>: match name, else a loop over the children.\<close>

definition find_rep_anchor :: "node \<Rightarrow> nat option" where
  "find_rep_anchor x =
     alt (prop_by_name x ''ADBE Vector Anchor'')
       (find_idx (\<lambda>p. mname p = ''ADBE Vector Anchor'' \<or> (re_test re_anchor (dname p) \<and> vtype p = TwoD_SPATIAL))
          (kids x))"

text \<open>The searches of \<open>linkRepeaterToLayerControls\<close> for offset, scale and the opacities.\<close>

definition find_offset :: "node \<Rightarrow> nat option" where
  "find_offset r = alt (prop_by_name r ''ADBE Vector Repeater Offset'') (find_one_d r [] re_offset)"

definition find_scale :: "node \<Rightarrow> nat option" where
  "find_scale x =
     alt (prop_by_name x ''ADBE Vector Scale'')
       (find_idx (\<lambda>q. re_test re_scale (dname q) \<and> is_2d (vtype q)) (kids x))"

definition find_start_opacity :: "node \<Rightarrow> nat option" where
  "find_start_opacity x = alt (prop_by_name x ''ADBE Vector Start Opacity'') (find_one_d x [] re_start_opacity)"

definition find_end_opacity :: "node \<Rightarrow> nat option" where
  "find_end_opacity x = alt (prop_by_name x ''ADBE Vector End Opacity'') (find_one_d x [] re_end_opacity)"

section \<open>The resolver the specification describes\<close>

text \<open>
  Spec 4.1: canonical id first (by match name only), then the name pattern together
  with the expected type, then, only when the caller asks for "any property of this
  type", the first child of that type.
\<close>

definition resolve_spec :: "node \<Rightarrow> string list \<Rightarrow> regex \<Rightarrow> (pvtype \<Rightarrow> bool) \<Rightarrow> bool \<Rightarrow> nat option" where
  "resolve_spec g ids re ty any =
     alt (first_some (\<lambda>m. find_idx (\<lambda>c. mname c = m) (kids g)) ids)
       (alt (find_idx (\<lambda>c. re_test re (dname c) \<and> ty (vtype c)) (kids g))
            (if any then find_idx (\<lambda>c. ty (vtype c)) (kids g) else None))"

text \<open>No display name of the group is one of the canonical ids.\<close>

definition ids_not_names :: "node \<Rightarrow> string list \<Rightarrow> bool" where
  "ids_not_names g ids \<longleftrightarrow> (\<forall>c \<in> set (kids g). dname c \<notin> set ids)"

section \<open>Lemmas\<close>

lemma re_test_lower [simp]: "re_test re (lower s) = re_test re s"
  by (simp add: re_test_def)

lemma tails_suffix: "t \<in> set (tails s) \<longleftrightarrow> suffix t s"
  by (induction s) (auto simp: suffix_Cons)

lemma take_eq_prefix: "take (length w) s = w \<longleftrightarrow> prefix w s"
  by (metis append_eq_conv_conj append_take_drop_id prefix_def)

lemma take_eq_lower_prefix: "take (length w) s = lower w \<longleftrightarrow> prefix (lower w) s"
  by (metis length_lower take_eq_prefix)

lemma match_here_lit_iff: "match_here [Lit w] s \<longleftrightarrow> prefix w s"
  by (simp add: take_eq_prefix)

text \<open>A single-word pattern is a case-insensitive substring test.\<close>

lemma re_test_word: "re_test [[Lit w]] s \<longleftrightarrow> sublist (lower w) (lower s)"
proof -
  have "re_test [[Lit w]] s \<longleftrightarrow> (\<exists>t. suffix t (lower s) \<and> prefix (lower w) t)"
    by (auto simp: re_test_def list_ex_iff tails_suffix take_eq_lower_prefix)
  also have "\<dots> \<longleftrightarrow> sublist (lower w) (lower s)"
    by (auto simp: sublist_def prefix_def suffix_def)
  finally show ?thesis .
qed


lemma is_2d_simps [simp]:
  "is_2d TwoD" "is_2d TwoD_SPATIAL" "\<not> is_2d OneD" "\<not> is_2d NoValue" "\<not> is_2d ThreeD"
  "\<not> is_2d ThreeD_SPATIAL" "\<not> is_2d ShapeType" "\<not> is_2d OtherType"
  by (simp_all add: is_2d_def)

lemma prop_by_name_eq_mname:
  "\<forall>c \<in> set (kids g). dname c \<noteq> s \<Longrightarrow> prop_by_name g s = find_idx (\<lambda>c. mname c = s) (kids g)"
  unfolding prop_by_name_def by (rule find_idx_cong) auto

lemma first_some_prop_by_name_eq:
  "ids_not_names g ids \<Longrightarrow>
     first_some (prop_by_name g) ids = first_some (\<lambda>m. find_idx (\<lambda>c. mname c = m) (kids g)) ids"
  by (induction ids) (auto simp: ids_not_names_def prop_by_name_eq_mname)

lemma first_some_Some: "first_some f xs = Some y \<Longrightarrow> \<exists>x \<in> set xs. f x = Some y"
  by (induction xs) (auto simp: alt_def split: option.splits)

lemma first_some_None: "first_some f xs = None \<longleftrightarrow> (\<forall>x \<in> set xs. f x = None)"
  by (induction xs) (auto simp: alt_def split: option.splits)

lemma find_idx_Some_bound [simp]: "find_idx P xs = Some i \<Longrightarrow> i < length xs"
  by (rule find_idx_Some_less)

lemma prop_by_name_less: "prop_by_name g s = Some i \<Longrightarrow> i < length (kids g)"
  by (auto simp: prop_by_name_def)

lemma find_one_d_less: "find_one_d g pref re = Some i \<Longrightarrow> i < length (kids g)"
  by (auto simp: find_one_d_def alt_def prop_by_name_def split: option.splits dest!: first_some_Some)

lemmas finder_defs = find_vector_position_def find_rotation_def find_copies_def rep_xform_def
  find_rep_anchor_def find_offset_def find_scale_def find_start_opacity_def find_end_opacity_def

lemma finder_less:
  "find_vector_position x = Some i \<Longrightarrow> i < length (kids x)"
  "find_rotation x = Some i \<Longrightarrow> i < length (kids x)"
  "find_copies x = Some i \<Longrightarrow> i < length (kids x)"
  "rep_xform x = Some i \<Longrightarrow> i < length (kids x)"
  "find_rep_anchor x = Some i \<Longrightarrow> i < length (kids x)"
  "find_offset x = Some i \<Longrightarrow> i < length (kids x)"
  "find_scale x = Some i \<Longrightarrow> i < length (kids x)"
  "find_start_opacity x = Some i \<Longrightarrow> i < length (kids x)"
  "find_end_opacity x = Some i \<Longrightarrow> i < length (kids x)"
  by (auto simp: finder_defs alt_def prop_by_name_def split: option.splits dest: find_one_d_less)

end
