(* ===== verification/Pivot.thy ===== *)
theory Pivot
  imports Resolver
begin

text \<open>
  The Pivot Compensator (spec 4.3): \<open>setAnchorAndCompensate\<close> and
  \<open>centerLayerAnchorToContents\<close> of src/CenterAP_AddRepeater_v2.0.jsx (lines 161-175).
  The layer's anchor point and position live in its transform group; the script moves
  the anchor to a target and shifts the position by the same amount, so that the
  rendered layer does not move. The lemmas show the shift is exact, that only the two
  properties change, and that centring twice is centring once.
\<close>

section \<open>Reading the transform\<close>

definition transform_idx :: "node \<Rightarrow> nat option" where
  "transform_idx n = prop_by_name n ''ADBE Transform Group''"

text \<open>\<open>tr && tr.property("ADBE Anchor Point")\<close> as a path from the layer.\<close>

definition anchor_path :: "node \<Rightarrow> path option" where
  "anchor_path n =
     (case transform_idx n of
        None \<Rightarrow> None
      | Some t \<Rightarrow> map_option (\<lambda>a. [t, a]) (prop_by_name (kids n ! t) ''ADBE Anchor Point''))"

definition position_path :: "node \<Rightarrow> path option" where
  "position_path n =
     (case transform_idx n of
        None \<Rightarrow> None
      | Some t \<Rightarrow> map_option (\<lambda>p. [t, p]) (prop_by_name (kids n ! t) ''ADBE Position''))"

text \<open>
  \<open>v[0], v[1]\<close> of an array value. A value with fewer than two numbers would give
  \<open>NaN\<close> in JavaScript, which the host refuses to store; the model raises that
  refusal at the read.
\<close>

definition vec2 :: "pval \<Rightarrow> (real \<times> real) option" where
  "vec2 v = (case v of VVec (x # y # _) \<Rightarrow> Some (x, y) | _ \<Rightarrow> None)"

definition read_vec2 :: "path \<Rightarrow> (layer, real \<times> real) exc" where
  "read_vec2 p =
     ebind (read_at p)
       (\<lambda>n. case vec2 (val_of n) of
               None \<Rightarrow> throw (HostFault ''NaN component'')
             | Some v \<Rightarrow> ret v)"

section \<open>The operations\<close>

definition set_anchor_and_compensate :: "real \<times> real \<Rightarrow> (layer, unit) exc" where
  "set_anchor_and_compensate nap l =
     (case (anchor_path (lnode l), position_path (lnode l)) of
        (Some pa, Some pp) \<Rightarrow>
          ebind (read_vec2 pa) (\<lambda>(ox, oy).
            ebind (write_at pa (set_value (VVec [fst nap, snd nap]))) (\<lambda>_.
              ebind (read_vec2 pp) (\<lambda>(px, py).
                write_at pp (set_value (VVec [px + (fst nap - ox), py + (snd nap - oy)]))))) l
      | _ \<Rightarrow> throw (Thrown ''Could not access layer Anchor/Position.'') l)"

definition contents_idx :: "node \<Rightarrow> nat option" where
  "contents_idx n = prop_by_name n ''ADBE Root Vectors Group''"

definition contents_of :: "node \<Rightarrow> node option" where
  "contents_of n = map_option (\<lambda>i. kids n ! i) (contents_idx n)"

text \<open>The midpoint of a rectangle: \<open>[r.left + r.width/2, r.top + r.height/2]\<close>.\<close>

definition rect_center :: "rect \<Rightarrow> real \<times> real" where
  "rect_center r = (rleft r + rwidth r / 2, rtop r + rheight r / 2)"

definition center_layer_anchor_to_contents :: "host \<Rightarrow> (layer, unit) exc" where
  "center_layer_anchor_to_contents h l =
     (case contents_of (lnode l) of
        None \<Rightarrow> throw (Thrown ''The shape layer has no contents. Add a shape first.'') l
      | Some c \<Rightarrow>
          if kids c = [] then throw (Thrown ''The shape layer has no contents. Add a shape first.'') l
          else set_anchor_and_compensate (rect_center (source_rect h False (contents_of (lnode l)))) l)"

section \<open>Observing the pivot\<close>

text \<open>The property types a write of \<open>[x, y]\<close> fits.\<close>

definition takes_xy :: "pvtype \<Rightarrow> bool" where
  "takes_xy t \<longleftrightarrow> t \<in> {TwoD, TwoD_SPATIAL, ThreeD, ThreeD_SPATIAL}"

definition anchor_of :: "layer \<Rightarrow> (real \<times> real) option" where
  "anchor_of l = Option.bind (anchor_path (lnode l)) (\<lambda>p. Option.bind (node_at l p) (\<lambda>n. vec2 (val_of n)))"

definition position_of :: "layer \<Rightarrow> (real \<times> real) option" where
  "position_of l = Option.bind (position_path (lnode l)) (\<lambda>p. Option.bind (node_at l p) (\<lambda>n. vec2 (val_of n)))"

text \<open>
  The layer's transform is usable: the anchor point and the position are two distinct
  two-dimensional properties holding two numbers each, and the contents group is not
  the transform group.
\<close>

definition pivot_ok :: "layer \<Rightarrow> bool" where
  "pivot_ok l \<longleftrightarrow>
     (case (anchor_path (lnode l), position_path (lnode l)) of
        (Some pa, Some pp) \<Rightarrow>
          pa \<noteq> pp \<and>
          (case (node_at l pa, node_at l pp) of
             (Some a, Some p) \<Rightarrow> takes_xy (vtype a) \<and> takes_xy (vtype p) \<and>
                                vec2 (val_of a) \<noteq> None \<and> vec2 (val_of p) \<noteq> None
           | _ \<Rightarrow> False)
      | _ \<Rightarrow> False)"

definition has_contents :: "layer \<Rightarrow> bool" where
  "has_contents l \<longleftrightarrow> (case contents_of (lnode l) of None \<Rightarrow> False | Some c \<Rightarrow> kids c \<noteq> [])"

text \<open>The anchor and position hold exactly two numbers (as after a write of \<open>[x, y]\<close>).\<close>

definition pivot_exact :: "layer \<Rightarrow> bool" where
  "pivot_exact l \<longleftrightarrow>
     (case (anchor_path (lnode l), position_path (lnode l)) of
        (Some pa, Some pp) \<Rightarrow>
          (case (node_at l pa, node_at l pp) of
             (Some a, Some p) \<Rightarrow> (\<exists>x y. val_of a = VVec [x, y]) \<and> (\<exists>x y. val_of p = VVec [x, y])
           | _ \<Rightarrow> False)
      | _ \<Rightarrow> False)"

definition pivot_paths :: "layer \<Rightarrow> path set" where
  "pivot_paths l = set_option (anchor_path (lnode l)) \<union> set_option (position_path (lnode l))"

definition contents_apart :: "layer \<Rightarrow> bool" where
  "contents_apart l \<longleftrightarrow> contents_idx (lnode l) \<noteq> transform_idx (lnode l)"

section \<open>Lemmas\<close>


lemma vec2_VVec2 [simp]: "vec2 (VVec [x, y]) = Some (x, y)"
  by (simp add: vec2_def)

lemma fits_xy: "takes_xy t \<Longrightarrow> fits t (VVec [x, y])"
  by (auto simp: takes_xy_def)

lemma anchor_path_shape:
  "anchor_path n = Some pa \<Longrightarrow> \<exists>t a. transform_idx n = Some t \<and> pa = [t, a]"
  by (auto simp: anchor_path_def split: option.splits)

lemma position_path_shape:
  "position_path n = Some pp \<Longrightarrow> \<exists>t p. transform_idx n = Some t \<and> pp = [t, p]"
  by (auto simp: position_path_def split: option.splits)

lemma pivot_paths_indep:
  "anchor_path n = Some pa \<Longrightarrow> position_path n = Some pp \<Longrightarrow> pa \<noteq> pp \<Longrightarrow> indep pa pp"
  by (auto dest!: anchor_path_shape position_path_shape)

lemma indep_sym: "indep p q \<Longrightarrow> indep q p"
  by (induction p q rule: indep.induct) auto

text \<open>Writes that keep names keep every lookup of the transform and the contents.\<close>

lemma lookups_upd:
  assumes "get_at n (t # a # q) = Some m" and "mname (f m) = mname m" and "dname (f m) = dname m"
  shows "transform_idx (upd_at (t # a # q) f n) = transform_idx n"
    and "contents_idx (upd_at (t # a # q) f n) = contents_idx n"
    and "anchor_path (upd_at (t # a # q) f n) = anchor_path n"
    and "position_path (upd_at (t # a # q) f n) = position_path n"
proof -
  have top: "names_of (upd_at (t # a # q) f n) = names_of n"
    using assms by (rule names_of_upd)
  show t: "transform_idx (upd_at (t # a # q) f n) = transform_idx n"
    unfolding transform_idx_def using top by (rule prop_by_name_names)
  show "contents_idx (upd_at (t # a # q) f n) = contents_idx n"
    unfolding contents_idx_def using top by (rule prop_by_name_names)
  have tl: "t < length (kids n)" and sub: "get_at (kids n ! t) (a # q) = Some m"
    using assms(1) by (simp_all split: if_splits)
  have kid: "names_of (kids (upd_at (t # a # q) f n) ! k) = names_of (kids n ! k)" for k
  proof (cases "k = t")
    case True
    have "names_of (upd_at (a # q) f (kids n ! t)) = names_of (kids n ! t)"
      using sub assms(2,3) by (rule names_of_upd)
    with True tl show ?thesis by (simp only: kids_upd_at_Cons_nth)
  next
    case False
    then show ?thesis by (simp add: nth_list_update)
  qed
  have kid': "prop_by_name (kids (upd_at (t # a # q) f n) ! k) s = prop_by_name (kids n ! k) s" for k s
    using kid[of k] by (rule prop_by_name_names)
  show "anchor_path (upd_at (t # a # q) f n) = anchor_path n"
    unfolding anchor_path_def t kid' ..
  show "position_path (upd_at (t # a # q) f n) = position_path n"
    unfolding position_path_def t kid' ..
qed

lemma set_value_names: "set_value v n = Inr n' \<Longrightarrow> mname n' = mname n \<and> dname n' = dname n"
  by (auto simp: set_value_Inr)

lemma read_vec2_at:
  "node_at l p = Some n \<Longrightarrow> vec2 (val_of n) = Some v \<Longrightarrow> read_vec2 p l = (Inr v, l)"
  by (simp add: read_vec2_def read_at_def ebind_apply)

lemma write_value_at:
  "node_at l p = Some n \<Longrightarrow> fits (vtype n) v \<Longrightarrow>
     write_at p (set_value v) l = (Inr (), l\<lparr>lnode := upd_at p (\<lambda>_. Node (attrs n\<lparr>pvalue := v\<rparr>) (kids n)) (lnode l)\<rparr>)"
  by (simp add: write_at_def set_value_def)

text \<open>The two writes of \<open>setAnchorAndCompensate\<close>, computed.\<close>

lemma set_anchor_and_compensate_ok:
  assumes pa: "anchor_path (lnode l) = Some pa" and pp: "position_path (lnode l) = Some pp"
    and ne: "pa \<noteq> pp" and a: "node_at l pa = Some a" and p: "node_at l pp = Some p"
    and ta: "takes_xy (vtype a)" and tp: "takes_xy (vtype p)"
    and va: "vec2 (val_of a) = Some (ax, ay)" and vp: "vec2 (val_of p) = Some (px, py)"
  shows "set_anchor_and_compensate (x, y) l =
           (Inr (), l\<lparr>lnode := upd_at pp (\<lambda>_. Node (attrs p\<lparr>pvalue := VVec [px + (x - ax), py + (y - ay)]\<rparr>) (kids p))
                        (upd_at pa (\<lambda>_. Node (attrs a\<lparr>pvalue := VVec [x, y]\<rparr>) (kids a)) (lnode l))\<rparr>)"
proof -
  let ?l1 = "l\<lparr>lnode := upd_at pa (\<lambda>_. Node (attrs a\<lparr>pvalue := VVec [x, y]\<rparr>) (kids a)) (lnode l)\<rparr>"
  have r1: "read_vec2 pa l = (Inr (ax, ay), l)"
    using a va by (rule read_vec2_at)
  have w1: "write_at pa (set_value (VVec [x, y])) l = (Inr (), ?l1)"
    using a ta by (simp add: write_value_at fits_xy)
  have "indep pp pa"
    using pivot_paths_indep[OF pa pp ne] by (rule indep_sym)
  then have p1: "node_at ?l1 pp = Some p"
    using p by (simp add: node_at_def get_upd_indep)
  have r2: "read_vec2 pp ?l1 = (Inr (px, py), ?l1)"
    using p1 vp by (rule read_vec2_at)
  have w2: "write_at pp (set_value (VVec [px + (x - ax), py + (y - ay)])) ?l1 =
      (Inr (), ?l1\<lparr>lnode := upd_at pp (\<lambda>_. Node (attrs p\<lparr>pvalue := VVec [px + (x - ax), py + (y - ay)]\<rparr>) (kids p)) (lnode ?l1)\<rparr>)"
    using p1 tp by (simp add: write_value_at fits_xy)
  show ?thesis
    by (simp add: set_anchor_and_compensate_def pa pp r1 w1 r2 w2)
qed

lemma pivot_okE:
  assumes "pivot_ok l"
  obtains pa pp a p where "anchor_path (lnode l) = Some pa" "position_path (lnode l) = Some pp"
    "pa \<noteq> pp" "node_at l pa = Some a" "node_at l pp = Some p" "takes_xy (vtype a)" "takes_xy (vtype p)"
    "vec2 (val_of a) \<noteq> None" "vec2 (val_of p) \<noteq> None"
  using assms by (auto simp: pivot_ok_def split: option.splits)

text \<open>
  The state after a successful compensation, read back through the layer's own
  lookups: the anchor is the target, the position moved by the same amount, every node
  away from the two properties is as it was.
\<close>

lemma set_anchor_and_compensate_result:
  assumes ok: "pivot_ok l" and av: "anchor_of l = Some (ax, ay)" and pv: "position_of l = Some (px, py)"
  obtains l' where "set_anchor_and_compensate (x, y) l = (Inr (), l')"
    and "anchor_path (lnode l') = anchor_path (lnode l)" and "position_path (lnode l') = position_path (lnode l)"
    and "transform_idx (lnode l') = transform_idx (lnode l)" and "contents_idx (lnode l') = contents_idx (lnode l)"
    and "anchor_of l' = Some (x, y)" and "position_of l' = Some (px + (x - ax), py + (y - ay))"
    and "pivot_ok l'" and "pivot_exact l'"
    and "\<And>q. (\<forall>r \<in> pivot_paths l. indep q r) \<Longrightarrow> node_at l' q = node_at l q"
    and "comment l' = comment l" and "selected l' = selected l"
proof -
  from ok obtain pa pp a p where pa: "anchor_path (lnode l) = Some pa" and pp: "position_path (lnode l) = Some pp"
    and ne: "pa \<noteq> pp" and a: "node_at l pa = Some a" and p: "node_at l pp = Some p"
    and ta: "takes_xy (vtype a)" and tp: "takes_xy (vtype p)"
    by (rule pivot_okE)
  from av pa a have va: "vec2 (val_of a) = Some (ax, ay)" by (simp add: anchor_of_def)
  from pv pp p have vp: "vec2 (val_of p) = Some (px, py)" by (simp add: position_of_def)
  define f1 where "f1 = (\<lambda>_::node. Node (attrs a\<lparr>pvalue := VVec [x, y]\<rparr>) (kids a))"
  define f2 where "f2 = (\<lambda>_::node. Node (attrs p\<lparr>pvalue := VVec [px + (x - ax), py + (y - ay)]\<rparr>) (kids p))"
  define n1 where "n1 = upd_at pa f1 (lnode l)"
  define l' where "l' = l\<lparr>lnode := upd_at pp f2 n1\<rparr>"
  have run: "set_anchor_and_compensate (x, y) l = (Inr (), l')"
    using set_anchor_and_compensate_ok[OF pa pp ne a p ta tp va vp] by (simp add: l'_def n1_def f1_def f2_def)
  obtain t ai where pa_eq: "pa = [t, ai]"
    using anchor_path_shape[OF pa] by blast
  obtain t' pi where pp_eq: "pp = [t', pi]"
    using position_path_shape[OF pp] by blast
  have ind: "indep pa pp" using pa pp ne by (rule pivot_paths_indep)
  have ga: "get_at (lnode l) [t, ai] = Some a" using a pa_eq by (simp add: node_at_def)
  have gp1: "get_at n1 pp = Some p" using p ind by (simp add: n1_def node_at_def get_upd_indep indep_sym)
  then have gp1': "get_at n1 [t', pi] = Some p" by (simp add: pp_eq)
  have L1: "transform_idx n1 = transform_idx (lnode l)" "contents_idx n1 = contents_idx (lnode l)"
    "anchor_path n1 = anchor_path (lnode l)" "position_path n1 = position_path (lnode l)"
    using lookups_upd[OF ga, of f1] by (simp_all add: n1_def pa_eq f1_def)
  have L2: "transform_idx (upd_at pp f2 n1) = transform_idx n1" "contents_idx (upd_at pp f2 n1) = contents_idx n1"
    "anchor_path (upd_at pp f2 n1) = anchor_path n1" "position_path (upd_at pp f2 n1) = position_path n1"
    using lookups_upd[OF gp1', of f2] by (simp_all add: pp_eq f2_def)
  have ga1: "get_at n1 pa = Some (f1 a)"
    unfolding n1_def using a by (simp add: node_at_def get_upd_same)
  have na: "node_at l' pa = Some (f1 a)"
    using ind ga1 by (simp add: l'_def node_at_def get_upd_indep)
  have np: "node_at l' pp = Some (f2 p)"
    by (simp add: l'_def node_at_def get_upd_same gp1)
  show ?thesis
  proof (rule that[OF run])
    show "anchor_path (lnode l') = anchor_path (lnode l)" "position_path (lnode l') = position_path (lnode l)"
      "transform_idx (lnode l') = transform_idx (lnode l)" "contents_idx (lnode l') = contents_idx (lnode l)"
      using L1 L2 by (simp_all add: l'_def)
    show "anchor_of l' = Some (x, y)"
      using L1 L2 pa na by (simp add: anchor_of_def l'_def f1_def)
    show "position_of l' = Some (px + (x - ax), py + (y - ay))"
      using L1 L2 pp np by (simp add: position_of_def l'_def f2_def)
    show "pivot_ok l'"
      using L1 L2 pa pp ne na np ta tp by (simp add: pivot_ok_def l'_def f1_def f2_def)
    show "pivot_exact l'"
      using L1 L2 pa pp na np by (simp add: pivot_exact_def l'_def f1_def f2_def)
    show "comment l' = comment l" "selected l' = selected l" by (simp_all add: l'_def)
    fix q
    assume "\<forall>r \<in> pivot_paths l. indep q r"
    then have "indep q pa" "indep q pp" by (simp_all add: pivot_paths_def pa pp)
    then show "node_at l' q = node_at l q"
      by (simp add: l'_def node_at_def n1_def get_upd_indep)
  qed
qed

lemma set_anchor_and_compensate_fixpoint:
  assumes ok: "pivot_ok l" and ex: "pivot_exact l" and av: "anchor_of l = Some (x, y)"
  shows "set_anchor_and_compensate (x, y) l = (Inr (), l)"
proof -
  from ok obtain pa pp a p where pa: "anchor_path (lnode l) = Some pa" and pp: "position_path (lnode l) = Some pp"
    and ne: "pa \<noteq> pp" and a: "node_at l pa = Some a" and p: "node_at l pp = Some p"
    and ta: "takes_xy (vtype a)" and tp: "takes_xy (vtype p)"
    by (rule pivot_okE)
  from ex pa pp a p obtain x' y' px py where xa: "val_of a = VVec [x', y']" and xp: "val_of p = VVec [px, py]"
    by (auto simp: pivot_exact_def)
  from av pa a xa have xy: "x' = x" "y' = y" by (simp_all add: anchor_of_def)
  have va: "vec2 (val_of a) = Some (x, y)" and vp: "vec2 (val_of p) = Some (px, py)"
    using xa xp xy by simp_all
  have fa: "Node (attrs a\<lparr>pvalue := VVec [x, y]\<rparr>) (kids a) = a"
    using xa xy by (cases a) simp
  have fp: "Node (attrs p\<lparr>pvalue := VVec [px + (x - x), py + (y - y)]\<rparr>) (kids p) = p"
    using xp by (cases p) simp
  have n1: "upd_at pa (\<lambda>_. Node (attrs a\<lparr>pvalue := VVec [x, y]\<rparr>) (kids a)) (lnode l) = lnode l"
    using a fa by (simp add: node_at_def upd_at_id)
  have n2: "upd_at pp (\<lambda>_. Node (attrs p\<lparr>pvalue := VVec [px + (x - x), py + (y - y)]\<rparr>) (kids p)) (lnode l) = lnode l"
    using p fp by (simp add: node_at_def upd_at_id)
  show ?thesis
    using set_anchor_and_compensate_ok[OF pa pp ne a p ta tp va vp, of x y] n1 n2 by simp
qed

lemma pivot_ok_values:
  assumes "pivot_ok l" obtains ax ay px py where "anchor_of l = Some (ax, ay)" "position_of l = Some (px, py)"
  using assms by (auto simp: pivot_ok_def anchor_of_def position_of_def split: option.splits)

lemma contents_of_frame:
  assumes ap: "contents_apart l" and ci: "contents_idx (lnode l') = contents_idx (lnode l)"
    and ti: "transform_idx (lnode l') = transform_idx (lnode l)"
    and fr: "\<And>q. (\<forall>r \<in> pivot_paths l. indep q r) \<Longrightarrow> node_at l' q = node_at l q"
  shows "contents_of (lnode l') = contents_of (lnode l)"
proof (cases "contents_idx (lnode l)")
  case None
  with ci show ?thesis by (simp add: contents_of_def)
next
  case (Some c)
  have "\<forall>r \<in> pivot_paths l. indep [c] r"
    using ap Some by (auto simp: pivot_paths_def contents_apart_def dest!: anchor_path_shape position_path_shape)
  then have "node_at l' [c] = node_at l [c]" by (rule fr)
  then have eq: "get_at (lnode l') [c] = get_at (lnode l) [c]" by (simp add: node_at_def)
  have "c < length (kids (lnode l))" using Some by (simp add: contents_idx_def prop_by_name_less)
  moreover have "c < length (kids (lnode l'))" using Some ci by (simp add: contents_idx_def prop_by_name_less)
  ultimately have "kids (lnode l') ! c = kids (lnode l) ! c" using eq by simp
  with Some ci show ?thesis by (simp add: contents_of_def)
qed

lemmas pivot_eval = pivot_ok_def contents_apart_def has_contents_def anchor_of_def position_of_def
  anchor_path_def position_path_def transform_idx_def contents_idx_def contents_of_def prop_by_name_def
  node_at_def takes_xy_def vec2_def scene_defs

text \<open>
  C1. Pivot compensation is visually neutral: on a layer whose anchor point and position
  are usable, \<open>setAnchorAndCompensate\<close> succeeds, puts the anchor point at the
  target, and leaves the rendered offset, position minus anchor point, unchanged.
\<close>

theorem set_anchor_and_compensate_neutral:
  assumes "pivot_ok l" and "anchor_of l = Some (ax, ay)" and "position_of l = Some (px, py)"
  shows "\<exists>l' px' py'. set_anchor_and_compensate (x, y) l = (Inr (), l') \<and> anchor_of l' = Some (x, y) \<and>
           position_of l' = Some (px', py') \<and> px' - x = px - ax \<and> py' - y = py - ay"
proof -
  obtain l' where "set_anchor_and_compensate (x, y) l = (Inr (), l')" and "anchor_of l' = Some (x, y)"
    and "position_of l' = Some (px + (x - ax), py + (y - ay))"
    using set_anchor_and_compensate_result[OF assms] by metis
  then show ?thesis by auto
qed

theorem set_anchor_and_compensate_neutral_witness:
  "pivot_ok demo_layer \<and> anchor_of demo_layer = Some (10, 5) \<and> position_of demo_layer = Some (960, 540) \<and>
   (\<exists>l' px' py'. set_anchor_and_compensate (0, 0) demo_layer = (Inr (), l') \<and> anchor_of l' = Some (0, 0) \<and>
      position_of l' = Some (px', py') \<and> px' - 0 = 960 - 10 \<and> py' - 0 = 540 - 5)"
proof -
  have h: "pivot_ok demo_layer" "anchor_of demo_layer = Some (10, 5)" "position_of demo_layer = Some (960, 540)"
    by (simp_all add: pivot_eval)
  show ?thesis using h set_anchor_and_compensate_neutral[OF h, of 0 0] by blast
qed

text \<open>
  C2. Centring is idempotent: on a layer with a usable transform and non-empty contents,
  \<open>centerLayerAnchorToContents\<close> succeeds, and running it again on the result
  succeeds and changes nothing (the same pivot, the same position, the same document).
\<close>

theorem center_layer_anchor_to_contents_idempotent:
  assumes ok: "pivot_ok l" and ap: "contents_apart l" and hc: "has_contents l"
  shows "\<exists>l'. center_layer_anchor_to_contents h l = (Inr (), l') \<and> center_layer_anchor_to_contents h l' = (Inr (), l')"
proof -
  obtain c where c: "contents_of (lnode l) = Some c" "kids c \<noteq> []"
    using hc by (auto simp: has_contents_def split: option.splits)
  obtain x y where xy: "rect_center (source_rect h False (contents_of (lnode l))) = (x, y)"
    by (cases "rect_center (source_rect h False (contents_of (lnode l)))")
  obtain ax ay px py where av: "anchor_of l = Some (ax, ay)" and pv: "position_of l = Some (px, py)"
    using ok by (rule pivot_ok_values)
  obtain l' where run: "set_anchor_and_compensate (x, y) l = (Inr (), l')"
    and ci: "contents_idx (lnode l') = contents_idx (lnode l)" and ti: "transform_idx (lnode l') = transform_idx (lnode l)"
    and av': "anchor_of l' = Some (x, y)" and ok': "pivot_ok l'" and ex': "pivot_exact l'"
    and fr: "\<And>q. (\<forall>r \<in> pivot_paths l. indep q r) \<Longrightarrow> node_at l' q = node_at l q"
    using set_anchor_and_compensate_result[OF ok av pv] by metis
  have co: "contents_of (lnode l') = contents_of (lnode l)"
    using ap ci ti fr by (rule contents_of_frame)
  have first: "center_layer_anchor_to_contents h l = (Inr (), l')"
    using c xy run by (simp add: center_layer_anchor_to_contents_def)
  have "center_layer_anchor_to_contents h l' = set_anchor_and_compensate (x, y) l'"
    using c xy co by (simp add: center_layer_anchor_to_contents_def)
  also have "\<dots> = (Inr (), l')"
    using ok' ex' av' by (rule set_anchor_and_compensate_fixpoint)
  finally show ?thesis using first by blast
qed

theorem center_layer_anchor_to_contents_idempotent_witness:
  "pivot_ok demo_layer \<and> contents_apart demo_layer \<and> has_contents demo_layer \<and>
   (\<exists>l'. center_layer_anchor_to_contents demo_host demo_layer = (Inr (), l') \<and>
         center_layer_anchor_to_contents demo_host l' = (Inr (), l'))"
proof -
  have h: "pivot_ok demo_layer" "contents_apart demo_layer" "has_contents demo_layer"
    by (simp_all add: pivot_eval)
  show ?thesis using h center_layer_anchor_to_contents_idempotent[OF h] by blast
qed

text \<open>
  C3. Centring moves the anchor point to the midpoint of the rectangle the host reports
  for the contents queried with \<open>includeExtents = false\<close> (stroke extent excluded),
  and compensates the position by the same amount.
\<close>

theorem center_layer_anchor_to_contents_target:
  assumes "pivot_ok l" and "has_contents l" and "anchor_of l = Some (ax, ay)" and "position_of l = Some (px, py)"
    and "rect_center (source_rect h False (contents_of (lnode l))) = (x, y)"
  shows "\<exists>l'. center_layer_anchor_to_contents h l = (Inr (), l') \<and> anchor_of l' = Some (x, y) \<and>
           position_of l' = Some (px + (x - ax), py + (y - ay))"
proof -
  obtain c where c: "contents_of (lnode l) = Some c" "kids c \<noteq> []"
    using assms(2) by (auto simp: has_contents_def split: option.splits)
  obtain l' where "set_anchor_and_compensate (x, y) l = (Inr (), l')" and "anchor_of l' = Some (x, y)"
    and "position_of l' = Some (px + (x - ax), py + (y - ay))"
    using set_anchor_and_compensate_result[OF assms(1,3,4)] by metis
  with c assms(5) show ?thesis by (simp add: center_layer_anchor_to_contents_def)
qed

theorem center_layer_anchor_to_contents_target_witness:
  "pivot_ok demo_layer \<and> has_contents demo_layer \<and> anchor_of demo_layer = Some (10, 5) \<and>
   position_of demo_layer = Some (960, 540) \<and>
   rect_center (source_rect demo_host False (contents_of (lnode demo_layer))) = (0, 0) \<and>
   (\<exists>l'. center_layer_anchor_to_contents demo_host demo_layer = (Inr (), l') \<and> anchor_of l' = Some (0, 0) \<and>
      position_of l' = Some (960 + (0 - 10), 540 + (0 - 5)))"
proof -
  have h: "pivot_ok demo_layer" "has_contents demo_layer" "anchor_of demo_layer = Some (10, 5)"
    "position_of demo_layer = Some (960, 540)"
    "rect_center (source_rect demo_host False (contents_of (lnode demo_layer))) = (0, 0)"
    by (simp_all add: pivot_eval demo_host_def demo_rect_def rect_center_def)
  show ?thesis using h center_layer_anchor_to_contents_target[OF h] by blast
qed

text \<open>
  C4. Centring a layer whose contents group is missing or empty throws the script's
  "no contents" message and leaves the layer untouched.
\<close>

theorem center_layer_anchor_to_contents_no_contents:
  assumes "\<not> has_contents l"
  shows "center_layer_anchor_to_contents h l =
           (Inl (Thrown ''The shape layer has no contents. Add a shape first.''), l)"
  using assms by (auto simp: center_layer_anchor_to_contents_def has_contents_def split: option.splits)

theorem center_layer_anchor_to_contents_no_contents_witness:
  "\<not> has_contents empty_layer \<and>
   center_layer_anchor_to_contents demo_host empty_layer =
     (Inl (Thrown ''The shape layer has no contents. Add a shape first.''), empty_layer)"
proof -
  have h: "\<not> has_contents empty_layer" by (simp add: pivot_eval)
  show ?thesis using h center_layer_anchor_to_contents_no_contents[OF h] by blast
qed

end
