(* ===== verification/Geometry.thy ===== *)
theory Geometry
  imports Pivot
begin

text \<open>
  The Geometry Measurer (spec 4.2): \<open>measureShape\<close> of
  src/CenterAP_AddRepeater_v2.0.jsx (lines 258-335) with its helpers \<open>bboxFromShape\<close>
  and \<open>walk\<close>. The walk visits the layer's contents depth first; it keeps the first
  usable size of a rectangle, an ellipse or a free path (stroke excluded), and the
  largest absolute stroke width anywhere; without a size it falls back to the host's
  bounding box queried without extents. The lemmas relate the walk to a reference
  description (the items in depth-first order, the first size, the largest stroke) and
  the vertex loop of \<open>bboxFromShape\<close> to the true extent of the vertices.
\<close>

section \<open>State of the walk and the result\<close>

text \<open>\<open>strokeW\<close> and the pair \<open>sizeW, sizeH\<close> (always set together), \<open>null\<close> as \<open>None\<close>.\<close>

record mstate =
  stroke_acc :: "real option"
  size_acc :: "(real \<times> real) option"

record measurement =
  mw :: real
  mh :: real
  mstroke :: real

definition mstate0 :: mstate where
  "mstate0 = \<lparr>stroke_acc = None, size_acc = None\<rparr>"

text \<open>\<open>group.property(name)\<close> as the node it returns.\<close>

definition prop_named :: "node \<Rightarrow> string \<Rightarrow> node option" where
  "prop_named g s = map_option (\<lambda>i. kids g ! i) (prop_by_name g s)"

section \<open>bboxFromShape\<close>

text \<open>
  The loop starts from the sentinels \<open>minX = 1e9, maxX = -1e9\<close> (and the same for
  \<open>y\<close>) and narrows them vertex by vertex; a value without vertices gives \<open>null\<close>.
\<close>

definition bbox_step :: "real \<times> real \<Rightarrow> real \<times> real \<times> real \<times> real \<Rightarrow> real \<times> real \<times> real \<times> real" where
  "bbox_step pt acc =
     (case acc of (minX, maxX, minY, maxY) \<Rightarrow>
        (if fst pt < minX then fst pt else minX, if fst pt > maxX then fst pt else maxX,
         if snd pt < minY then snd pt else minY, if snd pt > maxY then snd pt else maxY))"

definition bbox_from_shape :: "pval \<Rightarrow> (real \<times> real) option" where
  "bbox_from_shape v =
     (case v of
        VShape vs \<Rightarrow>
          if vs = [] then None
          else (case foldl (\<lambda>acc pt. bbox_step pt acc) (1000000000, -1000000000, 1000000000, -1000000000) vs of
                  (minX, maxX, minY, maxY) \<Rightarrow> Some (max 0 (maxX - minX), max 0 (maxY - minY)))
      | _ \<Rightarrow> None)"

section \<open>walk\<close>

text \<open>
  One iteration of the loop of \<open>walk\<close> on a child that is not a group. Sizes are read
  as \<open>Math.abs(v[0]), Math.abs(v[1])\<close> of a two-number value; a stroke width as
  \<open>Math.abs\<close> of a number. (The host gives these properties such values; a value of
  another shape would be \<open>NaN\<close> in JavaScript and is not modelled.)
\<close>

definition abs_pair :: "(real \<times> real) option \<Rightarrow> (real \<times> real) option" where
  "abs_pair = map_option (\<lambda>(x, y). (\<bar>x\<bar>, \<bar>y\<bar>))"

definition num_of :: "pval \<Rightarrow> real option" where
  "num_of v = (case v of VNum x \<Rightarrow> Some x | _ \<Rightarrow> None)"

definition walk_leaf :: "node \<Rightarrow> mstate \<Rightarrow> mstate" where
  "walk_leaf p st =
     (if mname p = ''ADBE Vector Graphic - Stroke'' then
        (case Option.bind (prop_named p ''ADBE Vector Stroke Width'') (\<lambda>sw. num_of (val_of sw)) of
           None \<Rightarrow> st
         | Some x \<Rightarrow>
             let v = \<bar>x\<bar> in
             if stroke_acc st = None \<or> v > the (stroke_acc st) then st\<lparr>stroke_acc := Some v\<rparr> else st)
      else if mname p = ''ADBE Vector Shape - Rect'' \<and> size_acc st = None then
        (case Option.bind (prop_named p ''ADBE Vector Rect Size'') (\<lambda>s. abs_pair (vec2 (val_of s))) of
           None \<Rightarrow> st
         | Some wh \<Rightarrow> st\<lparr>size_acc := Some wh\<rparr>)
      else if mname p = ''ADBE Vector Shape - Ellipse'' \<and> size_acc st = None then
        (case Option.bind (prop_named p ''ADBE Vector Ellipse Size'') (\<lambda>s. abs_pair (vec2 (val_of s))) of
           None \<Rightarrow> st
         | Some wh \<Rightarrow> st\<lparr>size_acc := Some wh\<rparr>)
      else if mname p = ''ADBE Vector Shape - Group'' \<and> size_acc st = None then
        (case Option.bind (prop_named p ''ADBE Vector Shape'') (\<lambda>s. bbox_from_shape (val_of s)) of
           None \<Rightarrow> st
         | Some wh \<Rightarrow> st\<lparr>size_acc := Some wh\<rparr>)
      else st)"

text \<open>
  \<open>walk(group)\<close> over the children of a group: a sub-group (\<open>"ADBE Vector Group"\<close>)
  is walked through its \<open>"ADBE Vectors Group"\<close> before the loop goes on.
\<close>

function walk_list :: "node list \<Rightarrow> mstate \<Rightarrow> mstate" where
  "walk_list [] st = st"
| "walk_list (p # ps) st =
     walk_list ps
       (if mname p = ''ADBE Vector Group'' then
          (case prop_named p ''ADBE Vectors Group'' of None \<Rightarrow> st | Some g \<Rightarrow> walk_list (kids g) st)
        else walk_leaf p st)"
  by pat_completeness auto

termination
proof (relation "measure (\<lambda>(ps, st). size_list size ps)")
  fix p ps st g
  assume "prop_named p ''ADBE Vectors Group'' = Some g"
  then have "g \<in> set (kids p)" by (auto simp: prop_named_def dest: prop_by_name_less)
  then have "size g < size p" by (cases p) (auto intro: size_list_estimation' simp: less_Suc_eq_le)
  moreover have "size_list size (kids g) < size g" by (cases g) simp
  ultimately show "((kids g, st), p # ps, st) \<in> measure (\<lambda>(ps, st). size_list size ps)" by simp
qed auto

section \<open>measureShape\<close>

definition measure_shape :: "host \<Rightarrow> layer \<Rightarrow> measurement" where
  "measure_shape h l =
     (let c = contents_of (lnode l);
          st = (case c of None \<Rightarrow> mstate0 | Some g \<Rightarrow> walk_list (kids g) mstate0);
          wh = (case size_acc st of
                  Some wh \<Rightarrow> wh
                | None \<Rightarrow> let r = source_rect h False c in (\<bar>rwidth r\<bar>, \<bar>rheight r\<bar>))
      in \<lparr>mw = fst wh, mh = snd wh, mstroke = (case stroke_acc st of None \<Rightarrow> 0 | Some s \<Rightarrow> s)\<rparr>)"

section \<open>The reference description\<close>

text \<open>
  The shape items of a contents tree in depth-first order (groups replaced by their
  items), what each offers as a size or a stroke width, and the measurement spec 4.2
  describes: the first offered size, else the host's box without extents; the largest
  stroke width, else 0.
\<close>

function shape_items :: "node list \<Rightarrow> node list" where
  "shape_items [] = []"
| "shape_items (p # ps) =
     (if mname p = ''ADBE Vector Group'' then
        (case prop_named p ''ADBE Vectors Group'' of None \<Rightarrow> [] | Some g \<Rightarrow> shape_items (kids g))
      else [p]) @ shape_items ps"
  by pat_completeness auto

termination
proof (relation "measure (size_list size)")
  fix p ps g
  assume "prop_named p ''ADBE Vectors Group'' = Some g"
  then have "g \<in> set (kids p)" by (auto simp: prop_named_def dest: prop_by_name_less)
  then have "size g < size p" by (cases p) (auto intro: size_list_estimation' simp: less_Suc_eq_le)
  moreover have "size_list size (kids g) < size g" by (cases g) simp
  ultimately show "(kids g, p # ps) \<in> measure (size_list size)" by simp
qed auto

definition size_offer :: "node \<Rightarrow> (real \<times> real) option" where
  "size_offer p =
     (if mname p = ''ADBE Vector Shape - Rect'' then
        Option.bind (prop_named p ''ADBE Vector Rect Size'') (\<lambda>s. abs_pair (vec2 (val_of s)))
      else if mname p = ''ADBE Vector Shape - Ellipse'' then
        Option.bind (prop_named p ''ADBE Vector Ellipse Size'') (\<lambda>s. abs_pair (vec2 (val_of s)))
      else if mname p = ''ADBE Vector Shape - Group'' then
        Option.bind (prop_named p ''ADBE Vector Shape'') (\<lambda>s. bbox_from_shape (val_of s))
      else None)"

definition stroke_offer :: "node \<Rightarrow> real option" where
  "stroke_offer p =
     (if mname p = ''ADBE Vector Graphic - Stroke'' then
        map_option abs (Option.bind (prop_named p ''ADBE Vector Stroke Width'') (\<lambda>sw. num_of (val_of sw)))
      else None)"

definition first_opt :: "'a list \<Rightarrow> 'a option" where
  "first_opt xs = (case xs of [] \<Rightarrow> None | x # _ \<Rightarrow> Some x)"

definition contents_items :: "layer \<Rightarrow> node list" where
  "contents_items l = (case contents_of (lnode l) of None \<Rightarrow> [] | Some g \<Rightarrow> shape_items (kids g))"

definition measure_ref :: "host \<Rightarrow> layer \<Rightarrow> measurement" where
  "measure_ref h l =
     (let items = contents_items l;
          sizes = List.map_filter size_offer items;
          strokes = List.map_filter stroke_offer items;
          wh = (case first_opt sizes of
                  Some wh \<Rightarrow> wh
                | None \<Rightarrow> let r = source_rect h False (contents_of (lnode l)) in (\<bar>rwidth r\<bar>, \<bar>rheight r\<bar>))
      in \<lparr>mw = fst wh, mh = snd wh, mstroke = (if strokes = [] then 0 else Max (set strokes))\<rparr>)"

text \<open>The update of \<open>strokeW\<close>: \<open>if (strokeW === null || v > strokeW) strokeW = v\<close>.\<close>

definition max_upd :: "real option \<Rightarrow> real \<Rightarrow> real option" where
  "max_upd acc v = (if acc = None \<or> v > the acc then Some v else acc)"

text \<open>The extent of a vertex list, without sentinels.\<close>

definition bbox_ref :: "(real \<times> real) list \<Rightarrow> real \<times> real" where
  "bbox_ref vs = (Max (fst ` set vs) - Min (fst ` set vs), Max (snd ` set vs) - Min (snd ` set vs))"

section \<open>Lemmas\<close>

lemma first_opt_simps [simp]: "first_opt [] = None" "first_opt (x # xs) = Some x"
  by (simp_all add: first_opt_def)

lemma first_opt_append: "first_opt (xs @ ys) = alt (first_opt xs) (first_opt ys)"
  by (cases xs) (simp_all add: first_opt_def)

lemma shape_items_Cons_leaf:
  "mname p \<noteq> ''ADBE Vector Group'' \<Longrightarrow> shape_items (p # ps) = p # shape_items ps"
  by simp

lemma walk_leaf_char:
  assumes "mname p \<noteq> ''ADBE Vector Group''"
  shows "walk_leaf p st = st\<lparr>stroke_acc := foldl max_upd (stroke_acc st) (List.map_filter stroke_offer [p]),
                             size_acc := alt (size_acc st) (size_offer p)\<rparr>"
  by (cases "size_acc st")
     (auto simp: walk_leaf_def stroke_offer_def size_offer_def max_upd_def Let_def
        split: option.splits if_splits)

lemma walk_list_char:
  "walk_list ps st = st\<lparr>stroke_acc := foldl max_upd (stroke_acc st) (List.map_filter stroke_offer (shape_items ps)),
                        size_acc := alt (size_acc st) (first_opt (List.map_filter size_offer (shape_items ps)))\<rparr>"
proof (induction ps st rule: walk_list.induct)
  case (1 st)
  then show ?case by (simp add: first_opt_def)
next
  case (2 p ps st)
  show ?case
  proof (cases "mname p = ''ADBE Vector Group''")
    case True
    then show ?thesis
      using "2.IH" by (auto simp: first_opt_append alt_assoc split: option.splits)
  next
    case False
    then show ?thesis
      using "2.IH" by (simp add: walk_leaf_char first_opt_append alt_assoc split: option.splits)
  qed
qed

lemma Max_insert_max: "finite S \<Longrightarrow> Max (insert (max v a) S) = Max (insert a (insert v S))"
  by (cases "S = {}") (simp_all add: max.assoc max.commute max.left_commute)

lemma Min_insert_min: "finite S \<Longrightarrow> Min (insert (min v a) S) = Min (insert a (insert v S))"
  by (cases "S = {}") (simp_all add: min.assoc min.commute min.left_commute)

lemma foldl_max_upd_Some: "foldl max_upd (Some a) vs = Some (Max (insert a (set vs)))"
proof (induction vs arbitrary: a)
  case Nil
  then show ?case by simp
next
  case (Cons v vs)
  have "max_upd (Some a) v = Some (max v a)" by (simp add: max_upd_def max_def)
  with Cons.IH show ?case by (simp add: Max_insert_max)
qed

lemma foldl_max_upd_None: "foldl max_upd None vs = (if vs = [] then None else Some (Max (set vs)))"
  by (cases vs) (simp_all add: max_upd_def foldl_max_upd_Some)

lemma bbox_fold:
  "foldl (\<lambda>acc pt. bbox_step pt acc) (a, b, c, d) vs =
     (Min (insert a (fst ` set vs)), Max (insert b (fst ` set vs)),
      Min (insert c (snd ` set vs)), Max (insert d (snd ` set vs)))"
proof (induction vs arbitrary: a b c d)
  case Nil
  then show ?case by simp
next
  case (Cons v vs)
  obtain x y where v: "v = (x, y)" by (cases v)
  have "bbox_step v (a, b, c, d) = (min x a, max x b, min y c, max y d)"
    by (simp add: bbox_step_def v min_def max_def)
  with Cons.IH show ?case by (simp add: v Max_insert_max Min_insert_min)
qed

lemma Min_insert_above: "finite S \<Longrightarrow> S \<noteq> {} \<Longrightarrow> \<forall>x \<in> S. x \<le> a \<Longrightarrow> Min (insert a S) = Min S"
proof -
  assume fin: "finite S" and ne: "S \<noteq> {}" and le: "\<forall>x \<in> S. x \<le> a"
  have "Min S \<le> a" using Min_in[OF fin ne] le by blast
  then show ?thesis using fin ne by (simp add: min_absorb2)
qed

lemma Max_insert_below: "finite S \<Longrightarrow> S \<noteq> {} \<Longrightarrow> \<forall>x \<in> S. a \<le> x \<Longrightarrow> Max (insert a S) = Max S"
proof -
  assume fin: "finite S" and ne: "S \<noteq> {}" and le: "\<forall>x \<in> S. a \<le> x"
  have "a \<le> Max S" using Max_in[OF fin ne] le by blast
  then show ?thesis using fin ne by (simp add: max_absorb2)
qed

lemmas geometry_eval = measure_shape_def walk_leaf_def prop_named_def prop_by_name_def contents_of_def
  contents_idx_def mstate0_def abs_pair_def vec2_def num_of_def bbox_from_shape_def bbox_step_def scene_defs

text \<open>
  C5. The walk of \<open>measureShape\<close> computes the measurement spec 4.2 describes: the
  width and height are the first size a rectangle, ellipse or free path offers in
  depth-first order (first wins), else the absolute size of the host's box without
  extents; the stroke width is the largest absolute stroke width of all items (max
  wins), else 0.
\<close>

theorem measure_shape_eq_ref: "measure_shape h l = measure_ref h l"
proof -
  define items where "items = contents_items l"
  have st: "(case contents_of (lnode l) of None \<Rightarrow> mstate0 | Some g \<Rightarrow> walk_list (kids g) mstate0) =
      \<lparr>stroke_acc = foldl max_upd None (List.map_filter stroke_offer items),
       size_acc = first_opt (List.map_filter size_offer items)\<rparr>"
    by (cases "contents_of (lnode l)") (simp_all add: items_def contents_items_def walk_list_char mstate0_def)
  have sk: "(case foldl max_upd None (List.map_filter stroke_offer items) of None \<Rightarrow> 0 | Some s \<Rightarrow> s) =
      (if List.map_filter stroke_offer items = [] then 0 else Max (set (List.map_filter stroke_offer items)))"
    by (simp add: foldl_max_upd_None)
  show ?thesis
    unfolding measure_shape_def measure_ref_def Let_def st items_def[symmetric]
    using sk by simp
qed

text \<open>
  C6. Stroke exclusion: two layers whose contents have the same items apart from
  strokes, and for which the host reports the same box without extents, measure to the
  same width and height, whatever their stroke widths.
\<close>

theorem measure_shape_size_ignores_strokes:
  assumes "filter (\<lambda>p. mname p \<noteq> ''ADBE Vector Graphic - Stroke'') (contents_items l) =
           filter (\<lambda>p. mname p \<noteq> ''ADBE Vector Graphic - Stroke'') (contents_items l')"
    and "source_rect h False (contents_of (lnode l)) = source_rect h False (contents_of (lnode l'))"
  shows "mw (measure_shape h l) = mw (measure_shape h l') \<and> mh (measure_shape h l) = mh (measure_shape h l')"
proof -
  have none: "\<not> mname p \<noteq> ''ADBE Vector Graphic - Stroke'' \<Longrightarrow> size_offer p = None" for p
    by (auto simp: size_offer_def)
  have "List.map_filter size_offer (contents_items l) =
      List.map_filter size_offer (filter (\<lambda>p. mname p \<noteq> ''ADBE Vector Graphic - Stroke'') (contents_items l))"
    by (rule map_filter_filter_None[OF none, symmetric])
  also have "\<dots> = List.map_filter size_offer (contents_items l')"
    unfolding assms(1) by (rule map_filter_filter_None[OF none])
  finally have "List.map_filter size_offer (contents_items l) = List.map_filter size_offer (contents_items l')" .
  with assms(2) show ?thesis
    by (simp add: measure_shape_eq_ref measure_ref_def Let_def split: option.split)
qed

theorem measure_shape_size_ignores_strokes_witness:
  "filter (\<lambda>p. mname p \<noteq> ''ADBE Vector Graphic - Stroke'') (contents_items (demo_layer_sw 10)) =
   filter (\<lambda>p. mname p \<noteq> ''ADBE Vector Graphic - Stroke'') (contents_items (demo_layer_sw 40)) \<and>
   source_rect demo_host False (contents_of (lnode (demo_layer_sw 10))) =
   source_rect demo_host False (contents_of (lnode (demo_layer_sw 40))) \<and>
   mw (measure_shape demo_host (demo_layer_sw 10)) = mw (measure_shape demo_host (demo_layer_sw 40)) \<and>
   mh (measure_shape demo_host (demo_layer_sw 10)) = mh (measure_shape demo_host (demo_layer_sw 40))"
proof -
  have h: "filter (\<lambda>p. mname p \<noteq> ''ADBE Vector Graphic - Stroke'') (contents_items (demo_layer_sw 10)) =
     filter (\<lambda>p. mname p \<noteq> ''ADBE Vector Graphic - Stroke'') (contents_items (demo_layer_sw 40))"
    "source_rect demo_host False (contents_of (lnode (demo_layer_sw 10))) =
     source_rect demo_host False (contents_of (lnode (demo_layer_sw 40)))"
    by (simp_all add: contents_items_def geometry_eval demo_host_def demo_rect_def)
  show ?thesis using h measure_shape_size_ignores_strokes[OF h] by blast
qed

text \<open>
  C7. Within the range of its sentinels (coordinates of absolute value at most
  \<open>1e9\<close>), the vertex loop of \<open>bboxFromShape\<close> returns the true extent of a
  non-empty vertex list.
\<close>

theorem bbox_from_shape_eq_ref:
  assumes ne: "vs \<noteq> []" and bd: "\<forall>p \<in> set vs. \<bar>fst p\<bar> \<le> 1000000000 \<and> \<bar>snd p\<bar> \<le> 1000000000"
  shows "bbox_from_shape (VShape vs) = Some (bbox_ref vs)"
proof -
  let ?X = "fst ` set vs" and ?Y = "snd ` set vs"
  have fin: "finite ?X" "finite ?Y" and nz: "?X \<noteq> {}" "?Y \<noteq> {}" using ne by auto
  have bx: "\<forall>x \<in> ?X. x \<le> 1000000000 \<and> -1000000000 \<le> x" and by': "\<forall>x \<in> ?Y. x \<le> 1000000000 \<and> -1000000000 \<le> x"
    using bd by (auto simp: abs_le_iff)
  have e1: "Min (insert 1000000000 ?X) = Min ?X" by (rule Min_insert_above[OF fin(1) nz(1)]) (use bx in blast)
  have e2: "Max (insert (-1000000000) ?X) = Max ?X" by (rule Max_insert_below[OF fin(1) nz(1)]) (use bx in blast)
  have e3: "Min (insert 1000000000 ?Y) = Min ?Y" by (rule Min_insert_above[OF fin(2) nz(2)]) (use by' in blast)
  have e4: "Max (insert (-1000000000) ?Y) = Max ?Y" by (rule Max_insert_below[OF fin(2) nz(2)]) (use by' in blast)
  have "Min ?X \<le> Max ?X" using Min_in[OF fin(1) nz(1)] Max_ge[OF fin(1)] by blast
  moreover have "Min ?Y \<le> Max ?Y" using Min_in[OF fin(2) nz(2)] Max_ge[OF fin(2)] by blast
  ultimately show ?thesis
    using ne by (simp add: bbox_from_shape_def bbox_fold bbox_ref_def e1 e2 e3 e4)
qed

theorem bbox_from_shape_eq_ref_witness:
  "bbox_from_shape (VShape [(0, 0), (100, 50)]) = Some (bbox_ref [(0, 0), (100, 50)]) \<and>
   bbox_ref [(0, 0), (100, 50)] = (100, 50)"
proof -
  have h: "[(0::real, 0::real), (100, 50)] \<noteq> []"
    "\<forall>p \<in> set [(0::real, 0::real), (100, 50)]. \<bar>fst p\<bar> \<le> 1000000000 \<and> \<bar>snd p\<bar> \<le> 1000000000"
    by simp_all
  have "bbox_ref [(0, 0), (100, 50)] = (100, 50)" by (simp add: bbox_ref_def)
  then show ?thesis using bbox_from_shape_eq_ref[OF h] by simp
qed

text \<open>
  C8. Beyond its sentinels the loop is wrong: on every vertex list whose \<open>x\<close>
  coordinates all exceed \<open>1e9\<close>, \<open>minX\<close> never leaves the sentinel, so the width
  the code reports is \<open>maxX - 1e9\<close>, always more than the true extent of the vertices.
\<close>

theorem bbox_from_shape_beyond_sentinel:
  assumes ne: "vs \<noteq> []" and bx: "\<forall>p \<in> set vs. 1000000000 < fst p"
  shows "\<exists>w h. bbox_from_shape (VShape vs) = Some (w, h) \<and>
           w = Max (fst ` set vs) - 1000000000 \<and> fst (bbox_ref vs) < w"
proof -
  let ?X = "fst ` set vs"
  have fin: "finite ?X" and nz: "?X \<noteq> {}" using ne by auto
  have gt: "\<forall>x \<in> ?X. 1000000000 < x" using bx by auto
  have mn: "1000000000 < Min ?X" using Min_in[OF fin nz] gt by blast
  have mx: "Min ?X \<le> Max ?X" using Min_in[OF fin nz] Max_ge[OF fin] by blast
  have "Min (insert 1000000000 ?X) = min 1000000000 (Min ?X)" by (rule Min_insert[OF fin nz])
  then have e1: "Min (insert 1000000000 ?X) = 1000000000" using mn by linarith
  have e2: "Max (insert (-1000000000) ?X) = Max ?X"
    by (rule Max_insert_below[OF fin nz]) (use gt in force)
  have m0: "max 0 (Max ?X - 1000000000) = Max ?X - 1000000000" using mn mx by (simp add: max_def)
  have lt: "Max ?X - Min ?X < Max ?X - 1000000000" using mn by linarith
  show ?thesis
    using ne by (simp add: bbox_from_shape_def bbox_fold bbox_ref_def e1 e2 m0 lt)
qed

theorem bbox_from_shape_beyond_sentinel_witness:
  "bbox_from_shape (VShape [(2000000000, 0)]) = Some (1000000000, 0) \<and> bbox_ref [(2000000000, 0)] = (0, 0)"
proof -
  have h: "[(2000000000::real, 0::real)] \<noteq> []" "\<forall>p \<in> set [(2000000000::real, 0::real)]. 1000000000 < fst p"
    by simp_all
  obtain w hh where b: "bbox_from_shape (VShape [(2000000000, 0)]) = Some (w, hh)"
    and w: "w = Max (fst ` set [(2000000000::real, 0::real)]) - 1000000000"
    using bbox_from_shape_beyond_sentinel[OF h] by blast
  have "hh = 0" using b by (simp add: bbox_from_shape_def bbox_step_def)
  then show ?thesis using b w by (simp add: bbox_ref_def)
qed

lemma size_offer_nonneg: "size_offer p = Some (w, h) \<Longrightarrow> 0 \<le> w \<and> 0 \<le> h"
  by (auto simp: size_offer_def abs_pair_def bbox_from_shape_def
      split: if_splits pval.splits prod.splits option.splits Option.bind_splits)

lemma stroke_offer_nonneg: "stroke_offer p = Some s \<Longrightarrow> 0 \<le> s"
  by (auto simp: stroke_offer_def split: if_splits)

lemma foldl_max_upd_nonneg:
  "\<forall>x \<in> set xs. 0 \<le> x \<Longrightarrow> (\<forall>a. acc = Some a \<longrightarrow> 0 \<le> a) \<Longrightarrow> foldl max_upd acc xs = Some s \<Longrightarrow> 0 \<le> s"
proof (induction xs arbitrary: acc)
  case (Cons x xs)
  show ?case using Cons.IH[of "max_upd acc x"] Cons.prems by (auto simp: max_upd_def)
qed simp

lemma first_opt_in: "first_opt xs = Some x \<Longrightarrow> x \<in> set xs"
  by (auto simp: first_opt_def split: list.splits)

text \<open>
  C18. Whatever the layer and the host's answers, \<open>measureShape\<close> returns a width,
  a height and a stroke width that are not negative (sizes and strokes are read through
  \<open>Math.abs\<close>, the path extent through \<open>Math.max(0, ...)\<close>), so the padding
  \<open>stroke + 20\<close> of the presets is at least 20.
\<close>

theorem measure_shape_nonneg:
  "0 \<le> mw (measure_shape h l) \<and> 0 \<le> mh (measure_shape h l) \<and> 0 \<le> mstroke (measure_shape h l)"
proof -
  let ?items = "case contents_of (lnode l) of None \<Rightarrow> [] | Some g \<Rightarrow> shape_items (kids g)"
  have st: "(case contents_of (lnode l) of None \<Rightarrow> mstate0 | Some g \<Rightarrow> walk_list (kids g) mstate0) =
      \<lparr>stroke_acc = foldl max_upd None (List.map_filter stroke_offer ?items),
       size_acc = first_opt (List.map_filter size_offer ?items)\<rparr>"
    by (simp add: walk_list_char mstate0_def split: option.split)
  have s: "0 \<le> s" if "foldl max_upd None (List.map_filter stroke_offer ?items) = Some s" for s
    using foldl_max_upd_nonneg[OF _ _ that] stroke_offer_nonneg by (auto dest: in_set_map_filter)
  have wh: "0 \<le> w \<and> 0 \<le> h" if "first_opt (List.map_filter size_offer ?items) = Some (w, h)" for w h
    using first_opt_in[OF that] size_offer_nonneg by (auto dest: in_set_map_filter)
  show ?thesis
    unfolding measure_shape_def Let_def st
    using s wh by (auto split: option.split prod.split)
qed

end
