(* ===== verification/Binder.thy ===== *)
theory Binder
  imports Geometry
begin

text \<open>
  The Generator Binder (spec 4.4): \<open>addRepeater\<close> and \<open>bindRepeater\<close> of
  src/CenterAP_AddRepeater_v2.0.jsx (lines 178-215). \<open>addRepeater\<close> appends the host's
  repeater to the layer's contents and returns its handle (a path); \<open>bindRepeater\<close>
  gives the repeater's transform anchor the expression that reads the layer's anchor
  point, then clears a leftover expression on the repeater's transform position and
  initialises it when it holds no usable value. The lemmas show what the binding
  writes, that the position keeps its value, and where the two throw.
\<close>

section \<open>The expression strings the script writes\<close>

definition anchor_expr :: string where
  "anchor_expr = ''thisLayer.transform.anchorPoint''"

section \<open>addRepeater\<close>

definition add_repeater :: "host \<Rightarrow> (layer, path) exc" where
  "add_repeater h l =
     (case contents_idx (lnode l) of
        None \<Rightarrow> throw (Thrown ''Could not access layer Contents.'') l
      | Some c \<Rightarrow>
          (case add_property h [c] ''ADBE Vector Filter - Repeater'' l of
             (None, l') \<Rightarrow> throw (Thrown ''Could not add Repeater.'') l'
           | (Some p, l') \<Rightarrow> (Inr p, l')))"

section \<open>bindRepeater\<close>

text \<open>\<open>layer.transform.anchorPoint.value\<close>.\<close>

definition layer_anchor_value :: "(layer, pval) exc" where
  "layer_anchor_value l =
     (case anchor_path (lnode l) of
        None \<Rightarrow> (Inl (HostFault ''TypeError: no anchor point''), l)
      | Some pa \<Rightarrow> ebind (read_at pa) (\<lambda>n. ret (val_of n)) l)"

text \<open>
  The second half of \<open>bindRepeater\<close>: clear a live expression on the repeater's
  position, then \<open>try { v = repPos.value; if (!(v && v.length >= 2))
  repPos.setValue([0,0]); } catch (_) { repPos.setValue([0,0]); }\<close>.
\<close>

definition free_rep_position :: "path \<Rightarrow> (layer, unit) exc" where
  "free_rep_position pp =
     ebind (read_at pp) (\<lambda>pn.
       ebind (if can_set_expr (attrs pn) \<and> expr_enabled (attrs pn) then write_at pp (set_expression [])
              else ret ()) (\<lambda>_.
         try_catch
           (ebind (read_at pp) (\<lambda>pn'.
              if vec2 (val_of pn') \<noteq> None then ret () else write_at pp (set_value (VVec [0, 0]))))
           (write_at pp (set_value (VVec [0, 0])))))"

definition bind_repeater :: "path \<Rightarrow> (layer, unit) exc" where
  "bind_repeater rp l =
     (case node_at l rp of
        None \<Rightarrow> (Inl (HostFault ''TypeError: null handle''), l)
      | Some r \<Rightarrow>
          (case rep_xform r of
             None \<Rightarrow> throw (Thrown ''Could not access Repeater Transform group.'') l
           | Some xi \<Rightarrow>
               (case find_rep_anchor (kids r ! xi) of
                  None \<Rightarrow> throw (Thrown ''Could not access Repeater Transform > Anchor.'') l
                | Some ai \<Rightarrow>
                    ebind
                      (if can_set_expr (attrs (kids (kids r ! xi) ! ai))
                       then write_at (rp @ [xi, ai]) (set_expression anchor_expr)
                       else ebind layer_anchor_value (\<lambda>v. write_at (rp @ [xi, ai]) (set_value v)))
                      (\<lambda>_. case find_vector_position (kids r ! xi) of
                              None \<Rightarrow> ret ()
                            | Some qi \<Rightarrow> free_rep_position (rp @ [xi, qi])) l)))"

section \<open>Where the binder writes\<close>

definition rep_anchor_path :: "node \<Rightarrow> path \<Rightarrow> path option" where
  "rep_anchor_path r rp =
     (case rep_xform r of
        None \<Rightarrow> None
      | Some xi \<Rightarrow> map_option (\<lambda>ai. rp @ [xi, ai]) (find_rep_anchor (kids r ! xi)))"

definition rep_position_path :: "node \<Rightarrow> path \<Rightarrow> path option" where
  "rep_position_path r rp =
     (case rep_xform r of
        None \<Rightarrow> None
      | Some xi \<Rightarrow> map_option (\<lambda>qi. rp @ [xi, qi]) (find_vector_position (kids r ! xi)))"

text \<open>
  A repeater the binder can work on: its transform group and anchor are found, the
  anchor takes expressions, and the position, when found, is another property that
  holds two numbers.
\<close>

definition repeater_ok :: "node \<Rightarrow> bool" where
  "repeater_ok r \<longleftrightarrow>
     (case rep_xform r of
        None \<Rightarrow> False
      | Some xi \<Rightarrow>
          (case find_rep_anchor (kids r ! xi) of
             None \<Rightarrow> False
           | Some ai \<Rightarrow>
               can_set_expr (attrs (kids (kids r ! xi) ! ai)) \<and>
               (case find_vector_position (kids r ! xi) of
                  None \<Rightarrow> True
                | Some qi \<Rightarrow> qi \<noteq> ai \<and> vec2 (val_of (kids (kids r ! xi) ! qi)) \<noteq> None)))"

text \<open>The repeater position after the expression is cleared (\<open>setExpression("")\<close> when it can take one and has one enabled).\<close>

definition cleared :: "node \<Rightarrow> node" where
  "cleared n = (if can_set_expr (attrs n) \<and> expr_enabled (attrs n)
                then Node (attrs n\<lparr>expression := [], expr_enabled := False\<rparr>) (kids n) else n)"

text \<open>The repeater anchor after \<open>setExpression(anchor_expr)\<close>.\<close>

definition anchored :: "node \<Rightarrow> node" where
  "anchored n = Node (attrs n\<lparr>expression := anchor_expr, expr_enabled := True\<rparr>) (kids n)"

section \<open>Lemmas\<close>

lemma node_at_append: "node_at l (p @ q) = Option.bind (node_at l p) (\<lambda>m. get_at m q)"
  by (simp add: node_at_def get_at_append)

lemma get_at_two:
  "i < length (kids r) \<Longrightarrow> j < length (kids (kids r ! i)) \<Longrightarrow> get_at r [i, j] = Some (kids (kids r ! i) ! j)"
  by simp

lemma indep_append_same: "indep (p @ q) (p @ q') = indep q q'"
  by (induction p) auto

lemma read_at_Some: "node_at l p = Some n \<Longrightarrow> read_at p l = (Inr n, l)"
  by (simp add: read_at_def)

lemma write_expr_at:
  "node_at l p = Some n \<Longrightarrow> can_set_expr (attrs n) \<Longrightarrow>
     write_at p (set_expression e) l =
       (Inr (), l\<lparr>lnode := upd_at p (\<lambda>_. Node (attrs n\<lparr>expression := e, expr_enabled := (e \<noteq> [])\<rparr>) (kids n)) (lnode l)\<rparr>)"
  by (simp add: write_at_def set_expression_def)

lemma free_rep_position_keeps:
  assumes p: "node_at l pp = Some pn" and v: "vec2 (val_of pn) \<noteq> None"
  shows "free_rep_position pp l = (Inr (), l\<lparr>lnode := upd_at pp (\<lambda>_. cleared pn) (lnode l)\<rparr>)"
proof (cases "can_set_expr (attrs pn) \<and> expr_enabled (attrs pn)")
  case True
  let ?l1 = "l\<lparr>lnode := upd_at pp (\<lambda>_. cleared pn) (lnode l)\<rparr>"
  have w: "write_at pp (set_expression []) l = (Inr (), ?l1)"
    using p True by (simp add: write_expr_at cleared_def)
  have r: "read_at pp ?l1 = (Inr (cleared pn), ?l1)"
    using p by (simp add: read_at_def node_at_def get_upd_same)
  have "vec2 (val_of (cleared pn)) \<noteq> None" using v True by (simp add: cleared_def)
  then show ?thesis
    using p True w r by (simp add: free_rep_position_def read_at_Some)
next
  case False
  have c: "cleared pn = pn" using False by (auto simp: cleared_def)
  have u: "upd_at pp (\<lambda>_. cleared pn) (lnode l) = lnode l"
    using p c by (simp add: node_at_def upd_at_id)
  have i: "(if can_set_expr (attrs pn) \<and> expr_enabled (attrs pn) then write_at pp (set_expression []) else ret ()) =
      ret ()" by (rule if_not_P[OF False])
  have "free_rep_position pp l =
      ebind (if can_set_expr (attrs pn) \<and> expr_enabled (attrs pn) then write_at pp (set_expression []) else ret ())
        (\<lambda>_. try_catch
           (ebind (read_at pp) (\<lambda>pn'. if vec2 (val_of pn') \<noteq> None then ret () else write_at pp (set_value (VVec [0, 0]))))
           (write_at pp (set_value (VVec [0, 0])))) l"
    unfolding free_rep_position_def
    by (simp only: ebind_Inr[where m = "read_at pp" and s = l and a = pn and s' = l, OF read_at_Some[OF p]])
  also have "\<dots> = try_catch
           (ebind (read_at pp) (\<lambda>pn'. if vec2 (val_of pn') \<noteq> None then ret () else write_at pp (set_value (VVec [0, 0]))))
           (write_at pp (set_value (VVec [0, 0]))) l"
    unfolding i by simp
  also have "\<dots> = (Inr (), l)"
    using p v by (simp add: read_at_Some)
  finally show ?thesis by (simp add: u)
qed

lemma rep_paths_valid:
  assumes "node_at l rp = Some r" and "rep_xform r = Some xi" and "find_rep_anchor (kids r ! xi) = Some ai"
  shows "node_at l (rp @ [xi, ai]) = Some (kids (kids r ! xi) ! ai)"
    and "find_vector_position (kids r ! xi) = Some qi \<Longrightarrow> node_at l (rp @ [xi, qi]) = Some (kids (kids r ! xi) ! qi)"
  using assms finder_less by (simp_all add: node_at_append)

lemma bind_repeater_result:
  assumes r: "node_at l rp = Some r" and xi: "rep_xform r = Some xi" and ai: "find_rep_anchor (kids r ! xi) = Some ai"
    and cs: "can_set_expr (attrs (kids (kids r ! xi) ! ai))"
    and pos: "find_vector_position (kids r ! xi) = Some qi" and ne: "qi \<noteq> ai"
    and v: "vec2 (val_of (kids (kids r ! xi) ! qi)) \<noteq> None"
  shows "bind_repeater rp l =
           (Inr (), l\<lparr>lnode := upd_at (rp @ [xi, qi]) (\<lambda>_. cleared (kids (kids r ! xi) ! qi))
                         (upd_at (rp @ [xi, ai]) (\<lambda>_. anchored (kids (kids r ! xi) ! ai)) (lnode l))\<rparr>)"
proof -
  let ?an = "kids (kids r ! xi) ! ai" and ?pn = "kids (kids r ! xi) ! qi"
  let ?l1 = "l\<lparr>lnode := upd_at (rp @ [xi, ai]) (\<lambda>_. anchored ?an) (lnode l)\<rparr>"
  have na: "node_at l (rp @ [xi, ai]) = Some ?an" and np: "node_at l (rp @ [xi, qi]) = Some ?pn"
    using rep_paths_valid[OF r xi ai] pos by simp_all
  have w: "write_at (rp @ [xi, ai]) (set_expression anchor_expr) l = (Inr (), ?l1)"
    using na cs by (simp add: write_expr_at anchored_def anchor_expr_def)
  have "indep (rp @ [xi, qi]) (rp @ [xi, ai])" using ne by (simp add: indep_append_same)
  then have np1: "node_at ?l1 (rp @ [xi, qi]) = Some ?pn"
    using np by (simp add: node_at_def get_upd_indep)
  have f: "free_rep_position (rp @ [xi, qi]) ?l1 =
      (Inr (), ?l1\<lparr>lnode := upd_at (rp @ [xi, qi]) (\<lambda>_. cleared ?pn) (lnode ?l1)\<rparr>)"
    using np1 v by (rule free_rep_position_keeps)
  show ?thesis
    using r xi ai cs pos w f by (simp add: bind_repeater_def)
qed

lemma bind_repeater_result_nopos:
  assumes r: "node_at l rp = Some r" and xi: "rep_xform r = Some xi" and ai: "find_rep_anchor (kids r ! xi) = Some ai"
    and cs: "can_set_expr (attrs (kids (kids r ! xi) ! ai))"
    and pos: "find_vector_position (kids r ! xi) = None"
  shows "bind_repeater rp l =
           (Inr (), l\<lparr>lnode := upd_at (rp @ [xi, ai]) (\<lambda>_. anchored (kids (kids r ! xi) ! ai)) (lnode l)\<rparr>)"
proof -
  have na: "node_at l (rp @ [xi, ai]) = Some (kids (kids r ! xi) ! ai)"
    using rep_paths_valid[OF r xi ai] by simp
  have w: "write_at (rp @ [xi, ai]) (set_expression anchor_expr) l =
      (Inr (), l\<lparr>lnode := upd_at (rp @ [xi, ai]) (\<lambda>_. anchored (kids (kids r ! xi) ! ai)) (lnode l)\<rparr>)"
    using na cs by (simp add: write_expr_at anchored_def anchor_expr_def)
  show ?thesis
    using r xi ai cs pos w by (simp add: bind_repeater_def)
qed

text \<open>A transform group none of whose children has the anchor's id or an English anchor name.\<close>

lemma find_rep_anchor_none:
  "\<forall>c \<in> set (kids x). mname c \<noteq> ''ADBE Vector Anchor'' \<and> dname c \<noteq> ''ADBE Vector Anchor'' \<and>
      \<not> re_test re_anchor (dname c) \<Longrightarrow> find_rep_anchor x = None"
  by (simp add: find_rep_anchor_def prop_by_name_def find_idx_None_iff)

lemma repeater_okE:
  assumes "repeater_ok r"
  obtains xi ai where "rep_xform r = Some xi" "find_rep_anchor (kids r ! xi) = Some ai"
    "can_set_expr (attrs (kids (kids r ! xi) ! ai))"
    "find_vector_position (kids r ! xi) = None \<or>
     (\<exists>qi. find_vector_position (kids r ! xi) = Some qi \<and> qi \<noteq> ai \<and> vec2 (val_of (kids (kids r ! xi) ! qi)) \<noteq> None)"
  using assms by (auto simp: repeater_ok_def split: option.splits)

text \<open>
  C9. On a repeater whose transform group and anchor are found and whose anchor takes
  expressions (and whose position, when found, holds two numbers), \<open>bindRepeater\<close>
  returns normally and leaves the repeater's anchor with the enabled expression
  \<open>thisLayer.transform.anchorPoint\<close>, so the copies orbit the layer's anchor point.
\<close>

theorem bind_repeater_links_anchor:
  assumes r: "node_at l rp = Some r" and ok: "repeater_ok r"
  shows "\<exists>l' ap an. bind_repeater rp l = (Inr (), l') \<and> rep_anchor_path r rp = Some ap \<and> node_at l' ap = Some an \<and>
           expression (attrs an) = anchor_expr \<and> expr_enabled (attrs an)"
proof -
  obtain xi ai where xi: "rep_xform r = Some xi" and ai: "find_rep_anchor (kids r ! xi) = Some ai"
    and cs: "can_set_expr (attrs (kids (kids r ! xi) ! ai))"
    and pos: "find_vector_position (kids r ! xi) = None \<or>
     (\<exists>qi. find_vector_position (kids r ! xi) = Some qi \<and> qi \<noteq> ai \<and> vec2 (val_of (kids (kids r ! xi) ! qi)) \<noteq> None)"
    using ok by (rule repeater_okE)
  let ?an = "kids (kids r ! xi) ! ai"
  have ap: "rep_anchor_path r rp = Some (rp @ [xi, ai])" using xi ai by (simp add: rep_anchor_path_def)
  have na: "node_at l (rp @ [xi, ai]) = Some ?an" using rep_paths_valid[OF r xi ai] by simp
  have an: "expression (attrs (anchored ?an)) = anchor_expr \<and> expr_enabled (attrs (anchored ?an))"
    by (simp add: anchored_def anchor_expr_def)
  from pos show ?thesis
  proof
    assume p: "find_vector_position (kids r ! xi) = None"
    have "node_at (l\<lparr>lnode := upd_at (rp @ [xi, ai]) (\<lambda>_. anchored ?an) (lnode l)\<rparr>) (rp @ [xi, ai]) = Some (anchored ?an)"
      using na by (simp add: node_at_def get_upd_same)
    then show ?thesis using bind_repeater_result_nopos[OF r xi ai cs p] ap an by blast
  next
    assume "\<exists>qi. find_vector_position (kids r ! xi) = Some qi \<and> qi \<noteq> ai \<and> vec2 (val_of (kids (kids r ! xi) ! qi)) \<noteq> None"
    then obtain qi where p: "find_vector_position (kids r ! xi) = Some qi" and ne: "qi \<noteq> ai"
      and v: "vec2 (val_of (kids (kids r ! xi) ! qi)) \<noteq> None" by blast
    have "indep (rp @ [xi, ai]) (rp @ [xi, qi])" using ne by (simp add: indep_append_same)
    then have "node_at (l\<lparr>lnode := upd_at (rp @ [xi, qi]) (\<lambda>_. cleared (kids (kids r ! xi) ! qi))
                         (upd_at (rp @ [xi, ai]) (\<lambda>_. anchored ?an) (lnode l))\<rparr>) (rp @ [xi, ai]) = Some (anchored ?an)"
      using na by (simp add: node_at_def get_upd_indep get_upd_same)
    then show ?thesis using bind_repeater_result[OF r xi ai cs p ne v] ap an by blast
  qed
qed

theorem bind_repeater_links_anchor_witness:
  "node_at demo_layer_rep [1, 1] = Some ae_repeater \<and> repeater_ok ae_repeater \<and>
   (\<exists>l' ap an. bind_repeater [1, 1] demo_layer_rep = (Inr (), l') \<and> rep_anchor_path ae_repeater [1, 1] = Some ap \<and>
      node_at l' ap = Some an \<and> expression (attrs an) = anchor_expr \<and> expr_enabled (attrs an))"
proof -
  have h: "node_at demo_layer_rep [1, 1] = Some ae_repeater" "repeater_ok ae_repeater"
    by (simp_all add: node_at_def scene_defs ae_repeater_def repeater_ok_def finder_defs prop_by_name_def
        re_test_def re_anchor_def re_position_def lower_char_def lower_cont_def is_upper_def vec2_def)
  show ?thesis using h bind_repeater_links_anchor[OF h] by blast
qed

text \<open>
  C10. \<open>bindRepeater\<close> never changes the value of the repeater's position: it only
  clears a live expression on it, and writes [0,0] only when the value is not a pair of
  numbers. On the repeater the host creates, the position stays at its default (100,0),
  not at the (0,0) of spec section 4.4.
\<close>

theorem bind_repeater_keeps_position:
  assumes r: "node_at l rp = Some r" and ok: "repeater_ok r"
    and pp: "rep_position_path r rp = Some pp" and pn: "node_at l pp = Some pn"
  shows "\<exists>l' pn'. bind_repeater rp l = (Inr (), l') \<and> node_at l' pp = Some pn' \<and>
           val_of pn' = val_of pn \<and> (can_set_expr (attrs pn) \<longrightarrow> \<not> expr_enabled (attrs pn'))"
proof -
  obtain xi ai where xi: "rep_xform r = Some xi" and ai: "find_rep_anchor (kids r ! xi) = Some ai"
    and cs: "can_set_expr (attrs (kids (kids r ! xi) ! ai))"
    and pos: "find_vector_position (kids r ! xi) = None \<or>
     (\<exists>qi. find_vector_position (kids r ! xi) = Some qi \<and> qi \<noteq> ai \<and> vec2 (val_of (kids (kids r ! xi) ! qi)) \<noteq> None)"
    using ok by (rule repeater_okE)
  obtain qi where p: "find_vector_position (kids r ! xi) = Some qi" and ppq: "pp = rp @ [xi, qi]"
    using pp xi by (auto simp: rep_position_path_def)
  with pos have ne: "qi \<noteq> ai" and v: "vec2 (val_of (kids (kids r ! xi) ! qi)) \<noteq> None" by auto
  have "node_at l (rp @ [xi, qi]) = Some (kids (kids r ! xi) ! qi)"
    by (rule rep_paths_valid(2)[OF r xi ai p])
  then have pn_eq: "pn = kids (kids r ! xi) ! qi" using pn ppq by simp
  have "indep (rp @ [xi, qi]) (rp @ [xi, ai])" using ne by (simp add: indep_append_same)
  then have "get_at (upd_at (rp @ [xi, ai]) (\<lambda>_. anchored (kids (kids r ! xi) ! ai)) (lnode l)) pp = Some pn"
    using pn ppq by (simp add: node_at_def get_upd_indep)
  then have "node_at (l\<lparr>lnode := upd_at (rp @ [xi, qi]) (\<lambda>_. cleared pn)
                         (upd_at (rp @ [xi, ai]) (\<lambda>_. anchored (kids (kids r ! xi) ! ai)) (lnode l))\<rparr>) pp = Some (cleared pn)"
    using ppq by (simp add: node_at_def get_upd_same)
  moreover have "val_of (cleared pn) = val_of pn \<and> (can_set_expr (attrs pn) \<longrightarrow> \<not> expr_enabled (attrs (cleared pn)))"
    by (simp add: cleared_def)
  ultimately show ?thesis using bind_repeater_result[OF r xi ai cs p ne v] pn_eq by blast
qed

theorem bind_repeater_keeps_position_witness:
  "\<exists>l' pn'. bind_repeater [1, 1] demo_layer_rep = (Inr (), l') \<and> node_at l' [1, 1, 3, 1] = Some pn' \<and>
      val_of pn' = VVec [100, 0] \<and> \<not> expr_enabled (attrs pn')"
proof -
  have h: "node_at demo_layer_rep [1, 1] = Some ae_repeater" "repeater_ok ae_repeater"
    "rep_position_path ae_repeater [1, 1] = Some [1, 1, 3, 1]"
    "node_at demo_layer_rep [1, 1, 3, 1] =
       Some (mk_leaf ''ADBE Vector Repeater Position'' ''Position'' TwoD_SPATIAL (VVec [100, 0]))"
    by (simp_all add: node_at_def scene_defs ae_repeater_def repeater_ok_def rep_position_path_def finder_defs
        prop_by_name_def re_test_def re_anchor_def re_position_def lower_char_def lower_cont_def is_upper_def vec2_def)
  show ?thesis using bind_repeater_keeps_position[OF h] by (simp add: mk_leaf_def)
qed

text \<open>
  C14. The canonical id \<open>bindRepeater\<close> tries for the repeater's anchor is that of a
  shape group's transform (\<open>"ADBE Vector Anchor"\<close>), not the repeater's. On every
  repeater whose transform group has no child of that id or name and no child whose
  display name contains "anchor" in any case, as in a German UI ("Ankerpunkt"), the
  binding throws "Could not access Repeater Transform > Anchor." and changes nothing.
\<close>

theorem bind_repeater_anchor_unresolved:
  assumes r: "node_at l rp = Some r" and x: "rep_xform r = Some xi"
    and na: "\<forall>c \<in> set (kids (kids r ! xi)).
               mname c \<noteq> ''ADBE Vector Anchor'' \<and> dname c \<noteq> ''ADBE Vector Anchor'' \<and> \<not> re_test re_anchor (dname c)"
  shows "bind_repeater rp l = (Inl (Thrown ''Could not access Repeater Transform > Anchor.''), l)"
proof -
  have "find_rep_anchor (kids r ! xi) = None" using na by (rule find_rep_anchor_none)
  then show ?thesis using r x by (simp add: bind_repeater_def)
qed

theorem bind_repeater_anchor_unresolved_witness:
  "bind_repeater [1, 1] demo_layer_de =
     (Inl (Thrown ''Could not access Repeater Transform > Anchor.''), demo_layer_de)"
proof -
  have r: "node_at demo_layer_de [1, 1] = Some de_repeater"
    by (simp add: node_at_def scene_defs)
  have x: "rep_xform de_repeater = Some 3"
    by (simp add: de_repeater_def rep_xform_def prop_by_name_def)
  have na: "\<forall>c \<in> set (kids (kids de_repeater ! 3)).
               mname c \<noteq> ''ADBE Vector Anchor'' \<and> dname c \<noteq> ''ADBE Vector Anchor'' \<and> \<not> re_test re_anchor (dname c)"
    by code_simp
  show ?thesis by (rule bind_repeater_anchor_unresolved[OF r x na])
qed

end
