(* ===== verification/Preset.thy ===== *)
theory Preset
  imports Binder
begin

text \<open>
  The Preset Parameter Engine (spec 4.5): \<open>applyRepeaterPreset\<close> of
  src/CenterAP_AddRepeater_v2.0.jsx (lines 337-388). It resolves the repeater's
  copies, position and rotation once, measures the layer, and writes the values of the
  chosen preset through the best-effort setters \<open>setNum\<close> and \<open>setVec\<close>, which clear a
  live expression first and swallow a rejected \<open>setValue\<close>. The lemmas show that the
  writes are those of the spec's preset table, that the engine never throws on a live
  repeater handle, and that the default preset changes nothing.
\<close>

section \<open>Preset names\<close>

text \<open>The cases of \<open>switch (presetName)\<close>; every other name falls to \<open>default\<close>.\<close>

datatype preset = Default | Vertical | Horizontal | Spiral

definition preset_of :: "string \<Rightarrow> preset" where
  "preset_of s =
     (if s = ''Vertical Repeater'' then Vertical
      else if s = ''Horizontal Repeater'' then Horizontal
      else if s = ''Spiral Repeater'' then Spiral
      else Default)"

section \<open>The best-effort setters\<close>

text \<open>\<open>clearExpr(prop)\<close>: \<open>if (prop.canSetExpression && prop.expressionEnabled) prop.expression = ""\<close>.\<close>

definition clear_expr :: "path \<Rightarrow> (layer, unit) exc" where
  "clear_expr p =
     ebind (read_at p) (\<lambda>n.
       if can_set_expr (attrs n) \<and> expr_enabled (attrs n) then write_at p (set_expression []) else ret ())"

text \<open>\<open>setNum(prop, val)\<close> and \<open>setVec(prop, arr)\<close>: nothing for a \<open>null\<close> property, else
  clear its expression and try \<open>setValue\<close>, ignoring a failure.\<close>

definition set_num :: "path option \<Rightarrow> real \<Rightarrow> (layer, unit) exc" where
  "set_num po v =
     (case po of
        None \<Rightarrow> ret ()
      | Some p \<Rightarrow> ebind (clear_expr p) (\<lambda>_. try_catch (write_at p (set_value (VNum v))) (ret ())))"

definition set_vec :: "path option \<Rightarrow> real \<times> real \<Rightarrow> (layer, unit) exc" where
  "set_vec po a =
     (case po of
        None \<Rightarrow> ret ()
      | Some p \<Rightarrow> ebind (clear_expr p) (\<lambda>_. try_catch (write_at p (set_value (VVec [fst a, snd a]))) (ret ())))"

section \<open>applyRepeaterPreset\<close>

text \<open>
  The three writes of one preset, in the order of the code: copies, position, rotation.
  The debug alert (\<open>gDebug\<close>) only displays the measurement and is not modelled.
\<close>

definition preset_writes :: "path option \<Rightarrow> path option \<Rightarrow> path option \<Rightarrow> real \<Rightarrow> real \<times> real \<Rightarrow> real \<Rightarrow> (layer, unit) exc" where
  "preset_writes pc pp pr c v rt = ebind (set_num pc c) (\<lambda>_. ebind (set_vec pp v) (\<lambda>_. set_num pr rt))"

definition apply_repeater_preset :: "host \<Rightarrow> path \<Rightarrow> string \<Rightarrow> (layer, unit) exc" where
  "apply_repeater_preset h rp name l =
     (case node_at l rp of
        None \<Rightarrow> (Inl (HostFault ''TypeError: null handle''), l)
      | Some r \<Rightarrow>
          (case rep_xform r of
             None \<Rightarrow> ret () l
           | Some xi \<Rightarrow>
               (let x = kids r ! xi;
                    pc = map_option (\<lambda>i. rp @ [i]) (find_copies r);
                    pp = map_option (\<lambda>i. rp @ [xi, i]) (find_vector_position x);
                    pr = map_option (\<lambda>i. rp @ [xi, i]) (find_rotation x);
                    s = measure_shape h l;
                    w = mw s; hh = mh s;
                    extra = mstroke s + 20
                in (case preset_of name of
                      Vertical \<Rightarrow> preset_writes pc pp pr 10 (0, hh + extra) 0
                    | Horizontal \<Rightarrow> preset_writes pc pp pr 10 (w + extra, 0) 0
                    | Spiral \<Rightarrow> preset_writes pc pp pr 10 (0, 0) 10
                    | Default \<Rightarrow> ret ()) l)))"

section \<open>The preset table of the specification\<close>

text \<open>
  Spec 4.5: for a measurement with width, height and largest stroke width, and
  \<open>pad = stroke + 20\<close>, each preset gives the copies, the offset and the rotation;
  \<open>Default\<close> leaves the repeater as it is.
\<close>

definition preset_spec :: "preset \<Rightarrow> measurement \<Rightarrow> (real \<times> (real \<times> real) \<times> real) option" where
  "preset_spec p m =
     (let pad = mstroke m + 20 in
      case p of
        Default \<Rightarrow> None
      | Vertical \<Rightarrow> Some (10, (0, mh m + pad), 0)
      | Horizontal \<Rightarrow> Some (10, (mw m + pad, 0), 0)
      | Spiral \<Rightarrow> Some (10, (0, 0), 10))"

text \<open>The node a best-effort write leaves: the expression cleared, the value set when it fits.\<close>

definition put_value :: "pval \<Rightarrow> node \<Rightarrow> node" where
  "put_value v n = (case set_value v n of Inl _ \<Rightarrow> n | Inr n' \<Rightarrow> n')"

text \<open>
  A repeater the preset engine fully applies to: transform group, copies, position and
  rotation found, position and rotation distinct, and each of the three of a type its
  value fits and able to take an expression.
\<close>

definition preset_ok :: "node \<Rightarrow> bool" where
  "preset_ok r \<longleftrightarrow>
     (case (rep_xform r, find_copies r) of
        (Some xi, Some ci) \<Rightarrow>
          (case (find_vector_position (kids r ! xi), find_rotation (kids r ! xi)) of
             (Some qi, Some ri) \<Rightarrow>
               ci \<noteq> xi \<and> qi \<noteq> ri \<and> vtype (kids r ! ci) = OneD \<and>
               vtype (kids (kids r ! xi) ! ri) = OneD \<and>
               vtype (kids (kids r ! xi) ! qi) \<in> {TwoD, TwoD_SPATIAL, ThreeD, ThreeD_SPATIAL} \<and>
               can_set_expr (attrs (kids r ! ci)) \<and> can_set_expr (attrs (kids (kids r ! xi) ! qi)) \<and>
               can_set_expr (attrs (kids (kids r ! xi) ! ri))
           | _ \<Rightarrow> False)
      | _ \<Rightarrow> False)"

section \<open>Lemmas\<close>

lemma kids_cleared [simp]: "kids (cleared n) = kids n"
  by (simp add: cleared_def)

lemma kids_put_value [simp]: "kids (put_value v n) = kids n"
  by (simp add: put_value_def set_value_def)

lemma clear_expr_Some:
  assumes p: "node_at l p = Some n"
  shows "clear_expr p l = (Inr (), l\<lparr>lnode := upd_at p (\<lambda>_. cleared n) (lnode l)\<rparr>)"
proof (cases "can_set_expr (attrs n) \<and> expr_enabled (attrs n)")
  case True
  then show ?thesis using p by (simp add: clear_expr_def read_at_Some write_expr_at cleared_def)
next
  case False
  have c: "cleared n = n" using False by (auto simp: cleared_def)
  have u: "upd_at p (\<lambda>_. cleared n) (lnode l) = lnode l"
    using p c by (simp add: node_at_def upd_at_id)
  have "clear_expr p l = (if can_set_expr (attrs n) \<and> expr_enabled (attrs n) then write_at p (set_expression []) else ret ()) l"
    using p by (simp add: clear_expr_def read_at_Some ebind_def del: if_split)
  also have "\<dots> = (Inr (), l)" by (simp only: if_not_P[OF False] ret_def)
  finally show ?thesis by (simp add: u)
qed

lemma try_write_value:
  assumes p: "node_at l p = Some n"
  shows "try_catch (write_at p (set_value v)) (ret ()) l = (Inr (), l\<lparr>lnode := upd_at p (\<lambda>_. put_value v n) (lnode l)\<rparr>)"
proof (cases "fits (vtype n) v")
  case True
  then show ?thesis using p by (simp add: try_catch_def write_at_def put_value_def set_value_def)
next
  case False
  then have "upd_at p (\<lambda>_. put_value v n) (lnode l) = lnode l"
    using p by (intro upd_at_id) (auto simp: node_at_def put_value_def set_value_def)
  then show ?thesis using p False by (simp add: try_catch_def write_at_def set_value_def ret_def)
qed

lemma set_value_best_effort:
  assumes p: "node_at l p = Some n"
  shows "ebind (clear_expr p) (\<lambda>_. try_catch (write_at p (set_value v)) (ret ())) l =
           (Inr (), l\<lparr>lnode := upd_at p (\<lambda>_. put_value v (cleared n)) (lnode l)\<rparr>)"
proof -
  let ?l1 = "l\<lparr>lnode := upd_at p (\<lambda>_. cleared n) (lnode l)\<rparr>"
  have "node_at ?l1 p = Some (cleared n)" using p by (simp add: node_at_def get_upd_same)
  then show ?thesis using p by (simp add: ebind_def clear_expr_Some try_write_value upd_upd_same)
qed

lemma set_num_Some:
  "node_at l p = Some n \<Longrightarrow>
     set_num (Some p) v l = (Inr (), l\<lparr>lnode := upd_at p (\<lambda>_. put_value (VNum v) (cleared n)) (lnode l)\<rparr>)"
  by (simp add: set_num_def set_value_best_effort)

lemma set_vec_Some:
  "node_at l p = Some n \<Longrightarrow>
     set_vec (Some p) a l = (Inr (), l\<lparr>lnode := upd_at p (\<lambda>_. put_value (VVec [fst a, snd a]) (cleared n)) (lnode l)\<rparr>)"
  by (simp add: set_vec_def set_value_best_effort)

lemma node_at_upd_shape:
  "node_at l p = Some n \<Longrightarrow> kids n' = kids n \<Longrightarrow>
     (node_at (l\<lparr>lnode := upd_at p (\<lambda>_. n') (lnode l)\<rparr>) q = None) = (node_at l q = None)"
  by (simp add: node_at_def get_upd_shape)

lemma set_num_total:
  assumes "\<forall>p. po = Some p \<longrightarrow> node_at l p \<noteq> None"
  shows "\<exists>l'. set_num po v l = (Inr (), l') \<and> (\<forall>q. (node_at l' q = None) = (node_at l q = None))"
proof (cases po)
  case None
  then show ?thesis by (simp add: set_num_def ret_def)
next
  case (Some p)
  then obtain n where "node_at l p = Some n" using assms by auto
  then show ?thesis using Some by (simp add: set_num_Some node_at_upd_shape)
qed

lemma set_vec_total:
  assumes "\<forall>p. po = Some p \<longrightarrow> node_at l p \<noteq> None"
  shows "\<exists>l'. set_vec po a l = (Inr (), l') \<and> (\<forall>q. (node_at l' q = None) = (node_at l q = None))"
proof (cases po)
  case None
  then show ?thesis by (simp add: set_vec_def ret_def)
next
  case (Some p)
  then obtain n where "node_at l p = Some n" using assms by auto
  then show ?thesis using Some by (simp add: set_vec_Some node_at_upd_shape)
qed

lemma preset_writes_total:
  assumes "\<forall>p. pc = Some p \<longrightarrow> node_at l p \<noteq> None" "\<forall>p. pp = Some p \<longrightarrow> node_at l p \<noteq> None"
    "\<forall>p. pr = Some p \<longrightarrow> node_at l p \<noteq> None"
  shows "\<exists>l'. preset_writes pc pp pr c v rt l = (Inr (), l')"
proof -
  obtain l1 where 1: "set_num pc c l = (Inr (), l1)" and s1: "\<forall>q. (node_at l1 q = None) = (node_at l q = None)"
    using set_num_total[OF assms(1)] by blast
  have v1: "\<forall>p. pp = Some p \<longrightarrow> node_at l1 p \<noteq> None" using assms(2) s1 by simp
  obtain l2 where 2: "set_vec pp v l1 = (Inr (), l2)" and s2: "\<forall>q. (node_at l2 q = None) = (node_at l1 q = None)"
    using set_vec_total[OF v1] by blast
  have v2: "\<forall>p. pr = Some p \<longrightarrow> node_at l2 p \<noteq> None" using assms(3) s1 s2 by simp
  obtain l3 where 3: "set_num pr rt l2 = (Inr (), l3)"
    using set_num_total[OF v2] by blast
  show ?thesis using 1 2 3 by (simp add: preset_writes_def ebind_def)
qed

lemma apply_repeater_preset_writes:
  assumes r: "node_at l rp = Some r" and xi: "rep_xform r = Some xi"
    and t: "preset_spec (preset_of name) (measure_shape h l) = Some (c, v, rt)"
  shows "apply_repeater_preset h rp name l =
           preset_writes (map_option (\<lambda>i. rp @ [i]) (find_copies r))
             (map_option (\<lambda>i. rp @ [xi, i]) (find_vector_position (kids r ! xi)))
             (map_option (\<lambda>i. rp @ [xi, i]) (find_rotation (kids r ! xi))) c v rt l"
  using t r xi by (cases "preset_of name") (auto simp: apply_repeater_preset_def preset_spec_def Let_def)

lemma apply_repeater_preset_none:
  assumes r: "node_at l rp = Some r" and t: "preset_spec (preset_of name) (measure_shape h l) = None"
  shows "apply_repeater_preset h rp name l = (Inr (), l)"
  using t r by (cases "preset_of name") (auto simp: apply_repeater_preset_def preset_spec_def Let_def ret_def
      split: option.split)

lemma repeater_paths_valid:
  assumes r: "node_at l rp = Some r" and xi: "rep_xform r = Some xi"
  shows "\<forall>p. map_option (\<lambda>i. rp @ [i]) (find_copies r) = Some p \<longrightarrow> node_at l p \<noteq> None"
    and "\<forall>p. map_option (\<lambda>i. rp @ [xi, i]) (find_vector_position (kids r ! xi)) = Some p \<longrightarrow> node_at l p \<noteq> None"
    and "\<forall>p. map_option (\<lambda>i. rp @ [xi, i]) (find_rotation (kids r ! xi)) = Some p \<longrightarrow> node_at l p \<noteq> None"
  using r xi finder_less by (auto simp: node_at_append)

text \<open>
  C12. On a live repeater handle \<open>applyRepeaterPreset\<close> never throws, whatever the
  preset name and whichever of copies, position and rotation are missing or reject
  their value (each write is best-effort); for a name that is not one of the three
  presets it leaves the layer unchanged.
\<close>

theorem apply_repeater_preset_total:
  assumes r: "node_at l rp \<noteq> None"
  shows "\<exists>l'. apply_repeater_preset h rp name l = (Inr (), l') \<and> (preset_of name = Default \<longrightarrow> l' = l)"
proof -
  obtain r where r: "node_at l rp = Some r" using assms by auto
  show ?thesis
  proof (cases "rep_xform r")
    case None
    then show ?thesis using r by (simp add: apply_repeater_preset_def ret_def)
  next
    case (Some xi)
    show ?thesis
    proof (cases "preset_spec (preset_of name) (measure_shape h l)")
      case None
      then show ?thesis using apply_repeater_preset_none[OF r] by blast
    next
      case (Some t)
      then obtain c v rt where t: "preset_spec (preset_of name) (measure_shape h l) = Some (c, v, rt)"
        by (cases t) auto
      have "preset_of name \<noteq> Default" using t by (auto simp: preset_spec_def)
      moreover have "\<exists>l'. apply_repeater_preset h rp name l = (Inr (), l')"
        unfolding apply_repeater_preset_writes[OF r \<open>rep_xform r = Some xi\<close> t]
        by (rule preset_writes_total[OF repeater_paths_valid[OF r \<open>rep_xform r = Some xi\<close>]])
      ultimately show ?thesis by blast
    qed
  qed
qed

theorem apply_repeater_preset_total_witness:
  "(\<exists>l'. apply_repeater_preset demo_host [1, 1] ''Spiral Repeater'' demo_layer_rep = (Inr (), l')) \<and>
   apply_repeater_preset demo_host [1, 1] ''Grid'' demo_layer_rep = (Inr (), demo_layer_rep)"
proof -
  have h: "node_at demo_layer_rep [1, 1] \<noteq> None" "preset_of ''Grid'' = Default"
    by (simp_all add: node_at_def scene_defs ae_repeater_def preset_of_def)
  show ?thesis
    using apply_repeater_preset_total[OF h(1), of demo_host "''Spiral Repeater''"]
      apply_repeater_preset_total[OF h(1), of demo_host "''Grid''"] h(2) by auto
qed

lemma put_value_sel [simp]:
  "attrs (put_value v n) = (if fits (vtype n) v then attrs n\<lparr>pvalue := v\<rparr> else attrs n)"
  by (simp add: put_value_def set_value_def)

lemma cleared_sel [simp]:
  "vtype (cleared n) = vtype n" "val_of (cleared n) = val_of n"
  "expr_enabled (attrs (cleared n)) = (expr_enabled (attrs n) \<and> \<not> can_set_expr (attrs n))"
  by (auto simp: cleared_def)

lemma preset_okE:
  assumes "preset_ok r"
  obtains xi ci qi ri where "rep_xform r = Some xi" "find_copies r = Some ci"
    "find_vector_position (kids r ! xi) = Some qi" "find_rotation (kids r ! xi) = Some ri"
    "ci \<noteq> xi" "qi \<noteq> ri" "vtype (kids r ! ci) = OneD" "vtype (kids (kids r ! xi) ! ri) = OneD"
    "vtype (kids (kids r ! xi) ! qi) \<in> {TwoD, TwoD_SPATIAL, ThreeD, ThreeD_SPATIAL}"
    "can_set_expr (attrs (kids r ! ci))" "can_set_expr (attrs (kids (kids r ! xi) ! qi))"
    "can_set_expr (attrs (kids (kids r ! xi) ! ri))"
  using assms by (auto simp: preset_ok_def split: option.splits)

lemma preset_writes_Some:
  assumes c: "node_at l pc = Some nc" and p: "node_at l pp = Some np" and r: "node_at l pr = Some nr"
    and i1: "indep pc pp" and i2: "indep pc pr" and i3: "indep pp pr"
  shows "\<exists>l'. preset_writes (Some pc) (Some pp) (Some pr) k v rt l = (Inr (), l') \<and>
           node_at l' pc = Some (put_value (VNum k) (cleared nc)) \<and>
           node_at l' pp = Some (put_value (VVec [fst v, snd v]) (cleared np)) \<and>
           node_at l' pr = Some (put_value (VNum rt) (cleared nr))"
proof -
  let ?l1 = "l\<lparr>lnode := upd_at pc (\<lambda>_. put_value (VNum k) (cleared nc)) (lnode l)\<rparr>"
  let ?l2 = "?l1\<lparr>lnode := upd_at pp (\<lambda>_. put_value (VVec [fst v, snd v]) (cleared np)) (lnode ?l1)\<rparr>"
  let ?l3 = "?l2\<lparr>lnode := upd_at pr (\<lambda>_. put_value (VNum rt) (cleared nr)) (lnode ?l2)\<rparr>"
  have j1: "indep pp pc" "indep pr pc" "indep pr pp" using i1 i2 i3 by (simp_all add: indep_sym)
  have c1: "node_at ?l1 pc = Some (put_value (VNum k) (cleared nc))" using c by (simp add: node_at_def get_upd_same)
  have p1: "node_at ?l1 pp = Some np" using p j1 by (simp add: node_at_def get_upd_indep)
  have r1: "node_at ?l1 pr = Some nr" using r j1 by (simp add: node_at_def get_upd_indep)
  have c2: "node_at ?l2 pc = node_at ?l1 pc" using i1 by (simp add: node_at_def get_upd_indep)
  have p2: "node_at ?l2 pp = Some (put_value (VVec [fst v, snd v]) (cleared np))" using p1 by (simp add: node_at_def get_upd_same)
  have r2: "node_at ?l2 pr = Some nr" using r1 j1 by (simp add: node_at_def get_upd_indep)
  have c3: "node_at ?l3 pc = node_at ?l2 pc" using i2 by (simp add: node_at_def get_upd_indep)
  have p3: "node_at ?l3 pp = node_at ?l2 pp" using i3 by (simp add: node_at_def get_upd_indep)
  have r3: "node_at ?l3 pr = Some (put_value (VNum rt) (cleared nr))" using r2 by (simp add: node_at_def get_upd_same)
  have "preset_writes (Some pc) (Some pp) (Some pr) k v rt l = (Inr (), ?l3)"
    using c p1 r2 by (simp add: preset_writes_def ebind_def set_num_Some set_vec_Some)
  then show ?thesis using c1 c2 c3 p2 p3 r3 by auto
qed

lemma preset_ok_paths:
  assumes r: "node_at l rp = Some r" and ok: "preset_ok r"
  obtains xi ci qi ri where "rep_xform r = Some xi" "find_copies r = Some ci"
    "find_vector_position (kids r ! xi) = Some qi" "find_rotation (kids r ! xi) = Some ri"
    "\<And>k v rt. \<exists>l'. preset_writes (Some (rp @ [ci])) (Some (rp @ [xi, qi])) (Some (rp @ [xi, ri])) k v rt l = (Inr (), l') \<and>
       node_at l' (rp @ [ci]) = Some (put_value (VNum k) (cleared (kids r ! ci))) \<and>
       node_at l' (rp @ [xi, qi]) = Some (put_value (VVec [fst v, snd v]) (cleared (kids (kids r ! xi) ! qi))) \<and>
       node_at l' (rp @ [xi, ri]) = Some (put_value (VNum rt) (cleared (kids (kids r ! xi) ! ri)))"
    "\<And>a b. fits (vtype (kids (kids r ! xi) ! qi)) (VVec [a, b])"
    "vtype (kids r ! ci) = OneD" "vtype (kids (kids r ! xi) ! ri) = OneD"
    "can_set_expr (attrs (kids r ! ci))" "can_set_expr (attrs (kids (kids r ! xi) ! qi))"
    "can_set_expr (attrs (kids (kids r ! xi) ! ri))"
proof -
  obtain xi ci qi ri where xi: "rep_xform r = Some xi" and ci: "find_copies r = Some ci"
    and qi: "find_vector_position (kids r ! xi) = Some qi" and ri: "find_rotation (kids r ! xi) = Some ri"
    and d1: "ci \<noteq> xi" and d2: "qi \<noteq> ri" and tc: "vtype (kids r ! ci) = OneD"
    and tr: "vtype (kids (kids r ! xi) ! ri) = OneD"
    and tp: "vtype (kids (kids r ! xi) ! qi) \<in> {TwoD, TwoD_SPATIAL, ThreeD, ThreeD_SPATIAL}"
    and ec: "can_set_expr (attrs (kids r ! ci))" and ep: "can_set_expr (attrs (kids (kids r ! xi) ! qi))"
    and er: "can_set_expr (attrs (kids (kids r ! xi) ! ri))"
    using ok by (rule preset_okE)
  have nc: "node_at l (rp @ [ci]) = Some (kids r ! ci)" using r ci finder_less by (simp add: node_at_append)
  have np: "node_at l (rp @ [xi, qi]) = Some (kids (kids r ! xi) ! qi)"
    using r xi qi finder_less by (simp add: node_at_append)
  have nr: "node_at l (rp @ [xi, ri]) = Some (kids (kids r ! xi) ! ri)"
    using r xi ri finder_less by (simp add: node_at_append)
  have i: "indep (rp @ [ci]) (rp @ [xi, qi])" "indep (rp @ [ci]) (rp @ [xi, ri])" "indep (rp @ [xi, qi]) (rp @ [xi, ri])"
    using d1 d2 by (simp_all add: indep_append_same)
  have f: "fits (vtype (kids (kids r ! xi) ! qi)) (VVec [a, b])" for a b
    using tp by auto
  show ?thesis
    by (rule that[OF xi ci qi ri preset_writes_Some[OF nc np nr i] f tc tr ec ep er])
qed

text \<open>
  C11. \<open>applyRepeaterPreset\<close> implements the preset table of spec 4.5: on a repeater
  whose copies, position and rotation are found and take their values, the three
  properties end holding the copies, offset and rotation the table gives for the
  layer's measurement, with no live expression left on them. On the example of spec
  section 8 (100 by 50, stroke 10) the vertical preset gives offset (0, 80).
\<close>

theorem apply_repeater_preset_table:
  assumes r: "node_at l rp = Some r" and ok: "preset_ok r"
    and t: "preset_spec (preset_of name) (measure_shape h l) = Some (k, (px, py), rt)"
  shows "\<exists>l' xi ci qi ri nc np nr. apply_repeater_preset h rp name l = (Inr (), l') \<and>
           rep_xform r = Some xi \<and> find_copies r = Some ci \<and>
           find_vector_position (kids r ! xi) = Some qi \<and> find_rotation (kids r ! xi) = Some ri \<and>
           node_at l' (rp @ [ci]) = Some nc \<and> node_at l' (rp @ [xi, qi]) = Some np \<and>
           node_at l' (rp @ [xi, ri]) = Some nr \<and>
           val_of nc = VNum k \<and> val_of np = VVec [px, py] \<and> val_of nr = VNum rt \<and>
           \<not> expr_enabled (attrs nc) \<and> \<not> expr_enabled (attrs np) \<and> \<not> expr_enabled (attrs nr)"
proof -
  obtain xi ci qi ri where xi: "rep_xform r = Some xi" and ci: "find_copies r = Some ci"
    and qi: "find_vector_position (kids r ! xi) = Some qi" and ri: "find_rotation (kids r ! xi) = Some ri"
    and w: "\<And>k v rt. \<exists>l'. preset_writes (Some (rp @ [ci])) (Some (rp @ [xi, qi])) (Some (rp @ [xi, ri])) k v rt l = (Inr (), l') \<and>
       node_at l' (rp @ [ci]) = Some (put_value (VNum k) (cleared (kids r ! ci))) \<and>
       node_at l' (rp @ [xi, qi]) = Some (put_value (VVec [fst v, snd v]) (cleared (kids (kids r ! xi) ! qi))) \<and>
       node_at l' (rp @ [xi, ri]) = Some (put_value (VNum rt) (cleared (kids (kids r ! xi) ! ri)))"
    and f: "\<And>a b. fits (vtype (kids (kids r ! xi) ! qi)) (VVec [a, b])"
    and tc: "vtype (kids r ! ci) = OneD" and tr: "vtype (kids (kids r ! xi) ! ri) = OneD"
    and ec: "can_set_expr (attrs (kids r ! ci))" and ep: "can_set_expr (attrs (kids (kids r ! xi) ! qi))"
    and er: "can_set_expr (attrs (kids (kids r ! xi) ! ri))"
    by (rule preset_ok_paths[OF r ok]) (rule that; assumption)
  obtain l' where a: "apply_repeater_preset h rp name l = (Inr (), l')"
    and c': "node_at l' (rp @ [ci]) = Some (put_value (VNum k) (cleared (kids r ! ci)))"
    and p': "node_at l' (rp @ [xi, qi]) = Some (put_value (VVec [px, py]) (cleared (kids (kids r ! xi) ! qi)))"
    and r': "node_at l' (rp @ [xi, ri]) = Some (put_value (VNum rt) (cleared (kids (kids r ! xi) ! ri)))"
    using w[of k "(px, py)" rt] apply_repeater_preset_writes[OF r xi t] ci qi ri by auto
  show ?thesis using a c' p' r' xi ci qi ri f[of px py] tc tr ec ep er by auto
qed

theorem apply_repeater_preset_table_witness:
  "\<exists>l' nc np nr. apply_repeater_preset demo_host [1, 1] ''Vertical Repeater'' demo_layer_rep = (Inr (), l') \<and>
     node_at l' [1, 1, 0] = Some nc \<and> node_at l' [1, 1, 3, 1] = Some np \<and> node_at l' [1, 1, 3, 3] = Some nr \<and>
     val_of nc = VNum 10 \<and> val_of np = VVec [0, 80] \<and> val_of nr = VNum 0 \<and>
     \<not> expr_enabled (attrs nc) \<and> \<not> expr_enabled (attrs np) \<and> \<not> expr_enabled (attrs nr)"
proof -
  have h: "node_at demo_layer_rep [1, 1] = Some ae_repeater" "preset_ok ae_repeater"
    "preset_spec (preset_of ''Vertical Repeater'') (measure_shape demo_host demo_layer_rep) = Some (10, (0, 80), 0)"
    "rep_xform ae_repeater = Some 3" "find_copies ae_repeater = Some 0"
    "find_vector_position (kids ae_repeater ! 3) = Some 1" "find_rotation (kids ae_repeater ! 3) = Some 3"
    by (simp_all add: node_at_def scene_defs ae_repeater_def preset_ok_def finder_defs find_one_d_def
        prop_by_name_def re_test_def re_anchor_def re_position_def lower_char_def lower_cont_def is_upper_def vec2_def
        preset_spec_def preset_of_def geometry_eval)
  show ?thesis using apply_repeater_preset_table[OF h(1-3)] h(4-7) by auto
qed

end
