(* ===== verification/Controls.thy ===== *)
theory Controls
  imports Preset
begin

text \<open>
  The Control Exposer (spec 4.6): \<open>effectsParade\<close>, \<open>ensureSlider\<close>,
  \<open>ensurePoint\<close> and \<open>linkRepeaterToLayerControls\<close> of
  src/CenterAP_AddRepeater_v2.0.jsx (lines 390-471). Seven effect controls are found by
  name or created on the layer, seeded with the repeater's current values, and each
  found repeater property gets the expression that reads its control. The lemmas show
  that the control steps touch nothing outside the effects group, that find-or-create
  returns normally when the host creates controls, and that every found property ends
  bound to its own control, its value kept, when the seven resolve to different
  properties.
\<close>

section \<open>Expression strings\<close>

text \<open>\<open>"effect('" + name + "')('" + kind + "')"\<close>: the expression that reads a control.\<close>

definition ctl_expr :: "string \<Rightarrow> string \<Rightarrow> string" where
  "ctl_expr name kind = ''effect('' @ [CHR 0x27] @ name @ [CHR 0x27] @ '')('' @ [CHR 0x27] @ kind @ [CHR 0x27] @ '')''"

section \<open>Finding or creating a control\<close>

definition effects_parade :: "node \<Rightarrow> nat option" where
  "effects_parade n = prop_by_name n ''ADBE Effect Parade''"

text \<open>
  The common head of \<open>ensureSlider\<close> and \<open>ensurePoint\<close>: the effects group, the
  effect of that name, else a new effect of match name \<open>mn\<close> renamed to \<open>name\<close>.
\<close>

definition ensure_effect :: "host \<Rightarrow> string \<Rightarrow> string \<Rightarrow> (layer, path) exc" where
  "ensure_effect h mn name l =
     (case effects_parade (lnode l) of
        None \<Rightarrow> throw (Thrown ''Could not access Effects on this layer.'') l
      | Some fi \<Rightarrow>
          (case prop_by_name (kids (lnode l) ! fi) name of
             Some ei \<Rightarrow> (Inr [fi, ei], l)
           | None \<Rightarrow>
               (case add_property h [fi] mn l of
                  (None, l') \<Rightarrow> throw (Thrown (''Could not add '' @ [CHR 0x27] @ name @ [CHR 0x27] @ '' effect.'')) l'
                | (Some e, l') \<Rightarrow> ebind (write_at e (\<lambda>n. Inr (set_name name n))) (\<lambda>_. ret e) l')))"

text \<open>\<open>eff.property(m) || eff.property(1)\<close>: the control's value property, or \<open>null\<close>.\<close>

definition control_prop :: "string \<Rightarrow> path \<Rightarrow> node \<Rightarrow> path option" where
  "control_prop m e en = map_option (\<lambda>j. e @ [j]) (alt (prop_by_name en m) (prop_by_index en 1))"

text \<open>\<open>prop.setValue(v)\<close> on a handle that may be \<open>null\<close> (a \<open>TypeError\<close>).\<close>

definition write_opt :: "path option \<Rightarrow> (node \<Rightarrow> error + node) \<Rightarrow> (layer, unit) exc" where
  "write_opt po f = (case po of None \<Rightarrow> throw (HostFault ''TypeError: null handle'') | Some p \<Rightarrow> write_at p f)"

definition ensure_slider :: "host \<Rightarrow> string \<Rightarrow> pval \<Rightarrow> (layer, path option) exc" where
  "ensure_slider h name iv =
     ebind (ensure_effect h ''ADBE Slider Control'' name) (\<lambda>e.
       ebind (read_at e) (\<lambda>en.
         let pp = control_prop ''ADBE Slider Control-0001'' e en in
         ebind (case iv of
                  VNum x \<Rightarrow> try_catch (write_opt pp (set_value (VNum x))) (ret ())
                | _ \<Rightarrow> ret ())
           (\<lambda>_. ret pp)))"

definition ensure_point :: "host \<Rightarrow> string \<Rightarrow> pval \<Rightarrow> (layer, path option) exc" where
  "ensure_point h name iv =
     ebind (ensure_effect h ''ADBE Point Control'' name) (\<lambda>e.
       ebind (read_at e) (\<lambda>en.
         let pp = control_prop ''ADBE Point Control-0001'' e en in
         ebind (case vec2 iv of
                  Some (x, y) \<Rightarrow> try_catch (write_opt pp (set_value (VVec [x, y]))) (ret ())
                | None \<Rightarrow> ret ())
           (\<lambda>_. ret pp)))"

section \<open>linkRepeaterToLayerControls\<close>

text \<open>\<open>p ? p.value : d\<close> on a resolved handle.\<close>

definition value_or :: "layer \<Rightarrow> path option \<Rightarrow> pval \<Rightarrow> pval" where
  "value_or l po d = (case Option.bind po (node_at l) of None \<Rightarrow> d | Some n \<Rightarrow> val_of n)"

text \<open>The nested \<open>setExpr(prop, expr)\<close>.\<close>

definition set_expr :: "path option \<Rightarrow> string \<Rightarrow> (layer, unit) exc" where
  "set_expr po e =
     (case po of
        None \<Rightarrow> ret ()
      | Some p \<Rightarrow>
          ebind (read_at p) (\<lambda>n.
            if can_set_expr (attrs n)
            then ebind (write_at p (set_expression e)) (\<lambda>_. write_at p (set_expr_enabled True))
            else ret ()))"

text \<open>
  The seven repeater properties in the order of the code (copies, offset, position,
  scale, rotation, start and end opacity), as handles below the repeater \<open>rp\<close> whose
  transform group is child \<open>xi\<close>.
\<close>

definition rep_handles :: "path \<Rightarrow> node \<Rightarrow> nat \<Rightarrow> path option list" where
  "rep_handles rp r xi =
     (let x = kids r ! xi in
      [map_option (\<lambda>i. rp @ [i]) (find_copies r),
       map_option (\<lambda>i. rp @ [i]) (find_offset r),
       map_option (\<lambda>i. rp @ [xi, i]) (find_vector_position x),
       map_option (\<lambda>i. rp @ [xi, i]) (find_scale x),
       map_option (\<lambda>i. rp @ [xi, i]) (find_rotation x),
       map_option (\<lambda>i. rp @ [xi, i]) (find_start_opacity x),
       map_option (\<lambda>i. rp @ [xi, i]) (find_end_opacity x)])"

text \<open>The expressions \<open>setExpr\<close> installs, in the same order.\<close>

definition rep_exprs :: "string list" where
  "rep_exprs =
     [ctl_expr ''Number of Copies'' ''Slider'', ctl_expr ''Offset Amount'' ''Slider'',
      ctl_expr ''Position (x,y)'' ''Point'', ctl_expr ''Scale'' ''Point'',
      ctl_expr ''Rotation'' ''Slider'', ctl_expr ''Start Opacity'' ''Slider'',
      ctl_expr ''End Opacity'' ''Slider'']"

text \<open>
  Reading the current values (\<open>pCopies ? pCopies.value : 3\<close>, ...) and creating or
  reusing the seven controls seeded with them, in the order of the code.
\<close>

definition ensure_controls :: "host \<Rightarrow> layer \<Rightarrow> path option list \<Rightarrow> (layer, unit) exc list" where
  "ensure_controls h l hs =
     (let pc = hs ! 0; po = hs ! 1; pp = hs ! 2; ps = hs ! 3; pr = hs ! 4; pso = hs ! 5; peo = hs ! 6 in
      [discard (ensure_slider h ''Number of Copies'' (value_or l pc (VNum 3))),
       discard (ensure_slider h ''Rotation'' (value_or l pr (VNum 0))),
       discard (ensure_slider h ''Offset Amount'' (value_or l po (VNum 0))),
       discard (ensure_point h ''Position (x,y)'' (value_or l pp (VVec [0, 0]))),
       discard (ensure_point h ''Scale'' (value_or l ps (VVec [100, 100]))),
       discard (ensure_slider h ''Start Opacity'' (value_or l pso (VNum 100))),
       discard (ensure_slider h ''End Opacity'' (value_or l peo (VNum 100)))])"

definition link_repeater_to_layer_controls :: "host \<Rightarrow> path \<Rightarrow> (layer, unit) exc" where
  "link_repeater_to_layer_controls h rp l =
     (case node_at l rp of
        None \<Rightarrow> (Inl (HostFault ''TypeError: null handle''), l)
      | Some r \<Rightarrow>
          (case rep_xform r of
             None \<Rightarrow> throw (Thrown ''Could not access Repeater Transform group.'') l
           | Some xi \<Rightarrow>
               (let hs = rep_handles rp r xi
                in seq (ensure_controls h l hs @ map2 set_expr hs rep_exprs) l)))"

text \<open>
  What the control steps leave alone: the names of the layer's top-level groups and
  every node outside the effects group \<open>fi\<close>.
\<close>

definition effects_frame :: "nat \<Rightarrow> layer \<Rightarrow> layer \<Rightarrow> bool" where
  "effects_frame fi l l' \<longleftrightarrow>
     names_of (lnode l') = names_of (lnode l) \<and> (\<forall>q. indep q [fi] \<longrightarrow> node_at l' q = node_at l q)"

text \<open>A property after \<open>setExpr(prop, e)\<close>: the expression \<open>e\<close>, enabled.\<close>

definition bound_to :: "string \<Rightarrow> node \<Rightarrow> node" where
  "bound_to e n = Node (attrs n\<lparr>expression := e, expr_enabled := True\<rparr>) (kids n)"

text \<open>
  The resolved handles are pairwise apart: no two are the same property and none lies
  inside another. When two searches resolve to one property, the later \<open>setExpr\<close>
  overwrites the earlier.
\<close>

fun apart :: "path option list \<Rightarrow> bool" where
  "apart [] = True"
| "apart (None # hs) = apart hs"
| "apart (Some p # hs) = (list_all (\<lambda>h. case h of None \<Rightarrow> True | Some q \<Rightarrow> indep p q) hs \<and> apart hs)"

section \<open>Lemmas\<close>

lemma effects_frame_refl [simp]: "effects_frame fi l l"
  by (simp add: effects_frame_def)

lemma effects_frame_trans:
  "effects_frame fi l1 l2 \<Longrightarrow> effects_frame fi l2 l3 \<Longrightarrow> effects_frame fi l1 l3"
  by (simp add: effects_frame_def)

lemma effects_frame_upd:
  assumes "p \<noteq> [] \<or> (\<forall>m. attrs (f m) = attrs m)"
  shows "effects_frame fi l (l\<lparr>lnode := upd_at (fi # p) f (lnode l)\<rparr>)"
proof -
  have "names_of (upd_at (fi # p) f (lnode l)) = names_of (lnode l)"
  proof (cases p)
    case Nil
    then show ?thesis using assms names_of_upd_attrs[of f fi "lnode l"] by simp
  next
    case (Cons j q)
    then show ?thesis using names_of_upd_deep[of fi j q f "lnode l"] by simp
  qed
  moreover have "node_at (l\<lparr>lnode := upd_at (fi # p) f (lnode l)\<rparr>) q = node_at l q" if "indep q [fi]" for q
    using that by (simp del: upd_at.simps add: node_at_def get_upd_indep indep_Cons_head)
  ultimately show ?thesis by (simp add: effects_frame_def)
qed

lemma effects_parade_frame:
  assumes "effects_frame fi l l'"
  shows "effects_parade (lnode l') = effects_parade (lnode l)"
proof -
  have "names_of (lnode l') = names_of (lnode l)" using assms by (simp add: effects_frame_def)
  then show ?thesis unfolding effects_parade_def by (rule prop_by_name_names)
qed

lemma ensure_effect_ok:
  assumes fx: "effects_parade (lnode l) = Some fi" and c: "new_prop h mn = Some c"
  shows "\<exists>ei l'. ensure_effect h mn name l = (Inr [fi, ei], l') \<and> node_at l' [fi, ei] \<noteq> None \<and>
           effects_frame fi l l'"
proof -
  have fi: "fi < length (kids (lnode l))" using fx by (simp add: effects_parade_def prop_by_name_less)
  let ?F = "kids (lnode l) ! fi"
  show ?thesis
  proof (cases "prop_by_name ?F name")
    case (Some ei)
    then have "ei < length (kids ?F)" by (rule prop_by_name_less)
    then show ?thesis using fx fi Some by (simp add: ensure_effect_def node_at_def)
  next
    case None
    let ?k = "length (kids ?F)"
    let ?l1 = "l\<lparr>lnode := upd_at [fi] (append_kid c) (lnode l)\<rparr>"
    let ?l2 = "?l1\<lparr>lnode := upd_at [fi, ?k] (\<lambda>_. set_name name c) (lnode ?l1)\<rparr>"
    have add: "add_property h [fi] mn l = (Some [fi, ?k], ?l1)"
      using fi c by (simp add: add_property_def node_at_def)
    have n1: "node_at ?l1 [fi, ?k] = Some c"
      using fi by (simp add: node_at_def append_kid_def)
    have w: "write_at [fi, ?k] (\<lambda>n. Inr (set_name name n)) ?l1 = (Inr (), ?l2)"
      using n1 by (simp add: write_at_def)
    have "get_at (lnode ?l1) [fi, ?k] = Some c" using n1 by (simp only: node_at_def)
    then have "get_at (upd_at [fi, ?k] (\<lambda>_. set_name name c) (lnode ?l1)) [fi, ?k] = Some (set_name name c)"
      by (rule get_upd_same)
    then have n2: "node_at ?l2 [fi, ?k] = Some (set_name name c)"
      by (simp del: get_at.simps upd_at.simps add: node_at_def)
    have f1: "effects_frame fi l ?l1" by (rule effects_frame_upd) (simp add: append_kid_def)
    have f2: "effects_frame fi ?l1 ?l2" by (rule effects_frame_upd) simp
    have "ensure_effect h mn name l = (Inr [fi, ?k], ?l2)"
      using fx None add w by (simp add: ensure_effect_def ebind_def ret_def)
    then show ?thesis using n2 effects_frame_trans[OF f1 f2] by blast
  qed
qed

lemma try_write_frame:
  assumes "\<forall>p. po = Some p \<longrightarrow> (\<exists>q. p = fi # q \<and> q \<noteq> [])"
  shows "\<exists>l'. try_catch (write_opt po f) (ret ()) l = (Inr (), l') \<and> effects_frame fi l l'"
proof (cases po)
  case None
  then show ?thesis by (simp add: try_catch_def write_opt_def throw_def ret_def)
next
  case (Some p)
  then obtain q where p: "p = fi # q" and q: "q \<noteq> []" using assms by blast
  show ?thesis
  proof (cases "write_at p f l")
    case (Pair r l')
    show ?thesis
    proof (cases r)
      case (Inl e)
      then show ?thesis using Pair Some write_at_Inl[of p f l e l'] by (simp add: try_catch_def write_opt_def ret_def)
    next
      case (Inr u)
      then obtain n' where "l' = l\<lparr>lnode := upd_at p (\<lambda>_. n') (lnode l)\<rparr>"
        using Pair by (auto simp: write_at_Inr)
      moreover have "effects_frame fi l (l\<lparr>lnode := upd_at (fi # q) (\<lambda>_. n') (lnode l)\<rparr>)"
        using q by (intro effects_frame_upd) simp
      ultimately show ?thesis using Pair Some Inr p by (simp add: try_catch_def write_opt_def)
    qed
  qed
qed

lemma control_prop_shape:
  "\<forall>p. control_prop m [fi, ei] en = Some p \<longrightarrow> (\<exists>q. p = fi # q \<and> q \<noteq> [])"
  by (auto simp: control_prop_def)

lemma ensure_slider_ok:
  assumes fx: "effects_parade (lnode l) = Some fi" and c: "new_prop h ''ADBE Slider Control'' = Some c"
  shows "\<exists>pp l'. ensure_slider h name iv l = (Inr pp, l') \<and> effects_frame fi l l'"
proof -
  obtain ei l1 where e: "ensure_effect h ''ADBE Slider Control'' name l = (Inr [fi, ei], l1)"
    and v: "node_at l1 [fi, ei] \<noteq> None" and f1: "effects_frame fi l l1"
    using ensure_effect_ok[OF fx c] by blast
  obtain en where en: "node_at l1 [fi, ei] = Some en" using v by auto
  let ?pp = "control_prop ''ADBE Slider Control-0001'' [fi, ei] en"
  have "\<exists>l2. (case iv of VNum x \<Rightarrow> try_catch (write_opt ?pp (set_value (VNum x))) (ret ()) | _ \<Rightarrow> ret ()) l1 = (Inr (), l2)
      \<and> effects_frame fi l1 l2"
  proof (cases iv)
    case (VNum x)
    then show ?thesis using try_write_frame[OF control_prop_shape, where f = "set_value (VNum x)" and l = l1] by simp
  qed (simp_all add: ret_def)
  then obtain l2 where s: "(case iv of VNum x \<Rightarrow> try_catch (write_opt ?pp (set_value (VNum x))) (ret ()) | _ \<Rightarrow> ret ()) l1 = (Inr (), l2)"
    and f2: "effects_frame fi l1 l2" by blast
  have "ensure_slider h name iv l = (Inr ?pp, l2)"
    using e s by (simp add: ensure_slider_def ebind_def read_at_Some[OF en] Let_def ret_def)
  then show ?thesis using effects_frame_trans[OF f1 f2] by blast
qed

lemma ensure_point_ok:
  assumes fx: "effects_parade (lnode l) = Some fi" and c: "new_prop h ''ADBE Point Control'' = Some c"
  shows "\<exists>pp l'. ensure_point h name iv l = (Inr pp, l') \<and> effects_frame fi l l'"
proof -
  obtain ei l1 where e: "ensure_effect h ''ADBE Point Control'' name l = (Inr [fi, ei], l1)"
    and v: "node_at l1 [fi, ei] \<noteq> None" and f1: "effects_frame fi l l1"
    using ensure_effect_ok[OF fx c] by blast
  obtain en where en: "node_at l1 [fi, ei] = Some en" using v by auto
  let ?pp = "control_prop ''ADBE Point Control-0001'' [fi, ei] en"
  have "\<exists>l2. (case vec2 iv of Some (x, y) \<Rightarrow> try_catch (write_opt ?pp (set_value (VVec [x, y]))) (ret ()) | None \<Rightarrow> ret ()) l1 = (Inr (), l2)
      \<and> effects_frame fi l1 l2"
  proof (cases "vec2 iv")
    case (Some xy)
    then show ?thesis
      using try_write_frame[OF control_prop_shape, where f = "set_value (VVec [fst xy, snd xy])" and l = l1]
      by (cases xy) simp
  qed (simp add: ret_def)
  then obtain l2 where s: "(case vec2 iv of Some (x, y) \<Rightarrow> try_catch (write_opt ?pp (set_value (VVec [x, y]))) (ret ()) | None \<Rightarrow> ret ()) l1 = (Inr (), l2)"
    and f2: "effects_frame fi l1 l2" by blast
  have "ensure_point h name iv l = (Inr ?pp, l2)"
    using e s by (simp add: ensure_point_def ebind_def read_at_Some[OF en] Let_def ret_def)
  then show ?thesis using effects_frame_trans[OF f1 f2] by blast
qed

lemma seq_frame:
  assumes "\<forall>m \<in> set ms. \<forall>l. effects_parade (lnode l) = Some fi \<longrightarrow> (\<exists>l'. m l = (Inr (), l') \<and> effects_frame fi l l')"
    and "effects_parade (lnode l) = Some fi"
  shows "\<exists>l'. seq ms l = (Inr (), l') \<and> effects_frame fi l l'"
  using assms
proof (induction ms arbitrary: l)
  case Nil
  then show ?case by (simp add: ret_def)
next
  case (Cons m ms)
  then obtain l1 where 1: "m l = (Inr (), l1)" and f1: "effects_frame fi l l1" by auto
  have p1: "effects_parade (lnode l1) = Some fi" using Cons.prems(2) effects_parade_frame[OF f1] by simp
  have "\<forall>m \<in> set ms. \<forall>l. effects_parade (lnode l) = Some fi \<longrightarrow> (\<exists>l'. m l = (Inr (), l') \<and> effects_frame fi l l')"
    using Cons.prems(1) by simp
  then obtain l2 where 2: "seq ms l1 = (Inr (), l2)" and f2: "effects_frame fi l1 l2"
    using Cons.IH[OF _ p1] by blast
  show ?case using 1 2 effects_frame_trans[OF f1 f2] by (simp add: ebind_def)
qed

lemma discard_ensure_ok:
  assumes "new_prop h ''ADBE Slider Control'' \<noteq> None" and "new_prop h ''ADBE Point Control'' \<noteq> None"
  shows "effects_parade (lnode l) = Some fi \<Longrightarrow>
           \<exists>l'. discard (ensure_slider h name iv) l = (Inr (), l') \<and> effects_frame fi l l'"
    and "effects_parade (lnode l) = Some fi \<Longrightarrow>
           \<exists>l'. discard (ensure_point h name iv) l = (Inr (), l') \<and> effects_frame fi l l'"
  using assms ensure_slider_ok[of l fi h _ name iv] ensure_point_ok[of l fi h _ name iv]
  by (auto simp: discard_def ebind_def ret_def)

lemma set_expr_Some:
  assumes "node_at l p = Some n"
  shows "set_expr (Some p) e l =
           (Inr (), if can_set_expr (attrs n) then l\<lparr>lnode := upd_at p (\<lambda>_. bound_to e n) (lnode l)\<rparr> else l)"
proof (cases "can_set_expr (attrs n)")
  case True
  let ?n1 = "Node (attrs n\<lparr>expression := e, expr_enabled := (e \<noteq> [])\<rparr>) (kids n)"
  let ?l1 = "l\<lparr>lnode := upd_at p (\<lambda>_. ?n1) (lnode l)\<rparr>"
  have w1: "write_at p (set_expression e) l = (Inr (), ?l1)" using assms True by (simp add: write_expr_at)
  have "node_at ?l1 p = Some ?n1" using assms by (simp add: node_at_def get_upd_same)
  then have w2: "write_at p (set_expr_enabled True) ?l1 = (Inr (), ?l1\<lparr>lnode := upd_at p (\<lambda>_. bound_to e n) (lnode ?l1)\<rparr>)"
    using True by (simp add: write_at_def set_expr_enabled_def bound_to_def)
  show ?thesis using assms True w1 w2 by (simp add: set_expr_def read_at_Some ebind_def upd_upd_same)
qed (simp add: set_expr_def read_at_Some ebind_def ret_def assms)

lemma node_at_set_expr_other:
  "indep r q \<Longrightarrow> node_at (if c then l\<lparr>lnode := upd_at q f (lnode l)\<rparr> else l) r = node_at l r"
  by (simp add: node_at_def get_upd_indep)

lemma apart_Some_indep:
  "apart (Some q # ps) \<Longrightarrow> Some q' \<in> set ps \<Longrightarrow> indep q q'"
  by (auto simp: list_all_iff)

lemma set_exprs_bind:
  assumes "apart ps" and "\<forall>q. Some q \<in> set ps \<longrightarrow> node_at l q \<noteq> None" and "length es = length ps"
  shows "\<exists>l'. seq (map2 set_expr ps es) l = (Inr (), l') \<and>
           (\<forall>i < length ps. \<forall>q n. ps ! i = Some q \<longrightarrow> node_at l q = Some n \<longrightarrow>
              node_at l' q = Some (if can_set_expr (attrs n) then bound_to (es ! i) n else n)) \<and>
           (\<forall>r. list_all (\<lambda>h. case h of None \<Rightarrow> True | Some q \<Rightarrow> indep r q) ps \<longrightarrow> node_at l' r = node_at l r)"
  using assms
proof (induction ps arbitrary: es l)
  case Nil
  then show ?case by (simp add: ret_def)
next
  case (Cons h ps)
  obtain e es' where es: "es = e # es'" and len: "length es' = length ps" using Cons.prems(3) by (cases es) auto
  show ?case
  proof (cases h)
    case None
    have "apart ps" using Cons.prems(1) None by simp
    moreover have "\<forall>q. Some q \<in> set ps \<longrightarrow> node_at l q \<noteq> None" using Cons.prems(2) by simp
    ultimately obtain l' where 1: "seq (map2 set_expr ps es') l = (Inr (), l')"
      and 2: "\<forall>i < length ps. \<forall>q n. ps ! i = Some q \<longrightarrow> node_at l q = Some n \<longrightarrow>
              node_at l' q = Some (if can_set_expr (attrs n) then bound_to (es' ! i) n else n)"
      and 3: "\<forall>r. list_all (\<lambda>h. case h of None \<Rightarrow> True | Some q \<Rightarrow> indep r q) ps \<longrightarrow> node_at l' r = node_at l r"
      using Cons.IH len by blast
    have "seq (map2 set_expr (h # ps) es) l = (Inr (), l')"
      using 1 None es by (simp add: set_expr_def ebind_def ret_def)
    moreover have "\<forall>i < length (h # ps). \<forall>q n. (h # ps) ! i = Some q \<longrightarrow> node_at l q = Some n \<longrightarrow>
              node_at l' q = Some (if can_set_expr (attrs n) then bound_to (es ! i) n else n)"
      using 2 None es by (auto simp: nth_Cons split: nat.splits)
    ultimately show ?thesis using 3 None by auto
  next
    case (Some q)
    obtain n where n: "node_at l q = Some n" using Cons.prems(2) Some by auto
    define l1 where "l1 = (if can_set_expr (attrs n) then l\<lparr>lnode := upd_at q (\<lambda>_. bound_to e n) (lnode l)\<rparr> else l)"
    have s1: "set_expr (Some q) e l = (Inr (), l1)" unfolding l1_def by (rule set_expr_Some[OF n])
    have q1: "node_at l1 q = Some (if can_set_expr (attrs n) then bound_to e n else n)"
      using n by (simp add: l1_def node_at_def get_upd_same)
    have ap: "apart (Some q # ps)" using Cons.prems(1) Some by simp
    have oth: "node_at l1 q' = node_at l q'" if "Some q' \<in> set ps" for q'
      unfolding l1_def by (rule node_at_set_expr_other) (rule indep_sym[OF apart_Some_indep[OF ap that]])
    have "apart ps" using ap by simp
    moreover have "\<forall>q. Some q \<in> set ps \<longrightarrow> node_at l1 q \<noteq> None" using Cons.prems(2) oth by auto
    ultimately obtain l' where 1: "seq (map2 set_expr ps es') l1 = (Inr (), l')"
      and 2: "\<forall>i < length ps. \<forall>q n. ps ! i = Some q \<longrightarrow> node_at l1 q = Some n \<longrightarrow>
              node_at l' q = Some (if can_set_expr (attrs n) then bound_to (es' ! i) n else n)"
      and 3: "\<forall>r. list_all (\<lambda>h. case h of None \<Rightarrow> True | Some q \<Rightarrow> indep r q) ps \<longrightarrow> node_at l' r = node_at l1 r"
      using Cons.IH len by blast
    have run: "seq (map2 set_expr (h # ps) es) l = (Inr (), l')"
      using 1 s1 Some es by (simp add: ebind_def)
    have head: "node_at l' q = node_at l1 q" using 3 ap by simp
    have tail: "node_at l' q' = Some (if can_set_expr (attrs n') then bound_to (es' ! i) n' else n')"
      if "i < length ps" "ps ! i = Some q'" "node_at l q' = Some n'" for i q' n'
    proof -
      have "Some q' \<in> set ps" using that(1,2) by (metis nth_mem)
      then have "node_at l1 q' = Some n'" using oth that(3) by simp
      then show ?thesis using 2 that(1,2) by blast
    qed
    have "\<forall>i < length (h # ps). \<forall>q' n'. (h # ps) ! i = Some q' \<longrightarrow> node_at l q' = Some n' \<longrightarrow>
              node_at l' q' = Some (if can_set_expr (attrs n') then bound_to (es ! i) n' else n')"
    proof (intro allI impI)
      fix i q' n'
      assume i: "i < length (h # ps)" and hq: "(h # ps) ! i = Some q'" and nq: "node_at l q' = Some n'"
      show "node_at l' q' = Some (if can_set_expr (attrs n') then bound_to (es ! i) n' else n')"
      proof (cases i)
        case 0
        then show ?thesis using hq nq n head q1 Some es by simp
      next
        case (Suc j)
        then show ?thesis using i hq nq tail[of j q' n'] es by simp
      qed
    qed
    moreover have "node_at l' r = node_at l r"
      if "list_all (\<lambda>h. case h of None \<Rightarrow> True | Some q \<Rightarrow> indep r q) (h # ps)" for r
    proof -
      have "indep r q" using that Some by simp
      then have "node_at l1 r = node_at l r" unfolding l1_def by (rule node_at_set_expr_other)
      then show ?thesis using 3 that by simp
    qed
    ultimately show ?thesis using run by blast
  qed
qed

lemma ensure_controls_ok:
  assumes "new_prop h ''ADBE Slider Control'' \<noteq> None" and "new_prop h ''ADBE Point Control'' \<noteq> None"
  shows "\<forall>m \<in> set (ensure_controls h l0 hs). \<forall>l. effects_parade (lnode l) = Some fi \<longrightarrow>
           (\<exists>l'. m l = (Inr (), l') \<and> effects_frame fi l l')"
  using discard_ensure_ok[OF assms] by (simp add: ensure_controls_def Let_def)

lemma rep_handles_valid:
  assumes "node_at l rp = Some r" and "rep_xform r = Some xi"
  shows "\<forall>q. Some q \<in> set (rep_handles rp r xi) \<longrightarrow> node_at l q \<noteq> None \<and> (\<exists>x. q = rp @ x)"
  using assms finder_less by (auto simp: rep_handles_def Let_def node_at_append)

lemma length_rep_handles [simp]: "length (rep_handles rp r xi) = 7" "length rep_exprs = 7"
  by (simp_all add: rep_handles_def rep_exprs_def Let_def)

text \<open>
  C13. When the layer has its effects group, the host creates slider and point
  controls, and the seven searches resolve to properties apart from one another,
  \<open>linkRepeaterToLayerControls\<close> returns normally and every resolved repeater property
  that takes expressions ends with the enabled expression reading its own control
  (\<open>effect('Number of Copies')('Slider')\<close>, ...), its value kept; a property that was
  not resolved is skipped.
\<close>

theorem link_binds_controls:
  assumes r: "node_at l rp = Some r" and xi: "rep_xform r = Some xi"
    and fx: "effects_parade (lnode l) = Some fi" and rf: "indep rp [fi]"
    and cs: "new_prop h ''ADBE Slider Control'' \<noteq> None" and cp: "new_prop h ''ADBE Point Control'' \<noteq> None"
    and ap: "apart (rep_handles rp r xi)"
  shows "\<exists>l'. link_repeater_to_layer_controls h rp l = (Inr (), l') \<and>
           (\<forall>i < length rep_exprs. \<forall>q n. rep_handles rp r xi ! i = Some q \<longrightarrow> node_at l q = Some n \<longrightarrow>
              can_set_expr (attrs n) \<longrightarrow>
              (\<exists>n'. node_at l' q = Some n' \<and> expression (attrs n') = rep_exprs ! i \<and>
                    expr_enabled (attrs n') \<and> val_of n' = val_of n))"
proof -
  let ?hs = "rep_handles rp r xi"
  obtain l1 where 1: "seq (ensure_controls h l ?hs) l = (Inr (), l1)" and f1: "effects_frame fi l l1"
    using seq_frame[OF ensure_controls_ok[OF cs cp] fx] by blast
  have same: "node_at l1 q = node_at l q" if hq: "Some q \<in> set ?hs" for q
  proof -
    obtain x where "q = rp @ x" using rep_handles_valid[OF r xi] hq by blast
    then have "indep q [fi]" using rf by (simp add: indep_append_left)
    then show ?thesis using f1 by (simp add: effects_frame_def)
  qed
  have v1: "\<forall>q. Some q \<in> set ?hs \<longrightarrow> node_at l1 q \<noteq> None" using rep_handles_valid[OF r xi] same by simp
  obtain l' where 2: "seq (map2 set_expr ?hs rep_exprs) l1 = (Inr (), l')"
    and b: "\<forall>i < length ?hs. \<forall>q n. ?hs ! i = Some q \<longrightarrow> node_at l1 q = Some n \<longrightarrow>
              node_at l' q = Some (if can_set_expr (attrs n) then bound_to (rep_exprs ! i) n else n)"
    using set_exprs_bind[OF ap v1, of rep_exprs] by simp blast
  have run: "link_repeater_to_layer_controls h rp l = (Inr (), l')"
    using r xi 1 2 by (simp add: link_repeater_to_layer_controls_def seq_append ebind_def)
  have "\<exists>n'. node_at l' q = Some n' \<and> expression (attrs n') = rep_exprs ! i \<and>
              expr_enabled (attrs n') \<and> val_of n' = val_of n"
    if "i < length rep_exprs" "?hs ! i = Some q" "node_at l q = Some n" "can_set_expr (attrs n)" for i q n
  proof -
    have "Some q \<in> set ?hs" using that(1,2) by (metis length_rep_handles nth_mem)
    then have "node_at l1 q = Some n" using same that(3) by simp
    then show ?thesis using b that by (simp add: bound_to_def)
  qed
  then show ?thesis using run by blast
qed

lemmas control_eval = node_at_def scene_defs ae_repeater_def de_repeater_def rep_handles_def finder_defs
  find_one_d_def prop_by_name_def re_test_def re_position_def re_scale_def re_offset_def re_copies_def
  re_rotation_def re_start_opacity_def re_end_opacity_def lower_char_def lower_cont_def is_upper_def is_2d_def
  effects_parade_def demo_host_def ae_new_prop_def is_ws_def

theorem link_binds_controls_witness:
  "\<exists>l' n'. link_repeater_to_layer_controls demo_host [1, 1] demo_layer_rep = (Inr (), l') \<and>
     node_at l' [1, 1, 3, 3] = Some n' \<and> expression (attrs n') = ctl_expr ''Rotation'' ''Slider'' \<and>
     expr_enabled (attrs n') \<and> val_of n' = VNum 0"
proof -
  have h: "node_at demo_layer_rep [1, 1] = Some ae_repeater" "rep_xform ae_repeater = Some 3"
    "effects_parade (lnode demo_layer_rep) = Some 2" "indep [1, 1] [2]"
    "new_prop demo_host ''ADBE Slider Control'' \<noteq> None" "new_prop demo_host ''ADBE Point Control'' \<noteq> None"
    "apart (rep_handles [1, 1] ae_repeater 3)"
    by (simp_all add: control_eval)
  have i: "4 < length rep_exprs" "rep_handles [1, 1] ae_repeater 3 ! 4 = Some [1, 1, 3, 3]"
    "node_at demo_layer_rep [1, 1, 3, 3] = Some (mk_leaf ''ADBE Vector Repeater Rotation'' ''Rotation'' OneD (VNum 0))"
    "rep_exprs ! 4 = ctl_expr ''Rotation'' ''Slider''"
    by (simp_all add: control_eval rep_exprs_def)
  show ?thesis using link_binds_controls[OF h] i by fastforce
qed

end
