(* ===== verification/Memory.thy ===== *)
theory Memory
  imports Controls
begin

text \<open>
  The Anchor Memory (spec 4.7): \<open>ensureAPMemoryEffect\<close>, \<open>getAPMemoryPointProp\<close>,
  \<open>saveAnchorToMemory\<close> and \<open>getSavedAnchor\<close> of src/CenterAP_AddRepeater_v2.0.jsx
  (lines 472-510). The snapshot of the layer's anchor point is the value of a point
  control named "Anchor Point Restore (don't change)" on the layer's effects; saving
  also writes a note into the layer's comment. The functions take the effect's name as
  a parameter, so that v1.9 (theory V19) is the other instance. The lemmas show the
  save/load round trip, that saving touches nothing but the effects group and the
  comment, and that the find-or-create of effects is idempotent.
\<close>

section \<open>The memory effect\<close>

definition mem_name :: string where
  "mem_name = ''Anchor Point Restore (don'' @ [CHR 0x27] @ ''t change)''"

text \<open>\<open>ensureAPMemoryEffect\<close>: the same find-or-add-and-rename as \<open>ensureSlider\<close>, for a
  point control of the memory's name; its messages are those of \<open>ensure_effect\<close>.\<close>

definition ensure_memory_effect_in :: "string \<Rightarrow> host \<Rightarrow> (layer, path) exc" where
  "ensure_memory_effect_in nm h = ensure_effect h ''ADBE Point Control'' nm"

text \<open>\<open>getAPMemoryPointProp\<close>: the first two-dimensional property of the effect, else its
  first property, else \<open>null\<close>.\<close>

definition get_ap_memory_point_prop :: "node \<Rightarrow> nat option" where
  "get_ap_memory_point_prop m =
     alt (find_idx (\<lambda>p. vtype p = TwoD \<or> vtype p = TwoD_SPATIAL) (kids m)) (prop_by_index m 1)"

section \<open>Saving and loading\<close>

text \<open>\<open>"[AP saved] " + x.toFixed(1) + ", " + y.toFixed(1)\<close>.\<close>

definition saved_comment :: "host \<Rightarrow> real \<times> real \<Rightarrow> string" where
  "saved_comment h v = ''[AP saved] '' @ to_fixed1 h (fst v) @ '', '' @ to_fixed1 h (snd v)"

definition save_anchor_in :: "string \<Rightarrow> host \<Rightarrow> (layer, unit) exc" where
  "save_anchor_in nm h l =
     (case anchor_path (lnode l) of
        None \<Rightarrow> throw (Thrown ''Could not access layer Anchor Point.'') l
      | Some pa \<Rightarrow>
          ebind (ensure_memory_effect_in nm h) (\<lambda>e.
            ebind (read_at e) (\<lambda>en.
              case get_ap_memory_point_prop en of
                None \<Rightarrow> throw (Thrown (''Could not access '' @ [CHR 0x27] @ nm @ [CHR 0x27] @ '' point property.''))
              | Some j \<Rightarrow>
                  ebind (read_vec2 pa) (\<lambda>v.
                    ebind (write_at (e @ [j]) (set_value (VVec [fst v, snd v]))) (\<lambda>_.
                      (\<lambda>l'. (Inr (), l'\<lparr>comment := saved_comment h v\<rparr>)))))) l)"

text \<open>\<open>getSavedAnchor\<close>: a pure read; \<open>null\<close> on every missing piece and on a value that
  is not a pair of numbers.\<close>

definition get_saved_anchor_in :: "string \<Rightarrow> layer \<Rightarrow> (real \<times> real) option" where
  "get_saved_anchor_in nm l =
     (case effects_parade (lnode l) of
        None \<Rightarrow> None
      | Some fi \<Rightarrow>
          (let fx = kids (lnode l) ! fi in
           case prop_by_name fx nm of
             None \<Rightarrow> None
           | Some mi \<Rightarrow>
               (let m = kids fx ! mi in
                case get_ap_memory_point_prop m of
                  None \<Rightarrow> None
                | Some j \<Rightarrow> vec2 (val_of (kids m ! j)))))"

section \<open>When saving works\<close>

text \<open>
  A layer the memory can be saved on: its anchor point holds two numbers and lies
  outside the effects group, and the memory effect, found or created by the host, has a
  two-dimensional property.
\<close>

definition has_2d :: "node \<Rightarrow> bool" where
  "has_2d m \<longleftrightarrow> find_idx (\<lambda>p. vtype p = TwoD \<or> vtype p = TwoD_SPATIAL) (kids m) \<noteq> None"

definition memory_ok_in :: "string \<Rightarrow> host \<Rightarrow> layer \<Rightarrow> bool" where
  "memory_ok_in nm h l \<longleftrightarrow>
     (case (effects_parade (lnode l), anchor_path (lnode l)) of
        (Some fi, Some pa) \<Rightarrow>
          indep pa [fi] \<and> anchor_of l \<noteq> None \<and>
          (case prop_by_name (kids (lnode l) ! fi) nm of
             Some mi \<Rightarrow> has_2d (kids (kids (lnode l) ! fi) ! mi)
           | None \<Rightarrow> (case new_prop h ''ADBE Point Control'' of None \<Rightarrow> False | Some c \<Rightarrow> has_2d c))
      | _ \<Rightarrow> False)"

text \<open>Where \<open>getSavedAnchor\<close> reads: the memory effect's point property as a path.\<close>

definition mem_point_path_in :: "string \<Rightarrow> node \<Rightarrow> path option" where
  "mem_point_path_in nm n =
     (case effects_parade n of
        None \<Rightarrow> None
      | Some fi \<Rightarrow>
          (case prop_by_name (kids n ! fi) nm of
             None \<Rightarrow> None
           | Some mi \<Rightarrow> map_option (\<lambda>j. [fi, mi, j]) (get_ap_memory_point_prop (kids (kids n ! fi) ! mi))))"

text \<open>
  No effect of the layer is called \<open>nm\<close>, by match name or display name: the layer
  holds no memory of that name.
\<close>

definition effect_absent :: "string \<Rightarrow> layer \<Rightarrow> bool" where
  "effect_absent nm l \<longleftrightarrow>
     (case effects_parade (lnode l) of
        None \<Rightarrow> True
      | Some fi \<Rightarrow> prop_by_name (kids (lnode l) ! fi) nm = None)"

section \<open>The v2.0 memory\<close>

definition ensure_ap_memory_effect :: "host \<Rightarrow> (layer, path) exc" where
  "ensure_ap_memory_effect h = ensure_memory_effect_in mem_name h"

definition save_anchor_to_memory :: "host \<Rightarrow> (layer, unit) exc" where
  "save_anchor_to_memory h = save_anchor_in mem_name h"

definition get_saved_anchor :: "layer \<Rightarrow> (real \<times> real) option" where
  "get_saved_anchor = get_saved_anchor_in mem_name"

definition memory_ok :: "host \<Rightarrow> layer \<Rightarrow> bool" where
  "memory_ok h = memory_ok_in mem_name h"

section \<open>Lemmas\<close>

lemma get_ap_memory_point_prop_less:
  "get_ap_memory_point_prop m = Some j \<Longrightarrow> j < length (kids m)"
  by (auto simp: get_ap_memory_point_prop_def alt_def prop_by_index_def split: option.splits if_splits)

lemma get_ap_memory_point_prop_kids:
  "kids m' = kids m \<Longrightarrow> get_ap_memory_point_prop m' = get_ap_memory_point_prop m"
  by (simp add: get_ap_memory_point_prop_def prop_by_index_def)

lemma has_2d_point_prop:
  "has_2d m \<Longrightarrow> \<exists>j. get_ap_memory_point_prop m = Some j \<and> j < length (kids m) \<and>
     (vtype (kids m ! j) = TwoD \<or> vtype (kids m ! j) = TwoD_SPATIAL)"
  by (auto simp: has_2d_def get_ap_memory_point_prop_def)

lemma get_saved_anchor_path:
  "get_saved_anchor_in nm l = Option.bind (mem_point_path_in nm (lnode l)) (\<lambda>p. Option.bind (node_at l p) (\<lambda>n. vec2 (val_of n)))"
  by (auto simp: get_saved_anchor_in_def mem_point_path_in_def node_at_def Let_def effects_parade_def
      dest: prop_by_name_less get_ap_memory_point_prop_less split: option.splits)

lemma mem_point_path_write:
  assumes p: "mem_point_path_in nm N = Some [fi, mi, j]" and n: "get_at N [fi, mi, j] = Some m" and t: "vtype m' = vtype m"
  shows "mem_point_path_in nm (upd_at [fi, mi, j] (\<lambda>_. m') N) = Some [fi, mi, j]"
proof -
  let ?N' = "upd_at [fi, mi, j] (\<lambda>_. m') N"
  have fi: "fi < length (kids N)" and mi: "mi < length (kids (kids N ! fi))"
    and j: "j < length (kids (kids (kids N ! fi) ! mi))" using n by (auto split: if_splits)
  have e: "effects_parade ?N' = effects_parade N"
    unfolding effects_parade_def by (rule prop_by_name_names) (rule names_of_upd_deep)
  have F: "kids ?N' ! fi = upd_at [mi, j] (\<lambda>_. m') (kids N ! fi)" using fi by simp
  have pm: "prop_by_name (kids ?N' ! fi) nm = prop_by_name (kids N ! fi) nm"
    unfolding F by (rule prop_by_name_names) (rule names_of_upd_deep)
  have M: "kids (kids ?N' ! fi) ! mi = Node (attrs (kids (kids N ! fi) ! mi)) ((kids (kids (kids N ! fi) ! mi))[j := m'])"
    using fi mi j by simp
  have "m = kids (kids (kids N ! fi) ! mi) ! j" using n fi mi j by simp
  then have g: "get_ap_memory_point_prop (kids (kids ?N' ! fi) ! mi) = get_ap_memory_point_prop (kids (kids N ! fi) ! mi)"
    unfolding M get_ap_memory_point_prop_def prop_by_index_def using t by (simp add: find_idx_update_same)
  have e0: "effects_parade N = Some fi" and pm0: "prop_by_name (kids N ! fi) nm = Some mi"
    and g0: "get_ap_memory_point_prop (kids (kids N ! fi) ! mi) = Some j"
    using p by (auto simp: mem_point_path_in_def split: option.splits)
  show ?thesis unfolding mem_point_path_in_def e e0 option.case pm pm0 g g0 by simp
qed

lemma ensure_effect_found:
  "effects_parade (lnode l) = Some fi \<Longrightarrow> prop_by_name (kids (lnode l) ! fi) name = Some ei \<Longrightarrow>
     ensure_effect h mn name l = (Inr [fi, ei], l)"
  by (simp add: ensure_effect_def)

lemma upd_append_kid_rename:
  "fi < length (kids N) \<Longrightarrow>
     upd_at [fi, length (kids (kids N ! fi))] (\<lambda>_. set_name name c) (upd_at [fi] (append_kid c) N) =
     upd_at [fi] (append_kid (set_name name c)) N"
  by (simp add: append_kid_def)

lemma ensure_effect_created:
  assumes fx: "effects_parade (lnode l) = Some fi" and no: "prop_by_name (kids (lnode l) ! fi) name = None"
    and c: "new_prop h mn = Some c"
  shows "ensure_effect h mn name l =
           (Inr [fi, length (kids (kids (lnode l) ! fi))],
            l\<lparr>lnode := upd_at [fi] (append_kid (set_name name c)) (lnode l)\<rparr>)"
proof -
  have fi: "fi < length (kids (lnode l))" using fx by (simp add: effects_parade_def prop_by_name_less)
  let ?k = "length (kids (kids (lnode l) ! fi))"
  let ?l1 = "l\<lparr>lnode := upd_at [fi] (append_kid c) (lnode l)\<rparr>"
  have add: "add_property h [fi] mn l = (Some [fi, ?k], ?l1)"
    using fi c by (simp add: add_property_def node_at_def)
  have n1: "node_at ?l1 [fi, ?k] = Some c"
    using fi by (simp add: node_at_def append_kid_def)
  have w: "write_at [fi, ?k] (\<lambda>n. Inr (set_name name n)) ?l1 =
      (Inr (), l\<lparr>lnode := upd_at [fi] (append_kid (set_name name c)) (lnode l)\<rparr>)"
    using n1 fi by (simp add: write_at_def upd_append_kid_rename del: upd_at.simps)
  show ?thesis using fx no add w by (simp add: ensure_effect_def ebind_def ret_def)
qed

lemma mem_point_path_created:
  assumes fx: "effects_parade N = Some fi" and no: "prop_by_name (kids N ! fi) nm = None"
  shows "mem_point_path_in nm (upd_at [fi] (append_kid (set_name nm c)) N) =
           map_option (\<lambda>j. [fi, length (kids (kids N ! fi)), j]) (get_ap_memory_point_prop c)"
proof -
  let ?N' = "upd_at [fi] (append_kid (set_name nm c)) N"
  have fi: "fi < length (kids N)" using fx by (simp add: effects_parade_def prop_by_name_less)
  have "names_of ?N' = names_of N" by (rule names_of_upd_attrs) (simp add: append_kid_def)
  then have e: "effects_parade ?N' = Some fi"
    using fx prop_by_name_names[of ?N' N "''ADBE Effect Parade''"] by (simp add: effects_parade_def)
  have F: "kids ?N' ! fi = Node (attrs (kids N ! fi)) (kids (kids N ! fi) @ [set_name nm c])"
    using fi by (simp add: append_kid_def)
  have pm: "prop_by_name (kids ?N' ! fi) nm = Some (length (kids (kids N ! fi)))"
    using no unfolding F prop_by_name_def by (simp add: find_idx_append_notin find_idx_None_iff set_name_def)
  have g: "get_ap_memory_point_prop (set_name nm c) = get_ap_memory_point_prop c"
    by (rule get_ap_memory_point_prop_kids) (simp add: set_name_def)
  show ?thesis unfolding mem_point_path_in_def e option.case pm using g F by simp
qed

lemma anchor_path_frame:
  assumes f: "effects_frame fi l l'" and a: "anchor_path (lnode l) = Some pa" and i: "indep pa [fi]"
  shows "anchor_path (lnode l') = Some pa" and "node_at l' pa = node_at l pa"
proof -
  obtain t a' where t: "transform_idx (lnode l) = Some t" and pa: "pa = [t, a']"
    using a by (auto simp: anchor_path_def split: option.splits)
  have names: "names_of (lnode l') = names_of (lnode l)" using f by (simp add: effects_frame_def)
  then have t': "transform_idx (lnode l') = Some t"
    using t prop_by_name_names[OF names] by (simp add: transform_idx_def)
  have tl: "t < length (kids (lnode l))" using t by (simp add: transform_idx_def prop_by_name_less)
  have "indep [t] [fi]" using i pa by simp
  then have "node_at l' [t] = node_at l [t]" using f by (simp add: effects_frame_def)
  moreover have "t < length (kids (lnode l'))" using t' by (simp add: transform_idx_def prop_by_name_less)
  ultimately have k: "kids (lnode l') ! t = kids (lnode l) ! t" using tl by (simp add: node_at_def)
  show "anchor_path (lnode l') = Some pa" using a t t' k by (simp add: anchor_path_def)
  show "node_at l' pa = node_at l pa" using f i by (simp add: effects_frame_def)
qed

lemma ensure_memory_ok:
  assumes fx: "effects_parade (lnode l) = Some fi"
    and m: "case prop_by_name (kids (lnode l) ! fi) nm of
              Some mi \<Rightarrow> has_2d (kids (kids (lnode l) ! fi) ! mi)
            | None \<Rightarrow> (case new_prop h ''ADBE Point Control'' of None \<Rightarrow> False | Some c \<Rightarrow> has_2d c)"
  shows "\<exists>mi en l1. ensure_memory_effect_in nm h l = (Inr [fi, mi], l1) \<and> node_at l1 [fi, mi] = Some en \<and>
           has_2d en \<and> effects_frame fi l l1 \<and>
           mem_point_path_in nm (lnode l1) = map_option (\<lambda>j. [fi, mi, j]) (get_ap_memory_point_prop en)"
proof (cases "prop_by_name (kids (lnode l) ! fi) nm")
  case (Some mi)
  have fi: "fi < length (kids (lnode l))" using fx by (simp add: effects_parade_def prop_by_name_less)
  have mi: "mi < length (kids (kids (lnode l) ! fi))" using Some by (rule prop_by_name_less)
  show ?thesis
    using Some m fx fi mi
    by (simp add: ensure_memory_effect_in_def ensure_effect_found node_at_def mem_point_path_in_def)
next
  case None
  then obtain c where c: "new_prop h ''ADBE Point Control'' = Some c" and h2: "has_2d c"
    using m by (auto split: option.splits)
  have fi: "fi < length (kids (lnode l))" using fx by (simp add: effects_parade_def prop_by_name_less)
  let ?k = "length (kids (kids (lnode l) ! fi))"
  let ?l1 = "l\<lparr>lnode := upd_at [fi] (append_kid (set_name nm c)) (lnode l)\<rparr>"
  have e: "ensure_memory_effect_in nm h l = (Inr [fi, ?k], ?l1)"
    unfolding ensure_memory_effect_in_def by (rule ensure_effect_created[OF fx None c])
  have n: "node_at ?l1 [fi, ?k] = Some (set_name nm c)" using fi by (simp add: node_at_def append_kid_def)
  have "has_2d (set_name nm c)" using h2 by (simp add: has_2d_def set_name_def)
  moreover have "effects_frame fi l ?l1" by (rule effects_frame_upd) (simp add: append_kid_def)
  moreover have "mem_point_path_in nm (lnode ?l1) = map_option (\<lambda>j. [fi, ?k, j]) (get_ap_memory_point_prop (set_name nm c))"
    using mem_point_path_created[OF fx None, of c] get_ap_memory_point_prop_kids[of "set_name nm c" c]
    by (simp add: set_name_def)
  ultimately show ?thesis using e n by blast
qed

lemma save_anchor_in_result:
  assumes ok: "memory_ok_in nm h l" and v: "anchor_of l = Some v"
  shows "\<exists>l'. save_anchor_in nm h l = (Inr (), l') \<and> get_saved_anchor_in nm l' = Some v \<and>
           anchor_of l' = Some v \<and> comment l' = saved_comment h v \<and>
           (\<exists>fi. effects_parade (lnode l) = Some fi \<and> effects_frame fi l l')"
proof -
  obtain fi pa where fx: "effects_parade (lnode l) = Some fi" and ap: "anchor_path (lnode l) = Some pa"
    and i: "indep pa [fi]"
    and m: "case prop_by_name (kids (lnode l) ! fi) nm of
              Some mi \<Rightarrow> has_2d (kids (kids (lnode l) ! fi) ! mi)
            | None \<Rightarrow> (case new_prop h ''ADBE Point Control'' of None \<Rightarrow> False | Some c \<Rightarrow> has_2d c)"
    using ok by (auto simp: memory_ok_in_def split: option.splits)
  obtain an where an: "node_at l pa = Some an" and av: "vec2 (val_of an) = Some v"
    using v ap by (auto simp: anchor_of_def split: option.splits Option.bind_splits)
  obtain mi en l1 where e: "ensure_memory_effect_in nm h l = (Inr [fi, mi], l1)" and en: "node_at l1 [fi, mi] = Some en"
    and h2: "has_2d en" and f1: "effects_frame fi l l1"
    and mp: "mem_point_path_in nm (lnode l1) = map_option (\<lambda>j. [fi, mi, j]) (get_ap_memory_point_prop en)"
    using ensure_memory_ok[OF fx m] by blast
  obtain j where j: "get_ap_memory_point_prop en = Some j" and jl: "j < length (kids en)"
    and jt: "vtype (kids en ! j) = TwoD \<or> vtype (kids en ! j) = TwoD_SPATIAL"
    using has_2d_point_prop[OF h2] by blast
  have ap1: "anchor_path (lnode l1) = Some pa" and an1: "node_at l1 pa = Some an"
    using anchor_path_frame[OF f1 ap i] an by simp_all
  have r1: "read_vec2 pa l1 = (Inr v, l1)" using an1 av by (simp add: read_vec2_def read_at_Some ebind_def ret_def)
  let ?p = "[fi, mi, j]"
  let ?n = "kids en ! j"
  let ?n' = "Node (attrs ?n\<lparr>pvalue := VVec [fst v, snd v]\<rparr>) (kids ?n)"
  let ?l2 = "l1\<lparr>lnode := upd_at ?p (\<lambda>_. ?n') (lnode l1)\<rparr>"
  let ?l3 = "?l2\<lparr>comment := saved_comment h v\<rparr>"
  have np: "node_at l1 ?p = Some ?n" using en jl by (simp add: node_at_append[of l1 "[fi, mi]" "[j]", simplified])
  have w: "write_at ?p (set_value (VVec [fst v, snd v])) l1 = (Inr (), ?l2)"
    using np jt by (auto simp: write_at_def set_value_def)
  have run: "save_anchor_in nm h l = (Inr (), ?l3)"
    using ap e en j r1 w by (simp add: save_anchor_in_def ebind_def read_at_Some)
  have g: "get_at (lnode l1) ?p = Some ?n" using np by (simp only: node_at_def)
  have "mem_point_path_in nm (upd_at ?p (\<lambda>_. ?n') (lnode l1)) = Some ?p"
    by (rule mem_point_path_write[OF _ g]) (simp_all add: mp j)
  then have mp2: "mem_point_path_in nm (lnode ?l3) = Some ?p" by (simp del: upd_at.simps)
  have "get_at (upd_at ?p (\<lambda>_. ?n') (lnode l1)) ?p = Some ?n'" using g by (rule get_upd_same)
  then have n3: "node_at ?l3 ?p = Some ?n'" by (simp del: upd_at.simps get_at.simps add: node_at_def)
  have "get_saved_anchor_in nm ?l3 = Some v"
    unfolding get_saved_anchor_path mp2 using n3 av by (cases v) (simp add: vec2_def)
  moreover have f2: "effects_frame fi l1 ?l2" by (rule effects_frame_upd) simp
  moreover have "anchor_of ?l3 = Some v"
  proof -
    have "anchor_path (lnode ?l2) = Some pa" "node_at ?l2 pa = Some an"
      using anchor_path_frame[OF f2 ap1 i] an1 by simp_all
    then show ?thesis using av by (simp add: anchor_of_def node_at_def)
  qed
  moreover have "effects_frame fi l ?l3"
    using effects_frame_trans[OF f1 f2] by (simp add: effects_frame_def node_at_def)
  ultimately show ?thesis using run fx by auto
qed

lemma keeps_read_at [simp]: "keeps P (read_at p)"
  by (simp add: keeps_def read_at_def split: option.splits)

lemma keeps_read_vec2 [simp]: "keeps P (read_vec2 p)"
  by (auto simp: read_vec2_def split: option.splits)

lemma keeps_set_comment [simp]: "keeps P (\<lambda>l. (Inr (), l\<lparr>comment := c\<rparr>)) \<longleftrightarrow> (\<forall>l. P l \<longrightarrow> P (l\<lparr>comment := c\<rparr>))"
  by (simp add: keeps_def)

lemma effect_absent_saved: "effect_absent nm l \<Longrightarrow> get_saved_anchor_in nm l = None"
  by (simp add: effect_absent_def get_saved_anchor_in_def Let_def split: option.splits)

lemma names_of_kid_upd_deep: "names_of (kids (upd_at (i # j # k # q) f n) ! fi) = names_of (kids n ! fi)"
proof (cases "i < length (kids n) \<and> fi = i")
  case True
  then show ?thesis by (simp del: upd_at.simps add: kids_upd_at_Cons_nth names_of_upd_deep)
qed auto

lemma effect_absent_comment [simp]: "effect_absent nm (l\<lparr>comment := c\<rparr>) = effect_absent nm l"
  by (simp add: effect_absent_def split: option.split)

lemma effect_absent_names:
  assumes t: "names_of (lnode l') = names_of (lnode l)" and k: "\<And>fi. names_of (kids (lnode l') ! fi) = names_of (kids (lnode l) ! fi)"
  shows "effect_absent nm l' = effect_absent nm l"
proof -
  have "effects_parade (lnode l') = effects_parade (lnode l)"
    unfolding effects_parade_def by (rule prop_by_name_names[OF t])
  moreover have "prop_by_name (kids (lnode l') ! fi) nm = prop_by_name (kids (lnode l) ! fi) nm" for fi
    by (rule prop_by_name_names[OF k])
  ultimately show ?thesis by (simp add: effect_absent_def split: option.split)
qed

lemma keeps_effect_absent_write: "keeps (effect_absent nm) (write_at (i # j # k # q) f)"
  unfolding keeps_def
proof (intro allI impI)
  fix s assume a: "effect_absent nm s"
  obtain r s' where w: "write_at (i # j # k # q) f s = (r, s')" by (cases "write_at (i # j # k # q) f s")
  show "effect_absent nm (snd (write_at (i # j # k # q) f s))"
  proof (cases r)
    case (Inl e)
    then show ?thesis using w a write_at_Inl[of "i # j # k # q" f s e s'] by simp
  next
    case (Inr u)
    then obtain n' where "s' = s\<lparr>lnode := upd_at (i # j # k # q) (\<lambda>_. n') (lnode s)\<rparr>"
      using w by (auto simp: write_at_Inr)
    moreover have "effect_absent nm (s\<lparr>lnode := upd_at (i # j # k # q) (\<lambda>_. n') (lnode s)\<rparr>) = effect_absent nm s"
      by (rule effect_absent_names) (simp_all del: upd_at.simps add: names_of_upd_deep names_of_kid_upd_deep)
    ultimately show ?thesis using w a by simp
  qed
qed

lemma ensure_effect_absent:
  assumes e: "ensure_effect h mn name l = (r, l')" and a: "effect_absent nm l" and ne: "name \<noteq> nm"
    and hc: "\<forall>c. new_prop h mn = Some c \<longrightarrow> mname c \<noteq> nm"
  shows "effect_absent nm l' \<and> (\<forall>p. r = Inr p \<longrightarrow> (\<exists>fi mi. p = [fi, mi]))"
proof (cases "effects_parade (lnode l)")
  case None
  then show ?thesis using e a by (auto simp: ensure_effect_def)
next
  case (Some fi)
  show ?thesis
  proof (cases "prop_by_name (kids (lnode l) ! fi) name")
    case (Some ei)
    then show ?thesis using e a ensure_effect_found[OF \<open>effects_parade (lnode l) = Some fi\<close> Some] by auto
  next
    case None
    show ?thesis
    proof (cases "new_prop h mn")
      case None
      then show ?thesis using e a \<open>effects_parade (lnode l) = Some fi\<close> \<open>prop_by_name (kids (lnode l) ! fi) name = None\<close>
        by (auto simp: ensure_effect_def add_property_def split: option.splits)
    next
      case (Some c)
      let ?N' = "upd_at [fi] (append_kid (set_name name c)) (lnode l)"
      have fx: "effects_parade (lnode l) = Some fi" by fact
      have run: "ensure_effect h mn name l = (Inr [fi, length (kids (kids (lnode l) ! fi))], l\<lparr>lnode := ?N'\<rparr>)"
        by (rule ensure_effect_created[OF fx None Some])
      have fi: "fi < length (kids (lnode l))" using fx by (simp add: effects_parade_def prop_by_name_less)
      have "names_of ?N' = names_of (lnode l)" by (rule names_of_upd_attrs) (simp add: append_kid_def)
      then have e': "effects_parade ?N' = Some fi"
        using fx prop_by_name_names[of ?N' "lnode l" "''ADBE Effect Parade''"] by (simp add: effects_parade_def)
      have F: "kids ?N' ! fi = Node (attrs (kids (lnode l) ! fi)) (kids (kids (lnode l) ! fi) @ [set_name name c])"
        using fi by (simp add: append_kid_def)
      have "prop_by_name (kids (lnode l) ! fi) nm = None" using a fx by (simp add: effect_absent_def)
      then have pn: "prop_by_name (kids ?N' ! fi) nm = None"
        using ne hc Some unfolding F by (auto simp: prop_by_name_def find_idx_None_iff set_name_def)
      have "r = Inr [fi, length (kids (kids (lnode l) ! fi))]" and l': "l' = l\<lparr>lnode := ?N'\<rparr>"
        using e run by simp_all
      moreover have "effect_absent nm (l\<lparr>lnode := ?N'\<rparr>)"
        using e' pn by (simp del: upd_at.simps add: effect_absent_def)
      ultimately show ?thesis by simp
    qed
  qed
qed

text \<open>
  Saving under one name leaves the layer without an effect of another name, when the
  host does not give a new point control that other name as its match name.
\<close>

lemma save_anchor_in_absent:
  assumes s: "save_anchor_in nm h l = (r, l')" and a: "effect_absent nm' l" and ne: "nm \<noteq> nm'"
    and hc: "\<forall>c. new_prop h ''ADBE Point Control'' = Some c \<longrightarrow> mname c \<noteq> nm'"
  shows "effect_absent nm' l'"
proof (cases "anchor_path (lnode l)")
  case None
  then show ?thesis using s a by (simp add: save_anchor_in_def)
next
  case (Some pa)
  obtain r1 l1 where e: "ensure_memory_effect_in nm h l = (r1, l1)" by (cases "ensure_memory_effect_in nm h l")
  have a1: "effect_absent nm' l1" and sh: "\<forall>p. r1 = Inr p \<longrightarrow> (\<exists>fi mi. p = [fi, mi])"
    using ensure_effect_absent[OF e[unfolded ensure_memory_effect_in_def] a ne hc] by blast+
  show ?thesis
  proof (cases r1)
    case (Inl x)
    then show ?thesis using s e a1 Some by (simp add: save_anchor_in_def ebind_def)
  next
    case (Inr p)
    then obtain fi mi where p: "p = [fi, mi]" using sh by blast
    let ?K = "\<lambda>e. ebind (read_at e) (\<lambda>en.
              case get_ap_memory_point_prop en of
                None \<Rightarrow> throw (Thrown (''Could not access '' @ [CHR 0x27] @ nm @ [CHR 0x27] @ '' point property.''))
              | Some j \<Rightarrow>
                  ebind (read_vec2 pa) (\<lambda>v.
                    ebind (write_at (e @ [j]) (set_value (VVec [fst v, snd v]))) (\<lambda>_.
                      (\<lambda>l'. (Inr (), l'\<lparr>comment := saved_comment h v\<rparr>)))))"
    have k: "keeps (effect_absent nm') (?K [fi, mi])"
    proof (intro keeps_ebind keeps_read_at)
      fix en
      show "keeps (effect_absent nm') (case get_ap_memory_point_prop en of
                None \<Rightarrow> throw (Thrown (''Could not access '' @ [CHR 0x27] @ nm @ [CHR 0x27] @ '' point property.''))
              | Some j \<Rightarrow>
                  ebind (read_vec2 pa) (\<lambda>v.
                    ebind (write_at ([fi, mi] @ [j]) (set_value (VVec [fst v, snd v]))) (\<lambda>_.
                      (\<lambda>l'. (Inr (), l'\<lparr>comment := saved_comment h v\<rparr>)))))"
        by (cases "get_ap_memory_point_prop en")
          (auto intro!: keeps_ebind keeps_effect_absent_write)
    qed
    have "l' = snd (?K [fi, mi] l1)" using s e Some Inr p by (simp add: save_anchor_in_def ebind_def)
    then show ?thesis using k a1 by (simp add: keeps_def)
  qed
qed

lemma save_anchor_result:
  assumes ok: "memory_ok h l" and v: "anchor_of l = Some v"
  shows "\<exists>l'. save_anchor_to_memory h l = (Inr (), l') \<and> get_saved_anchor l' = Some v \<and>
           anchor_of l' = Some v \<and> comment l' = saved_comment h v \<and>
           (\<exists>fi. effects_parade (lnode l) = Some fi \<and> effects_frame fi l l')"
  using save_anchor_in_result[of mem_name h l v] ok v
  by (simp add: memory_ok_def save_anchor_to_memory_def get_saved_anchor_def)

text \<open>
  C15. Saving the anchor snapshot and loading it back is a round trip: on a layer whose
  anchor point holds \<open>v\<close> and whose memory effect can be found or created with a
  two-dimensional property, \<open>saveAnchorToMemory\<close> returns normally, \<open>getSavedAnchor\<close>
  then returns exactly \<open>v\<close>, the anchor point itself is unchanged, and the comment
  records the saved value.
\<close>

theorem save_then_load:
  assumes ok: "memory_ok h l" and v: "anchor_of l = Some v"
  shows "\<exists>l'. save_anchor_to_memory h l = (Inr (), l') \<and> get_saved_anchor l' = Some v \<and>
           anchor_of l' = Some v \<and> comment l' = saved_comment h v"
  using save_anchor_result[OF ok v] by blast

theorem save_then_load_witness:
  "\<exists>l'. save_anchor_to_memory demo_host demo_layer = (Inr (), l') \<and> get_saved_anchor l' = Some (10, 5) \<and>
     anchor_of l' = Some (10, 5) \<and> comment l' = ''[AP saved] 0.0, 0.0''"
proof -
  have h: "memory_ok demo_host demo_layer" "anchor_of demo_layer = Some (10, 5)"
    by (simp_all add: memory_ok_def memory_ok_in_def anchor_of_def anchor_path_def transform_idx_def effects_parade_def
        prop_by_name_def node_at_def scene_defs demo_host_def ae_new_prop_def ae_point_def has_2d_def vec2_def
        mem_name_def)
  show ?thesis using save_then_load[OF h] by (simp add: saved_comment_def demo_host_def)
qed

text \<open>
  C26. Find-or-create is idempotent (spec 4.6: reuse an existing field with the same
  name rather than duplicate it): once \<open>ensure_effect\<close> (the head of
  \<open>ensureSlider\<close>, \<open>ensurePoint\<close> and \<open>ensureAPMemoryEffect\<close>) has returned the
  effect named \<open>name\<close>, a second call for that name, whatever control type it asks
  for, returns the same effect and changes nothing.
\<close>

theorem ensure_effect_idempotent:
  assumes e: "ensure_effect h mn name l = (Inr p, l1)"
  shows "ensure_effect h mn' name l1 = (Inr p, l1)"
proof -
  obtain fi where fx: "effects_parade (lnode l) = Some fi"
    using e by (auto simp: ensure_effect_def throw_def split: option.splits)
  have fi: "fi < length (kids (lnode l))" using fx by (simp add: effects_parade_def prop_by_name_less)
  show ?thesis
  proof (cases "prop_by_name (kids (lnode l) ! fi) name")
    case (Some ei)
    then have "p = [fi, ei]" "l1 = l" using e ensure_effect_found[OF fx Some, of h mn] by simp_all
    then show ?thesis using ensure_effect_found[OF fx Some, of h mn'] by simp
  next
    case None
    obtain c where c: "new_prop h mn = Some c"
      using e fx None fi by (cases "new_prop h mn") (auto simp: ensure_effect_def add_property_def node_at_def throw_def)
    let ?F = "kids (lnode l) ! fi"
    let ?N = "upd_at [fi] (append_kid (set_name name c)) (lnode l)"
    have p: "p = [fi, length (kids ?F)]" and l1: "l1 = l\<lparr>lnode := ?N\<rparr>"
      using e ensure_effect_created[OF fx None c] by simp_all
    have "names_of ?N = names_of (lnode l)" by (rule names_of_upd_attrs) (simp add: append_kid_def)
    then have fx1: "effects_parade ?N = Some fi"
      using fx prop_by_name_names[of ?N "lnode l" "''ADBE Effect Parade''"] by (simp add: effects_parade_def)
    have "kids ?N ! fi = Node (attrs ?F) (kids ?F @ [set_name name c])" using fi by (simp add: append_kid_def)
    then have pm: "prop_by_name (kids ?N ! fi) name = Some (length (kids ?F))"
      using None unfolding prop_by_name_def by (simp add: find_idx_append_notin find_idx_None_iff set_name_def)
    have fx1': "effects_parade (lnode l1) = Some fi" and pm': "prop_by_name (kids (lnode l1) ! fi) name = Some (length (kids ?F))"
      using fx1 pm l1 by simp_all
    show ?thesis using ensure_effect_found[OF fx1' pm', of h mn'] p by simp
  qed
qed

theorem ensure_effect_idempotent_witness:
  "\<exists>p l1. ensure_effect demo_host ''ADBE Slider Control'' ''Rotation'' demo_layer = (Inr p, l1) \<and>
     ensure_effect demo_host ''ADBE Point Control'' ''Rotation'' l1 = (Inr p, l1)"
proof -
  have fx: "effects_parade (lnode demo_layer) = Some 2" and c: "new_prop demo_host ''ADBE Slider Control'' = Some ae_slider"
    by (simp_all add: effects_parade_def prop_by_name_def scene_defs demo_host_def ae_new_prop_def)
  obtain ei l1 where e: "ensure_effect demo_host ''ADBE Slider Control'' ''Rotation'' demo_layer = (Inr [2, ei], l1)"
    using ensure_effect_ok[OF fx c, of "''Rotation''"] by blast
  show ?thesis using e ensure_effect_idempotent[OF e, of "''ADBE Point Control''"] by blast
qed

end
