(* ===== verification/Operations.thy ===== *)
theory Operations
  imports Memory
begin

text \<open>
  The entry points of src/CenterAP_AddRepeater_v2.0.jsx (lines 80-158): \<open>main\<close> (the
  "Do It" button: centre, add and bind a repeater, apply the preset, expose the
  controls, save the anchor), \<open>onUpdateAnchor\<close> (save the anchor) and
  \<open>onResetAnchor\<close> (restore it), with the checks \<open>getCompOrThrow\<close> and
  \<open>getSingleShapeLayerOrThrow\<close>. Each runs inside an undo group, turns a thrown error
  into an alert and closes the group in \<open>finally\<close>. The application state is the active
  item (a composition is its list of layers), the alerts shown and the undo-group log.
\<close>

section \<open>The application state\<close>

datatype item = CompItem "layer list" | OtherItem

datatype undo_event = BeginUndo string | EndUndo

record app =
  active_item :: "item option"
  alerts :: "string list"
  undo_log :: "undo_event list"

text \<open>\<open>"..." + err\<close>: the text of a thrown string or of a host error.\<close>

fun err_text :: "error \<Rightarrow> string" where
  "err_text (Thrown s) = s"
| "err_text (HostFault s) = s"

section \<open>Checks\<close>

definition get_comp_or_throw :: "app \<Rightarrow> error + layer list" where
  "get_comp_or_throw a =
     (case active_item a of
        Some (CompItem ls) \<Rightarrow> Inr ls
      | _ \<Rightarrow> Inl (Thrown ''Open a comp and select exactly one shape layer.''))"

definition get_single_shape_layer_or_throw :: "layer list \<Rightarrow> error + nat" where
  "get_single_shape_layer_or_throw ls =
     (let sel = filter (\<lambda>i. selected (ls ! i)) [0..<length ls] in
      if length sel \<noteq> 1 then Inl (Thrown ''Select exactly ONE shape layer.'')
      else if mname (lnode (ls ! hd sel)) \<noteq> ''ADBE Vector Layer'' then Inl (Thrown ''Selected layer is not a Shape Layer.'')
      else Inr (hd sel))"

text \<open>
  Running the body of an entry point on the selected layer: the two checks, then the
  body on that layer; the layer's changes stay in the composition also when the body
  throws (the undo group, not the script, can take them back).
\<close>

definition with_layer :: "(layer, unit) exc \<Rightarrow> (app, unit) exc" where
  "with_layer m a =
     (case get_comp_or_throw a of
        Inl e \<Rightarrow> (Inl e, a)
      | Inr ls \<Rightarrow>
          (case get_single_shape_layer_or_throw ls of
             Inl e \<Rightarrow> (Inl e, a)
           | Inr i \<Rightarrow>
               (let (r, l') = m (ls ! i) in (r, a\<lparr>active_item := Some (CompItem (ls[i := l']))\<rparr>))))"

text \<open>
  \<open>app.beginUndoGroup(name); try { body } catch (e) { alert(title + "\n" + e) }
  finally { app.endUndoGroup() }\<close>.
\<close>

definition entry :: "string \<Rightarrow> string \<Rightarrow> (layer, unit) exc \<Rightarrow> app \<Rightarrow> app" where
  "entry name title m a =
     (let a1 = a\<lparr>undo_log := undo_log a @ [BeginUndo name]\<rparr>;
          (r, a2) = with_layer m a1;
          a3 = (case r of Inl e \<Rightarrow> a2\<lparr>alerts := alerts a2 @ [title @ [CHR 0x0A] @ err_text e]\<rparr> | Inr _ \<Rightarrow> a2)
      in a3\<lparr>undo_log := undo_log a3 @ [EndUndo]\<rparr>)"

section \<open>The three entry points\<close>

text \<open>Steps 1-6 of \<open>main\<close>, in order, on the selected layer.\<close>

definition primary :: "host \<Rightarrow> string \<Rightarrow> (layer, unit) exc" where
  "primary h preset =
     ebind (center_layer_anchor_to_contents h) (\<lambda>_.
       ebind (add_repeater h) (\<lambda>rp.
         ebind (bind_repeater rp) (\<lambda>_.
           ebind (apply_repeater_preset h rp preset) (\<lambda>_.
             ebind (link_repeater_to_layer_controls h rp) (\<lambda>_.
               save_anchor_to_memory h)))))"

definition main :: "host \<Rightarrow> string \<Rightarrow> app \<Rightarrow> app" where
  "main h preset = entry ''Center AP + Add Repeater'' ''Center AP + Repeater'' (primary h preset)"

definition on_update_anchor :: "host \<Rightarrow> app \<Rightarrow> app" where
  "on_update_anchor h =
     entry (''Update Anchor (Anchor Point Restore (don'' @ [CHR 0x27] @ ''t change))'') ''Update Anchor''
       (save_anchor_to_memory h)"

definition no_snapshot_msg :: string where
  "no_snapshot_msg =
     ''No saved anchor found.'' @ [CHR 0x0A] @ ''Click '' @ [CHR 0x22] @ ''Update Anchor'' @ [CHR 0x22] @
     '' (or run '' @ [CHR 0x22] @ ''Do It'' @ [CHR 0x22] @ '') first.''"

definition reset_anchor :: "(layer, unit) exc" where
  "reset_anchor l =
     (case get_saved_anchor l of
        None \<Rightarrow> throw (Thrown no_snapshot_msg) l
      | Some v \<Rightarrow> set_anchor_and_compensate v l)"

definition on_reset_anchor :: "app \<Rightarrow> app" where
  "on_reset_anchor = entry ''Reset Anchor from Memory'' ''Reset Anchor'' reset_anchor"

text \<open>A composition whose only layer is the selected demo layer.\<close>

definition demo_app :: app where
  "demo_app = \<lparr>active_item = Some (CompItem [demo_layer]), alerts = [], undo_log = []\<rparr>"

text \<open>The demo host of a German-language After Effects: the repeater it creates is \<open>de_repeater\<close>.\<close>

definition demo_host_de :: host where
  "demo_host_de =
     demo_host\<lparr>new_prop := (\<lambda>m. if m = ''ADBE Vector Filter - Repeater'' then Some de_repeater else ae_new_prop m)\<rparr>"

section \<open>Lemmas\<close>

lemma with_layer_undo_log:
  "with_layer m (a\<lparr>undo_log := u\<rparr>) =
     (fst (with_layer m a), (snd (with_layer m a))\<lparr>undo_log := u\<rparr>)"
  by (simp add: with_layer_def get_comp_or_throw_def split: option.splits item.splits sum.splits prod.splits)

lemma with_layer_keeps_log:
  "undo_log (snd (with_layer m a)) = undo_log a" "alerts (snd (with_layer m a)) = alerts a"
  by (simp_all add: with_layer_def split: sum.splits prod.splits)

lemma get_comp_Inr: "get_comp_or_throw a = Inr ls \<Longrightarrow> active_item a = Some (CompItem ls)"
  by (simp add: get_comp_or_throw_def split: option.splits item.splits)

lemma entry_failure:
  assumes c: "get_comp_or_throw a = Inr ls" and i: "get_single_shape_layer_or_throw ls = Inr i"
    and m: "m (ls ! i) = (Inl e, l')"
  shows "active_item (entry n t m a) = Some (CompItem (ls[i := l'])) \<and>
         alerts (entry n t m a) = alerts a @ [t @ [CHR 0x0A] @ err_text e]"
  using get_comp_Inr[OF c] i m
  by (simp add: entry_def Let_def with_layer_def get_comp_or_throw_def)

text \<open>
  C16. Restoring without a snapshot fails cleanly (spec section 8): on a composition
  whose selected shape layer has no anchor memory, \<open>onResetAnchor\<close> leaves every layer
  as it was and shows the "No saved anchor found" alert.
\<close>

theorem reset_without_snapshot:
  assumes c: "get_comp_or_throw a = Inr ls" and s: "get_single_shape_layer_or_throw ls = Inr i"
    and n: "get_saved_anchor (ls ! i) = None"
  shows "active_item (on_reset_anchor a) = active_item a \<and>
         alerts (on_reset_anchor a) = alerts a @ [''Reset Anchor'' @ [CHR 0x0A] @ no_snapshot_msg]"
proof -
  have w: "with_layer reset_anchor a = (Inl (Thrown no_snapshot_msg), a)"
    using c s n get_comp_Inr[OF c] by (simp add: with_layer_def reset_anchor_def throw_def)
  have "with_layer reset_anchor (a\<lparr>undo_log := undo_log a @ [BeginUndo ''Reset Anchor from Memory'']\<rparr>) =
      (Inl (Thrown no_snapshot_msg), a\<lparr>undo_log := undo_log a @ [BeginUndo ''Reset Anchor from Memory'']\<rparr>)"
    using w by (simp add: with_layer_undo_log)
  then show ?thesis by (simp add: on_reset_anchor_def entry_def Let_def)
qed

theorem reset_without_snapshot_witness:
  "active_item (on_reset_anchor demo_app) = active_item demo_app \<and>
   alerts (on_reset_anchor demo_app) = [''Reset Anchor'' @ [CHR 0x0A] @ no_snapshot_msg]"
proof -
  have h: "get_comp_or_throw demo_app = Inr [demo_layer]" "get_single_shape_layer_or_throw [demo_layer] = Inr 0"
    "get_saved_anchor ([demo_layer] ! 0) = None"
    by (simp_all add: get_comp_or_throw_def demo_app_def get_single_shape_layer_or_throw_def get_saved_anchor_def get_saved_anchor_in_def
        effects_parade_def prop_by_name_def scene_defs)
  show ?thesis using reset_without_snapshot[OF h] by (simp add: demo_app_def)
qed

lemma transform_frame:
  assumes names: "names_of (lnode l') = names_of (lnode l)" and t: "transform_idx (lnode l) = Some t"
    and nt: "\<And>q. node_at l' (t # q) = node_at l (t # q)"
  shows "anchor_path (lnode l') = anchor_path (lnode l)" "position_path (lnode l') = position_path (lnode l)"
    "pivot_ok l' = pivot_ok l" "anchor_of l' = anchor_of l" "position_of l' = position_of l"
proof -
  have t': "transform_idx (lnode l') = Some t"
    using t prop_by_name_names[OF names] by (simp add: transform_idx_def)
  have tl: "t < length (kids (lnode l))" "t < length (kids (lnode l'))"
    using t t' by (simp_all add: transform_idx_def prop_by_name_less)
  have "node_at l' [t] = node_at l [t]" by (rule nt)
  then have k: "kids (lnode l') ! t = kids (lnode l) ! t" using tl by (simp add: node_at_def)
  show ap: "anchor_path (lnode l') = anchor_path (lnode l)" using t t' k by (simp add: anchor_path_def)
  show pp: "position_path (lnode l') = position_path (lnode l)" using t t' k by (simp add: position_path_def)
  have na: "Option.bind (anchor_path (lnode l)) (node_at l') = Option.bind (anchor_path (lnode l)) (node_at l)"
    using nt by (cases "prop_by_name (kids (lnode l) ! t) ''ADBE Anchor Point''") (simp_all add: anchor_path_def t)
  have np: "Option.bind (position_path (lnode l)) (node_at l') = Option.bind (position_path (lnode l)) (node_at l)"
    using nt by (cases "prop_by_name (kids (lnode l) ! t) ''ADBE Position''") (simp_all add: position_path_def t)
  show "pivot_ok l' = pivot_ok l" using ap pp na np
    by (cases "anchor_path (lnode l)"; cases "position_path (lnode l)") (simp_all add: pivot_ok_def)
  show "anchor_of l' = anchor_of l" using ap na by (cases "anchor_path (lnode l)") (simp_all add: anchor_of_def)
  show "position_of l' = position_of l" using pp np by (cases "position_path (lnode l)") (simp_all add: position_of_def)
qed

lemma effects_frame_transform:
  assumes f: "effects_frame fi l l'" and t: "transform_idx (lnode l) = Some t" and ne: "t \<noteq> fi"
  shows "pivot_ok l' = pivot_ok l" "anchor_of l' = anchor_of l" "position_of l' = position_of l"
proof -
  have "names_of (lnode l') = names_of (lnode l)" using f by (simp add: effects_frame_def)
  moreover have "node_at l' (t # q) = node_at l (t # q)" for q using f ne by (simp add: effects_frame_def)
  ultimately show "pivot_ok l' = pivot_ok l" "anchor_of l' = anchor_of l" "position_of l' = position_of l"
    using transform_frame t by blast+
qed

text \<open>
  \<open>main\<close>'s steps on a layer whose new repeater has no anchor the binder finds: the
  centring and the appended repeater stay, and the bind throws.
\<close>

lemma primary_bind_failure:
  assumes pv: "pivot_ok l" and hc: "has_contents l" and ca: "contents_apart l"
    and av: "anchor_of l = Some (ax, ay)" and pos: "position_of l = Some (px, py)"
    and ctr: "rect_center (source_rect h False (contents_of (lnode l))) = (cx, cy)"
    and r0: "new_prop h ''ADBE Vector Filter - Repeater'' = Some r" and x: "rep_xform r = Some xi"
    and na: "find_rep_anchor (kids r ! xi) = None"
  shows "\<exists>l'. primary h s l = (Inl (Thrown ''Could not access Repeater Transform > Anchor.''), l') \<and>
           anchor_of l' = Some (cx, cy) \<and> position_of l' = Some (px + (cx - ax), py + (cy - ay)) \<and>
           (\<exists>ci. contents_idx (lnode l') = Some ci \<and> kids (kids (lnode l') ! ci) = kids (kids (lnode l) ! ci) @ [r])"
proof -
  obtain cn where cn: "contents_of (lnode l) = Some cn" and ne: "kids cn \<noteq> []"
    using hc by (auto simp: has_contents_def split: option.splits)
  obtain ci where ci: "contents_idx (lnode l) = Some ci" and cnk: "cn = kids (lnode l) ! ci"
    using cn by (auto simp: contents_of_def)
  obtain l1 where s1: "set_anchor_and_compensate (cx, cy) l = (Inr (), l1)"
    and ci1: "contents_idx (lnode l1) = contents_idx (lnode l)" and ti1: "transform_idx (lnode l1) = transform_idx (lnode l)"
    and a1: "anchor_of l1 = Some (cx, cy)" and p1: "position_of l1 = Some (px + (cx - ax), py + (cy - ay))"
    and fr: "\<And>q. (\<forall>r \<in> pivot_paths l. indep q r) \<Longrightarrow> node_at l1 q = node_at l q"
    by (rule set_anchor_and_compensate_result[OF pv av pos, of cx cy]) (rule that; assumption)
  have cc: "center_layer_anchor_to_contents h l = (Inr (), l1)"
    using cn ne ctr s1 by (simp add: center_layer_anchor_to_contents_def)
  have cof: "contents_of (lnode l1) = Some cn" using contents_of_frame[OF ca ci1 ti1 fr] cn by simp
  have ci1': "contents_idx (lnode l1) = Some ci" using ci1 ci by simp
  have cil: "ci < length (kids (lnode l1))" using ci1' by (simp add: contents_idx_def prop_by_name_less)
  have k1: "kids (lnode l1) ! ci = cn" using cof ci1' by (simp add: contents_of_def)
  let ?l2 = "l1\<lparr>lnode := upd_at [ci] (append_kid r) (lnode l1)\<rparr>"
  let ?k = "length (kids cn)"
  have add: "add_repeater h l1 = (Inr [ci, ?k], ?l2)"
    using ci1' cil k1 r0 by (simp add: add_repeater_def add_property_def node_at_def)
  have k2: "kids (lnode ?l2) ! ci = append_kid r cn" using cil k1 by simp
  have nr: "node_at ?l2 [ci, ?k] = Some r" using cil k2 by (simp add: node_at_def append_kid_def)
  have bind: "bind_repeater [ci, ?k] ?l2 = (Inl (Thrown ''Could not access Repeater Transform > Anchor.''), ?l2)"
    using nr x na by (simp add: bind_repeater_def)
  have run: "primary h s l = (Inl (Thrown ''Could not access Repeater Transform > Anchor.''), ?l2)"
    using cc add bind by (simp add: primary_def ebind_def)
  have ef: "effects_frame ci l1 ?l2" by (rule effects_frame_upd) (simp add: append_kid_def)
  obtain t where t: "transform_idx (lnode l1) = Some t"
    using pv ti1 by (auto simp: pivot_ok_def anchor_path_def split: option.splits)
  have tc: "t \<noteq> ci" using ca ci ti1 t by (auto simp: contents_apart_def)
  have a2: "anchor_of ?l2 = Some (cx, cy)" and p2: "position_of ?l2 = Some (px + (cx - ax), py + (cy - ay))"
    using effects_frame_transform[OF ef t tc] a1 p1 by simp_all
  have "names_of (lnode ?l2) = names_of (lnode l1)" using ef by (simp add: effects_frame_def)
  then have ci2: "contents_idx (lnode ?l2) = Some ci"
    using ci1' prop_by_name_names[of "lnode ?l2" "lnode l1"] by (simp add: contents_idx_def)
  have "kids (kids (lnode ?l2) ! ci) = kids (kids (lnode l) ! ci) @ [r]"
    using k2 cnk by (simp add: append_kid_def)
  then show ?thesis using run a2 p2 ci2 by blast
qed

lemma keeps_write_deep: "keeps (\<lambda>s. names_of (lnode s) = N) (write_at (i # j # q) f)"
  unfolding keeps_def write_at_def
  by (auto simp del: upd_at.simps simp add: names_of_upd_deep split: option.splits sum.splits)

lemma set_anchor_names:
  assumes "set_anchor_and_compensate v l = (r, l')"
  shows "names_of (lnode l') = names_of (lnode l)"
proof (cases "anchor_path (lnode l)")
  case (Some pa)
  show ?thesis
  proof (cases "position_path (lnode l)")
    case (Some pp)
    obtain t a where pa: "pa = [t, a]" using anchor_path_shape[OF \<open>anchor_path (lnode l) = Some pa\<close>] by blast
    obtain t' b where pp: "pp = [t', b]" using position_path_shape[OF Some] by blast
    let ?P = "\<lambda>s. names_of (lnode s) = names_of (lnode l)"
    let ?m = "ebind (read_vec2 pa) (\<lambda>(ox, oy).
            ebind (write_at pa (set_value (VVec [fst v, snd v]))) (\<lambda>_.
              ebind (read_vec2 pp) (\<lambda>(px, py).
                write_at pp (set_value (VVec [px + (fst v - ox), py + (snd v - oy)])))))"
    have k: "keeps ?P ?m"
      unfolding pa pp split_def by (intro keeps_ebind keeps_read_vec2 keeps_write_deep)
    have "set_anchor_and_compensate v l = ?m l"
      using \<open>anchor_path (lnode l) = Some pa\<close> Some by (simp add: set_anchor_and_compensate_def)
    then have e: "?m l = (r, l')" using assms by (simp only:)
    have "?P (snd (?m l))" using k unfolding keeps_def by blast
    then show ?thesis unfolding e by (simp only: snd_conv)
  qed (use assms \<open>anchor_path (lnode l) = Some pa\<close> in \<open>simp add: set_anchor_and_compensate_def throw_def\<close>)
qed (use assms in \<open>simp add: set_anchor_and_compensate_def throw_def\<close>)

lemma get_saved_anchor_frame:
  assumes fx: "effects_parade (lnode l) = Some fi" and names: "names_of (lnode l') = names_of (lnode l)"
    and n: "node_at l' [fi] = node_at l [fi]"
  shows "get_saved_anchor l' = get_saved_anchor l"
proof -
  have fx': "effects_parade (lnode l') = Some fi"
    using fx prop_by_name_names[OF names] by (simp add: effects_parade_def)
  have "fi < length (kids (lnode l))" "fi < length (kids (lnode l'))"
    using fx fx' by (simp_all add: effects_parade_def prop_by_name_less)
  then have "kids (lnode l') ! fi = kids (lnode l) ! fi" using n by (simp add: node_at_def)
  then show ?thesis using fx fx' by (simp add: get_saved_anchor_def get_saved_anchor_in_def)
qed

lemma save_pivot_result:
  assumes ok: "memory_ok h l" and pv: "pivot_ok l" and a: "anchor_of l = Some (ax, ay)"
    and p: "position_of l = Some (px, py)"
  obtains l1 fi t where "save_anchor_to_memory h l = (Inr (), l1)" "get_saved_anchor l1 = Some (ax, ay)"
    "pivot_ok l1" "anchor_of l1 = Some (ax, ay)" "position_of l1 = Some (px, py)"
    "transform_idx (lnode l1) = Some t" "t \<noteq> fi" "effects_parade (lnode l1) = Some fi"
proof -
  obtain fi pa where fx: "effects_parade (lnode l) = Some fi" and ap: "anchor_path (lnode l) = Some pa"
    and i: "indep pa [fi]" using ok by (auto simp: memory_ok_def memory_ok_in_def split: option.splits)
  obtain t a' where t: "transform_idx (lnode l) = Some t" and pa: "pa = [t, a']"
    using anchor_path_shape[OF ap] by blast
  have ne: "t \<noteq> fi" using i pa by simp
  obtain l1 fi' where s: "save_anchor_to_memory h l = (Inr (), l1)" and g1: "get_saved_anchor l1 = Some (ax, ay)"
    and fx': "effects_parade (lnode l) = Some fi'" and f1: "effects_frame fi' l l1"
    using save_anchor_result[OF ok a] by blast
  have fi': "fi' = fi" using fx fx' by simp
  have pv1: "pivot_ok l1" and a1: "anchor_of l1 = Some (ax, ay)" and p1: "position_of l1 = Some (px, py)"
    using effects_frame_transform[OF f1[unfolded fi'] t ne] pv a p by simp_all
  have t1: "transform_idx (lnode l1) = Some t"
    using t prop_by_name_names[of "lnode l1" "lnode l"] f1 by (simp add: effects_frame_def transform_idx_def)
  have fx1: "effects_parade (lnode l1) = Some fi" using effects_parade_frame[OF f1] fx fi' by simp
  show ?thesis by (rule that[OF s g1 pv1 a1 p1 t1 ne fx1])
qed

text \<open>
  C17. Update, move, reset: after saving the anchor \<open>(ax, ay)\<close>, moving the anchor
  anywhere with compensation and restoring from memory, the anchor point is back at
  \<open>(ax, ay)\<close> and the position back where it started: the memory survives the move and
  the two compensations cancel.
\<close>

theorem update_move_reset:
  assumes ok: "memory_ok h l" and pv: "pivot_ok l" and a: "anchor_of l = Some (ax, ay)"
    and p: "position_of l = Some (px, py)"
  shows "\<exists>l1 l2 l3. save_anchor_to_memory h l = (Inr (), l1) \<and>
           set_anchor_and_compensate (wx, wy) l1 = (Inr (), l2) \<and> reset_anchor l2 = (Inr (), l3) \<and>
           anchor_of l3 = Some (ax, ay) \<and> position_of l3 = Some (px, py)"
proof -
  obtain l1 fi t where s: "save_anchor_to_memory h l = (Inr (), l1)" and g1: "get_saved_anchor l1 = Some (ax, ay)"
    and pv1: "pivot_ok l1" and a1: "anchor_of l1 = Some (ax, ay)" and p1: "position_of l1 = Some (px, py)"
    and t1: "transform_idx (lnode l1) = Some t" and ne: "t \<noteq> fi" and fx1: "effects_parade (lnode l1) = Some fi"
    by (rule save_pivot_result[OF ok pv a p]) (rule that; assumption)
  obtain l2 where s2: "set_anchor_and_compensate (wx, wy) l1 = (Inr (), l2)"
    and pv2: "pivot_ok l2" and a2: "anchor_of l2 = Some (wx, wy)"
    and p2: "position_of l2 = Some (px + (wx - ax), py + (wy - ay))"
    and fr2: "\<And>q. (\<forall>r \<in> pivot_paths l1. indep q r) \<Longrightarrow> node_at l2 q = node_at l1 q"
    by (rule set_anchor_and_compensate_result[OF pv1 a1 p1, of wx wy]) (rule that; assumption)
  have "\<forall>r \<in> pivot_paths l1. indep [fi] r"
    using t1 ne by (auto simp: pivot_paths_def anchor_path_def position_path_def split: option.splits)
  then have "node_at l2 [fi] = node_at l1 [fi]" by (rule fr2)
  then have g2: "get_saved_anchor l2 = Some (ax, ay)"
    using get_saved_anchor_frame[OF fx1 set_anchor_names[OF s2]] g1 by simp
  obtain l3 where s3: "set_anchor_and_compensate (ax, ay) l2 = (Inr (), l3)"
    and a3: "anchor_of l3 = Some (ax, ay)"
    and p3: "position_of l3 = Some (px + (wx - ax) + (ax - wx), py + (wy - ay) + (ay - wy))"
    by (rule set_anchor_and_compensate_result[OF pv2 a2 p2, of ax ay]) (rule that; assumption)
  have "reset_anchor l2 = (Inr (), l3)" using g2 s3 by (simp add: reset_anchor_def)
  then show ?thesis using s s2 a3 p3 by auto
qed

theorem update_move_reset_witness:
  "\<exists>l1 l2 l3. save_anchor_to_memory demo_host demo_layer = (Inr (), l1) \<and>
     set_anchor_and_compensate (30, -7) l1 = (Inr (), l2) \<and> reset_anchor l2 = (Inr (), l3) \<and>
     anchor_of l3 = Some (10, 5) \<and> position_of l3 = Some (960, 540)"
proof -
  have h: "memory_ok demo_host demo_layer" "pivot_ok demo_layer" "anchor_of demo_layer = Some (10, 5)"
    "position_of demo_layer = Some (960, 540)"
    by (simp_all add: memory_ok_def memory_ok_in_def pivot_ok_def anchor_of_def position_of_def anchor_path_def position_path_def
        transform_idx_def effects_parade_def prop_by_name_def node_at_def scene_defs demo_host_def ae_new_prop_def
        ae_point_def has_2d_def vec2_def mem_name_def takes_xy_def)
  show ?thesis by (rule update_move_reset[OF h])
qed

text \<open>
  C30. A "Do It" that fails half-way is not rolled back by the script: on a composition
  whose selected shape layer has contents and a usable transform, and whose host creates
  a repeater with no anchor the binder can find (a German UI), \<open>main\<close> shows the bind
  error, and the layer keeps the work done before it, its anchor point centred on the
  contents with the position compensated and the new repeater appended to the
  contents. Spec sections 6 and 7 leave any undoing to the host's undo group.
\<close>

theorem main_bind_failure_keeps_partial:
  assumes c: "get_comp_or_throw a = Inr ls" and i: "get_single_shape_layer_or_throw ls = Inr i"
    and pv: "pivot_ok (ls ! i)" and hc: "has_contents (ls ! i)" and ca: "contents_apart (ls ! i)"
    and av: "anchor_of (ls ! i) = Some (ax, ay)" and pos: "position_of (ls ! i) = Some (px, py)"
    and ctr: "rect_center (source_rect h False (contents_of (lnode (ls ! i)))) = (cx, cy)"
    and r0: "new_prop h ''ADBE Vector Filter - Repeater'' = Some r" and x: "rep_xform r = Some xi"
    and na: "\<forall>c \<in> set (kids (kids r ! xi)).
               mname c \<noteq> ''ADBE Vector Anchor'' \<and> dname c \<noteq> ''ADBE Vector Anchor'' \<and> \<not> re_test re_anchor (dname c)"
  shows "\<exists>l'. active_item (main h s a) = Some (CompItem (ls[i := l'])) \<and>
           alerts (main h s a) =
             alerts a @ [''Center AP + Repeater'' @ [CHR 0x0A] @ ''Could not access Repeater Transform > Anchor.''] \<and>
           anchor_of l' = Some (cx, cy) \<and> position_of l' = Some (px + (cx - ax), py + (cy - ay)) \<and>
           (\<exists>ci. contents_idx (lnode l') = Some ci \<and> kids (kids (lnode l') ! ci) = kids (kids (lnode (ls ! i)) ! ci) @ [r])"
proof -
  obtain l' where p: "primary h s (ls ! i) = (Inl (Thrown ''Could not access Repeater Transform > Anchor.''), l')"
    and rest: "anchor_of l' = Some (cx, cy) \<and> position_of l' = Some (px + (cx - ax), py + (cy - ay)) \<and>
      (\<exists>ci. contents_idx (lnode l') = Some ci \<and> kids (kids (lnode l') ! ci) = kids (kids (lnode (ls ! i)) ! ci) @ [r])"
    using primary_bind_failure[OF pv hc ca av pos ctr r0 x find_rep_anchor_none[OF na]] by blast
  have "active_item (main h s a) = Some (CompItem (ls[i := l'])) \<and>
        alerts (main h s a) =
          alerts a @ [''Center AP + Repeater'' @ [CHR 0x0A] @ ''Could not access Repeater Transform > Anchor.'']"
    unfolding main_def using entry_failure[where m = "primary h s", OF c i p] by simp
  then show ?thesis using rest by blast
qed

theorem main_bind_failure_keeps_partial_witness:
  "\<exists>l'. active_item (main demo_host_de ''Default'' demo_app) = Some (CompItem [l']) \<and>
     alerts (main demo_host_de ''Default'' demo_app) =
       [''Center AP + Repeater'' @ [CHR 0x0A] @ ''Could not access Repeater Transform > Anchor.''] \<and>
     anchor_of l' = Some (0, 0) \<and> position_of l' = Some (950, 535) \<and>
     (\<exists>ci. contents_idx (lnode l') = Some ci \<and>
        kids (kids (lnode l') ! ci) = kids (kids (lnode demo_layer) ! ci) @ [de_repeater])"
proof -
  have h: "get_comp_or_throw demo_app = Inr [demo_layer]" "get_single_shape_layer_or_throw [demo_layer] = Inr 0"
    "pivot_ok ([demo_layer] ! 0)" "has_contents ([demo_layer] ! 0)" "contents_apart ([demo_layer] ! 0)"
    "anchor_of ([demo_layer] ! 0) = Some (10, 5)" "position_of ([demo_layer] ! 0) = Some (960, 540)"
    "rect_center (source_rect demo_host_de False (contents_of (lnode ([demo_layer] ! 0)))) = (0, 0)"
    "new_prop demo_host_de ''ADBE Vector Filter - Repeater'' = Some de_repeater" "rep_xform de_repeater = Some 3"
    by (simp_all add: get_comp_or_throw_def demo_app_def get_single_shape_layer_or_throw_def pivot_eval
        demo_host_de_def demo_host_def demo_rect_def rect_center_def de_repeater_def rep_xform_def)
  have na: "\<forall>c \<in> set (kids (kids de_repeater ! 3)).
      mname c \<noteq> ''ADBE Vector Anchor'' \<and> dname c \<noteq> ''ADBE Vector Anchor'' \<and> \<not> re_test re_anchor (dname c)"
    by code_simp
  show ?thesis using main_bind_failure_keeps_partial[OF h na, of "''Default''"] by (simp add: demo_app_def)
qed

end
