(* ===== verification/V19.thy ===== *)
theory V19
  imports Operations
begin

text \<open>
  The earlier version src/CenterAP_AddRepeater_v1.9.jsx. Most of it is the code of
  v2.0 (the checks, \<open>setAnchorAndCompensate\<close>, \<open>centerLayerAnchorToContents\<close>,
  \<open>addRepeater\<close>, \<open>bindRepeater\<close>, the finders but \<open>findRotation\<close>, the best-effort
  setters, \<open>getAPMemoryPointProp\<close>), and the model uses the v2.0 definitions for it. What
  differs is modelled here: \<open>measureShapeSize\<close> (the first rectangle or ellipse size,
  else the host's box with stroke extents), the presets without stroke padding, the
  rotation regex, the memory effect named "AP Memory" (an instance of the
  name-generic memory of theory Memory), and \<open>main\<close> without the control exposer.
  The lemmas compare the two versions and show v1.9's own memory round trip.
\<close>

section \<open>findRotation\<close>

definition re_rotation_v19 :: regex where
  "re_rotation_v19 = [[Lit ''rotation'']]"

definition find_rotation_v19 :: "node \<Rightarrow> nat option" where
  "find_rotation_v19 x =
     alt (alt (prop_by_name x ''ADBE Vector Rotation'') (prop_by_name x ''ADBE Vector Repeater Rotation''))
       (find_one_d x [] re_rotation_v19)"

section \<open>measureShapeSize\<close>

text \<open>
  \<open>Math.abs(sv[i])\<close> of a size value: \<open>None\<close> stands for \<open>NaN\<close>, what JavaScript
  gives for a missing component.
\<close>

definition abs_at :: "pval \<Rightarrow> nat \<Rightarrow> real option" where
  "abs_at v i = (case v of VVec xs \<Rightarrow> if i < length xs then Some \<bar>xs ! i\<bar> else None | _ \<Rightarrow> None)"

text \<open>
  \<open>scanGroup\<close> over the children of a group: a sub-group is scanned first (through its
  \<open>"ADBE Vectors Group"\<close>) and its result, if any, returned; a rectangle or an ellipse
  with a size property returns that size.
\<close>

function scan_group :: "node list \<Rightarrow> (real option \<times> real option) option" where
  "scan_group [] = None"
| "scan_group (p # ps) =
     (case (if mname p = ''ADBE Vector Group'' then
              (case prop_named p ''ADBE Vectors Group'' of None \<Rightarrow> None | Some g \<Rightarrow> scan_group (kids g))
            else None) of
        Some r \<Rightarrow> Some r
      | None \<Rightarrow>
          (if mname p = ''ADBE Vector Shape - Rect'' \<and> prop_named p ''ADBE Vector Rect Size'' \<noteq> None then
             (case prop_named p ''ADBE Vector Rect Size'' of
                Some s \<Rightarrow> Some (abs_at (val_of s) 0, abs_at (val_of s) 1) | None \<Rightarrow> None)
           else if mname p = ''ADBE Vector Shape - Ellipse'' \<and> prop_named p ''ADBE Vector Ellipse Size'' \<noteq> None then
             (case prop_named p ''ADBE Vector Ellipse Size'' of
                Some s \<Rightarrow> Some (abs_at (val_of s) 0, abs_at (val_of s) 1) | None \<Rightarrow> None)
           else scan_group ps))"
  by pat_completeness auto
termination
proof (relation "measure (\<lambda>ps. size_list size ps)")
  fix p ps g
  assume "prop_named p ''ADBE Vectors Group'' = Some g"
  then have "g \<in> set (kids p)" by (auto simp: prop_named_def dest: prop_by_name_less)
  then have "size g < size p" by (cases p) (auto intro: size_list_estimation' simp: less_Suc_eq_le)
  moreover have "size_list size (kids g) < size g" by (cases g) simp
  ultimately show "(kids g, p # ps) \<in> measure (\<lambda>ps. size_list size ps)" by simp
qed auto

definition measure_shape_size_v19 :: "host \<Rightarrow> layer \<Rightarrow> real option \<times> real option" where
  "measure_shape_size_v19 h l =
     (let c = contents_of (lnode l) in
      case (case c of None \<Rightarrow> None | Some g \<Rightarrow> scan_group (kids g)) of
        Some r \<Rightarrow> r
      | None \<Rightarrow> (let r = source_rect h True c in (Some \<bar>rwidth r\<bar>, Some \<bar>rheight r\<bar>)))"

text \<open>\<open>x || 0\<close> on a number that may be \<open>NaN\<close>.\<close>

definition or0 :: "real option \<Rightarrow> real" where
  "or0 x = (case x of None \<Rightarrow> 0 | Some y \<Rightarrow> y)"

section \<open>applyRepeaterPreset\<close>

definition apply_repeater_preset_v19 :: "host \<Rightarrow> path \<Rightarrow> string \<Rightarrow> (layer, unit) exc" where
  "apply_repeater_preset_v19 h rp name l =
     (case node_at l rp of
        None \<Rightarrow> (Inl (HostFault ''TypeError: null handle''), l)
      | Some r \<Rightarrow>
          (case rep_xform r of
             None \<Rightarrow> ret () l
           | Some xi \<Rightarrow>
               (let x = kids r ! xi;
                    pc = map_option (\<lambda>i. rp @ [i]) (find_copies r);
                    pp = map_option (\<lambda>i. rp @ [xi, i]) (find_vector_position x);
                    pr = map_option (\<lambda>i. rp @ [xi, i]) (find_rotation_v19 x);
                    size = measure_shape_size_v19 h l;
                    w = or0 (fst size); hh = or0 (snd size)
                in (case preset_of name of
                      Vertical \<Rightarrow> preset_writes pc pp pr 10 (0, hh) 0
                    | Horizontal \<Rightarrow> preset_writes pc pp pr 10 (w, 0) 0
                    | Spiral \<Rightarrow> preset_writes pc pp pr 10 (0, 0) 10
                    | Default \<Rightarrow> ret ()) l)))"

section \<open>The memory effect "AP Memory"\<close>

definition mem_name_v19 :: string where
  "mem_name_v19 = ''AP Memory''"

definition ensure_ap_memory_effect_v19 :: "host \<Rightarrow> (layer, path) exc" where
  "ensure_ap_memory_effect_v19 h = ensure_memory_effect_in mem_name_v19 h"

definition save_anchor_to_memory_v19 :: "host \<Rightarrow> (layer, unit) exc" where
  "save_anchor_to_memory_v19 h = save_anchor_in mem_name_v19 h"

definition get_saved_anchor_v19 :: "layer \<Rightarrow> (real \<times> real) option" where
  "get_saved_anchor_v19 = get_saved_anchor_in mem_name_v19"

section \<open>The entry points of v1.9\<close>

definition primary_v19 :: "host \<Rightarrow> string \<Rightarrow> (layer, unit) exc" where
  "primary_v19 h preset =
     ebind (center_layer_anchor_to_contents h) (\<lambda>_.
       ebind (add_repeater h) (\<lambda>rp.
         ebind (bind_repeater rp) (\<lambda>_.
           ebind (apply_repeater_preset_v19 h rp preset) (\<lambda>_.
             save_anchor_to_memory_v19 h))))"

definition main_v19 :: "host \<Rightarrow> string \<Rightarrow> app \<Rightarrow> app" where
  "main_v19 h preset = entry ''Center AP + Add Repeater'' ''Center AP + Repeater'' (primary_v19 h preset)"

definition on_update_anchor_v19 :: "host \<Rightarrow> app \<Rightarrow> app" where
  "on_update_anchor_v19 h = entry ''Update Anchor (AP Memory)'' ''Update Anchor'' (save_anchor_to_memory_v19 h)"

definition reset_anchor_v19 :: "(layer, unit) exc" where
  "reset_anchor_v19 l =
     (case get_saved_anchor_v19 l of
        None \<Rightarrow> throw (Thrown no_snapshot_msg) l
      | Some v \<Rightarrow> set_anchor_and_compensate v l)"

definition on_reset_anchor_v19 :: "app \<Rightarrow> app" where
  "on_reset_anchor_v19 = entry ''Reset Anchor from Memory'' ''Reset Anchor'' reset_anchor_v19"

section \<open>Comparing the versions\<close>

text \<open>
  Contents the two measurers read alike: no free path among the shape items, and every
  rectangle or ellipse size that is there holds a pair of numbers.
\<close>

definition plain_item :: "node \<Rightarrow> bool" where
  "plain_item p \<longleftrightarrow>
     mname p \<noteq> ''ADBE Vector Shape - Group'' \<and>
     (mname p = ''ADBE Vector Shape - Rect'' \<longrightarrow>
        (case prop_named p ''ADBE Vector Rect Size'' of None \<Rightarrow> True | Some s \<Rightarrow> vec2 (val_of s) \<noteq> None)) \<and>
     (mname p = ''ADBE Vector Shape - Ellipse'' \<longrightarrow>
        (case prop_named p ''ADBE Vector Ellipse Size'' of None \<Rightarrow> True | Some s \<Rightarrow> vec2 (val_of s) \<noteq> None))"

definition plain_sizes :: "node list \<Rightarrow> bool" where
  "plain_sizes ps \<longleftrightarrow> list_all plain_item (shape_items ps)"

section \<open>Lemmas\<close>

lemma abs_at_vec2: "vec2 v = Some (x, y) \<Longrightarrow> abs_at v 0 = Some \<bar>x\<bar> \<and> abs_at v (Suc 0) = Some \<bar>y\<bar>"
  by (auto simp: vec2_def abs_at_def split: pval.splits list.splits)

lemma plain_sizes_Cons:
  "plain_sizes (p # ps) \<longleftrightarrow>
     plain_sizes ps \<and>
     (if mname p = ''ADBE Vector Group'' then
        (case prop_named p ''ADBE Vectors Group'' of None \<Rightarrow> True | Some g \<Rightarrow> plain_sizes (kids g))
      else plain_item p)"
  by (simp add: plain_sizes_def conj_commute split: option.split)

lemma size_read_plain:
  assumes "case prop_named p q of None \<Rightarrow> True | Some s \<Rightarrow> vec2 (val_of s) \<noteq> None"
  shows "(case prop_named p q of
            Some s \<Rightarrow> Some (abs_at (val_of s) 0, abs_at (val_of s) 1) | None \<Rightarrow> None) =
         map_option (\<lambda>(a, b). (Some a, Some b)) (Option.bind (prop_named p q) (\<lambda>s. abs_pair (vec2 (val_of s))))"
  using assms by (auto simp: abs_pair_def dest: abs_at_vec2 split: option.splits)

lemma scan_group_leaf:
  assumes "mname p \<noteq> ''ADBE Vector Group''" "plain_item p"
  shows "scan_group (p # ps) = (case size_offer p of None \<Rightarrow> scan_group ps | Some (a, b) \<Rightarrow> Some (Some a, Some b))"
proof -
  consider (r) "mname p = ''ADBE Vector Shape - Rect''" | (e) "mname p = ''ADBE Vector Shape - Ellipse''"
    | (o) "mname p \<noteq> ''ADBE Vector Shape - Rect''" "mname p \<noteq> ''ADBE Vector Shape - Ellipse''" by blast
  then show ?thesis
  proof cases
    case r
    have "case prop_named p ''ADBE Vector Rect Size'' of None \<Rightarrow> True | Some s \<Rightarrow> vec2 (val_of s) \<noteq> None"
      using assms(2) r by (simp add: plain_item_def)
    from size_read_plain[OF this] show ?thesis using assms(1) r
      by (auto simp: size_offer_def split: option.splits)
  next
    case e
    have "case prop_named p ''ADBE Vector Ellipse Size'' of None \<Rightarrow> True | Some s \<Rightarrow> vec2 (val_of s) \<noteq> None"
      using assms(2) e by (simp add: plain_item_def)
    from size_read_plain[OF this] show ?thesis using assms(1) e
      by (auto simp: size_offer_def split: option.splits)
  next
    case o
    then show ?thesis using assms by (simp add: size_offer_def plain_item_def)
  qed
qed

lemma scan_group_ref:
  "plain_sizes ps \<Longrightarrow>
     scan_group ps = map_option (\<lambda>(a, b). (Some a, Some b)) (first_opt (List.map_filter size_offer (shape_items ps)))"
proof (induction ps rule: scan_group.induct)
  case 1
  then show ?case by (simp add: List.map_filter_def)
next
  case (2 p ps)
  show ?case
  proof (cases "mname p = ''ADBE Vector Group''")
    case True
    then show ?thesis
      using 2 by (auto simp: plain_sizes_Cons first_opt_append alt_def split: option.splits)
  next
    case False
    have pl: "plain_item p" using 2(3) False by (simp add: plain_sizes_Cons)
    show ?thesis
    proof (cases "size_offer p")
      case (Some ab)
      then show ?thesis using scan_group_leaf[OF False pl] False
        by (simp add: first_opt_append alt_def split: prod.splits)
    next
      case None
      have "mname p = ''ADBE Vector Shape - Rect'' \<longrightarrow> prop_named p ''ADBE Vector Rect Size'' = None"
        "mname p = ''ADBE Vector Shape - Ellipse'' \<longrightarrow> prop_named p ''ADBE Vector Ellipse Size'' = None"
        using None pl by (auto simp: plain_item_def size_offer_def abs_pair_def split: option.splits)
      then have tl: "scan_group ps = map_option (\<lambda>(a, b). (Some a, Some b)) (first_opt (List.map_filter size_offer (shape_items ps)))"
        using 2 False by (simp add: plain_sizes_Cons)
      show ?thesis using scan_group_leaf[OF False pl] False None tl
        by (simp add: first_opt_append alt_def)
    qed
  qed
qed

lemma measure_shape_size_v19_first:
  assumes c: "contents_of (lnode l) = Some g" and p: "plain_sizes (kids g)"
    and f: "first_opt (List.map_filter size_offer (contents_items l)) = Some (w, hh)"
  shows "measure_shape_size_v19 h l = (Some w, Some hh)" "mw (measure_ref h l) = w" "mh (measure_ref h l) = hh"
  using scan_group_ref[OF p] c f by (simp_all add: measure_shape_size_v19_def measure_ref_def contents_items_def Let_def)

lemma first_size_exists:
  "List.map_filter size_offer xs \<noteq> [] \<Longrightarrow> \<exists>w hh. first_opt (List.map_filter size_offer xs) = Some (w, hh)"
  by (cases "List.map_filter size_offer xs") auto

lemma find_rotation_v19_eq:
  "prop_by_name x ''ADBE Vector Repeater Rotation'' \<noteq> None \<Longrightarrow> find_rotation_v19 x = find_rotation x"
  by (auto simp: find_rotation_v19_def find_rotation_def alt_def split: option.splits)

text \<open>
  C19. Where the contents hold a rectangle or ellipse size and every size there is a
  pair of numbers, \<open>measureShapeSize\<close> of v1.9 gives the width and height of the
  measurement spec 4.2 describes for v2.0 (\<open>measure_ref\<close>, the reference the walk of
  v2.0 is proved equal to): the first size in document order, sub-groups entered in
  place.
\<close>

theorem measure_size_versions_agree:
  assumes c: "contents_of (lnode l) = Some g" and p: "plain_sizes (kids g)"
    and n: "List.map_filter size_offer (contents_items l) \<noteq> []"
  shows "measure_shape_size_v19 h l = (Some (mw (measure_ref h l)), Some (mh (measure_ref h l)))"
proof -
  obtain w hh where f: "first_opt (List.map_filter size_offer (contents_items l)) = Some (w, hh)"
    using first_size_exists[OF n] by blast
  show ?thesis using measure_shape_size_v19_first[OF c p f] by simp
qed

theorem measure_size_versions_agree_witness:
  "measure_shape_size_v19 demo_host demo_layer = (Some (mw (measure_ref demo_host demo_layer)), Some (mh (measure_ref demo_host demo_layer)))"
proof -
  have c: "contents_of (lnode demo_layer) = Some (kids (lnode demo_layer) ! 1)" by code_simp
  have p: "plain_sizes (kids (kids (lnode demo_layer) ! 1))" by code_simp
  have n: "List.map_filter size_offer (contents_items demo_layer) \<noteq> []" by code_simp
  show ?thesis by (rule measure_size_versions_agree[OF c p n])
qed

text \<open>
  C20. The vertical preset of v1.9 spaces the copies by the shape's height alone: on a
  repeater the preset engine fully applies to (whose transform has a repeater rotation),
  with contents as in C19, the offset ends at (0, height), where v2.0 adds the stroke
  width and 20 (C11). On the example of spec section 8 (100 by 50, stroke 10) v1.9
  gives (0, 50) where v2.0 gives (0, 80).
\<close>

theorem vertical_preset_v19:
  assumes r: "node_at l rp = Some r" and ok: "preset_ok r" and x: "rep_xform r = Some xi"
    and rot: "prop_by_name (kids r ! xi) ''ADBE Vector Repeater Rotation'' \<noteq> None"
    and c: "contents_of (lnode l) = Some g" and p: "plain_sizes (kids g)"
    and n: "List.map_filter size_offer (contents_items l) \<noteq> []"
  shows "\<exists>l' qi np. apply_repeater_preset_v19 h rp ''Vertical Repeater'' l = (Inr (), l') \<and>
           find_vector_position (kids r ! xi) = Some qi \<and> node_at l' (rp @ [xi, qi]) = Some np \<and>
           val_of np = VVec [0, mh (measure_ref h l)]"
proof -
  obtain xi' ci qi ri where xi: "rep_xform r = Some xi'" and ci: "find_copies r = Some ci"
    and qi: "find_vector_position (kids r ! xi') = Some qi" and ri: "find_rotation (kids r ! xi') = Some ri"
    and w: "\<And>k v rt. \<exists>l'. preset_writes (Some (rp @ [ci])) (Some (rp @ [xi', qi])) (Some (rp @ [xi', ri])) k v rt l = (Inr (), l') \<and>
       node_at l' (rp @ [ci]) = Some (put_value (VNum k) (cleared (kids r ! ci))) \<and>
       node_at l' (rp @ [xi', qi]) = Some (put_value (VVec [fst v, snd v]) (cleared (kids (kids r ! xi') ! qi))) \<and>
       node_at l' (rp @ [xi', ri]) = Some (put_value (VNum rt) (cleared (kids (kids r ! xi') ! ri)))"
    and f: "\<And>a b. fits (vtype (kids (kids r ! xi') ! qi)) (VVec [a, b])"
    by (rule preset_ok_paths[OF r ok]) (rule that; assumption)
  have xx: "xi' = xi" using xi x by simp
  obtain wd hh where sz: "first_opt (List.map_filter size_offer (contents_items l)) = Some (wd, hh)"
    using first_size_exists[OF n] by blast
  note m = measure_shape_size_v19_first[OF c p sz, of h]
  have "apply_repeater_preset_v19 h rp ''Vertical Repeater'' l =
      preset_writes (Some (rp @ [ci])) (Some (rp @ [xi, qi])) (Some (rp @ [xi, ri])) 10 (0, hh) 0 l"
    using r x ci qi ri find_rotation_v19_eq[OF rot] m(1) xx
    by (simp add: apply_repeater_preset_v19_def preset_of_def or0_def)
  then show ?thesis using w[of 10 "(0, hh)" 0] f[of 0 hh] m(3) qi xx by auto
qed

theorem vertical_preset_v19_witness:
  "\<exists>l' np. apply_repeater_preset_v19 demo_host [1, 1] ''Vertical Repeater'' demo_layer_rep = (Inr (), l') \<and>
     node_at l' [1, 1, 3, 1] = Some np \<and> val_of np = VVec [0, 50]"
proof -
  have h: "node_at demo_layer_rep [1, 1] = Some ae_repeater" "preset_ok ae_repeater" "rep_xform ae_repeater = Some 3"
    "prop_by_name (kids ae_repeater ! 3) ''ADBE Vector Repeater Rotation'' \<noteq> None"
    "contents_of (lnode demo_layer_rep) = Some (kids (lnode demo_layer_rep) ! 1)"
    "plain_sizes (kids (kids (lnode demo_layer_rep) ! 1))"
    "List.map_filter size_offer (contents_items demo_layer_rep) \<noteq> []"
    by code_simp+
  have e: "find_vector_position (kids ae_repeater ! 3) = Some 1" "mh (measure_ref demo_host demo_layer_rep) = 50"
    by code_simp+
  show ?thesis using vertical_preset_v19[OF h, of demo_host] e by auto
qed

text \<open>
  C21. A snapshot v1.9 saves is never seen by v2.0. v1.9 keeps it in an effect named
  "AP Memory", v2.0 looks for "Anchor Point Restore (don't change)"; on a layer that has
  no effect of v2.0's name, whatever v1.9's \<open>saveAnchorToMemory\<close> does (save, create
  the effect, or throw), v2.0's \<open>getSavedAnchor\<close> afterwards finds no snapshot, so
  v2.0's "Reset Anchor" reports none. The host must not give a new point control v2.0's
  name as match name (it gives "ADBE Point Control").
\<close>

theorem v19_snapshot_unseen:
  assumes a: "effect_absent mem_name l"
    and hc: "\<forall>c. new_prop h ''ADBE Point Control'' = Some c \<longrightarrow> mname c \<noteq> mem_name"
  shows "get_saved_anchor (snd (save_anchor_to_memory_v19 h l)) = None"
proof -
  obtain r l' where s: "save_anchor_in mem_name_v19 h l = (r, l')" by (cases "save_anchor_in mem_name_v19 h l")
  have ne: "mem_name_v19 \<noteq> mem_name" by (simp add: mem_name_def mem_name_v19_def)
  have "effect_absent mem_name l'" by (rule save_anchor_in_absent[OF s a ne hc])
  then show ?thesis using s by (simp add: save_anchor_to_memory_v19_def get_saved_anchor_def effect_absent_saved)
qed

theorem v19_snapshot_unseen_witness:
  "fst (save_anchor_to_memory_v19 demo_host demo_layer) = Inr () \<and>
   get_saved_anchor (snd (save_anchor_to_memory_v19 demo_host demo_layer)) = None"
proof -
  have a: "effect_absent mem_name demo_layer"
    by (simp add: effect_absent_def effects_parade_def prop_by_name_def scene_defs mem_name_def)
  have hc: "\<forall>c. new_prop demo_host ''ADBE Point Control'' = Some c \<longrightarrow> mname c \<noteq> mem_name"
    by (simp add: demo_host_def ae_new_prop_def ae_point_def mem_name_def)
  have "fst (save_anchor_to_memory_v19 demo_host demo_layer) = Inr ()" by code_simp
  then show ?thesis using v19_snapshot_unseen[OF a hc] by simp
qed

text \<open>
  C25. v1.9's own memory is a round trip: on a layer whose anchor point holds \<open>v\<close>
  and on which an "AP Memory" point control can be found or created,
  \<open>saveAnchorToMemory\<close> of v1.9 returns normally, its \<open>getSavedAnchor\<close> then returns
  exactly \<open>v\<close>, and the anchor point is unchanged.
\<close>

theorem save_then_load_v19:
  assumes ok: "memory_ok_in mem_name_v19 h l" and v: "anchor_of l = Some v"
  shows "\<exists>l'. save_anchor_to_memory_v19 h l = (Inr (), l') \<and> get_saved_anchor_v19 l' = Some v \<and>
           anchor_of l' = Some v"
  using save_anchor_in_result[OF ok v] by (auto simp: save_anchor_to_memory_v19_def get_saved_anchor_v19_def)

theorem save_then_load_v19_witness:
  "\<exists>l'. save_anchor_to_memory_v19 demo_host demo_layer = (Inr (), l') \<and>
     get_saved_anchor_v19 l' = Some (10, 5) \<and> anchor_of l' = Some (10, 5)"
proof -
  have h: "memory_ok_in mem_name_v19 demo_host demo_layer" "anchor_of demo_layer = Some (10, 5)"
    by (simp_all add: memory_ok_in_def anchor_of_def anchor_path_def transform_idx_def effects_parade_def
        prop_by_name_def node_at_def scene_defs demo_host_def ae_new_prop_def ae_point_def has_2d_def vec2_def
        mem_name_v19_def)
  show ?thesis by (rule save_then_load_v19[OF h])
qed

lemma re_test_append: "re_test (r1 @ r2) s \<longleftrightarrow> re_test r1 s \<or> re_test r2 s"
  by (auto simp: re_test_def list_ex_iff)

text \<open>
  C27. The two versions' \<open>findRotation\<close> differ only by the Spanish alternative
  "rotacion" (accented o) of v2.0's pattern: on a transform group none of whose
  children's display names contains that word in any case (the \<open>/i\<close> match folds
  "ROTACION" with an accented capital O as well, as \<open>lower\<close> does), v1.9 and v2.0
  resolve the rotation to the same property (or both to none). The witness shows
  that the alternative does fire on such a name in v2.0 and not in v1.9.
\<close>

theorem find_rotation_versions_agree:
  assumes "\<forall>q \<in> set (kids x). \<not> re_test [[Lit (''rotaci'' @ [char_of (195::nat), char_of (179::nat)] @ ''n'')]] (dname q)"
  shows "find_rotation_v19 x = find_rotation x"
proof -
  let ?w = "''rotaci'' @ [char_of (195::nat), char_of (179::nat)] @ ''n''"
  have r: "re_rotation = re_rotation_v19 @ [[Lit ?w]] @ re_rotation_v19"
    by (simp only: re_rotation_def re_rotation_v19_def append_Cons append_Nil)
  have t: "re_test re_rotation s \<longleftrightarrow> re_test re_rotation_v19 s \<or> re_test [[Lit ?w]] s" for s
    unfolding r re_test_append by blast
  have e: "re_test re_rotation (dname q) = re_test re_rotation_v19 (dname q)" if "q \<in> set (kids x)" for q
    using assms that t[of "dname q"] by blast
  have "find_idx (\<lambda>q. re_test re_rotation_v19 (dname q) \<and> vtype q = OneD) (kids x) =
        find_idx (\<lambda>q. re_test re_rotation (dname q) \<and> vtype q = OneD) (kids x)"
    by (rule find_idx_cong) (simp only: e)
  then have "find_one_d x [] re_rotation_v19 = find_one_d x [] re_rotation"
    by (simp only: find_one_d_def)
  then show ?thesis by (simp only: find_rotation_v19_def find_rotation_def alt_assoc)
qed

theorem find_rotation_versions_agree_witness:
  "find_rotation_v19 (kids ae_repeater ! 3) = find_rotation (kids ae_repeater ! 3) \<and>
   re_test re_rotation (''ROTACI'' @ [CHR 0xC3, CHR 0x93] @ ''N'') \<and>
   \<not> re_test re_rotation_v19 (''ROTACI'' @ [CHR 0xC3, CHR 0x93] @ ''N'')"
proof -
  have "\<forall>q \<in> set (kids (kids ae_repeater ! 3)).
          \<not> re_test [[Lit (''rotaci'' @ [char_of (195::nat), char_of (179::nat)] @ ''n'')]] (dname q)"
    by code_simp
  moreover have "re_test re_rotation (''ROTACI'' @ [CHR 0xC3, CHR 0x93] @ ''N'')" by code_simp
  moreover have "\<not> re_test re_rotation_v19 (''ROTACI'' @ [CHR 0xC3, CHR 0x93] @ ''N'')" by code_simp
  ultimately show ?thesis using find_rotation_versions_agree by blast
qed

end
