(* ===== verification/Typing.thy ===== *)
theory Typing
  imports V19
begin

text \<open>
  A type invariant of the document: every property holds a value of its value type
  (a number for \<open>OneD\<close>, two numbers for \<open>TwoD\<close>, ...; groups hold none). The host
  enforces it on its side (\<open>setValue\<close> throws on a value that does not fit, theory
  Host) and creates properties that satisfy it (\<open>host_typed\<close>). The lemmas show that
  every operation of both versions keeps it, one \<open>keeps\<close> lemma per operation in the
  collection \<open>typed_keeps\<close>, and that the entry points keep it for every layer of the
  open composition.
\<close>

section \<open>The invariant\<close>

text \<open>A value of the type: groups hold none; a type the model does not know holds anything.\<close>

fun typed :: "pvtype \<Rightarrow> pval \<Rightarrow> bool" where
  "typed NoValue v = (v = VNone)"
| "typed OtherType v = True"
| "typed t v = fits t v"

fun well_typed :: "node \<Rightarrow> bool" where
  "well_typed (Node a ks) \<longleftrightarrow> typed (pvt a) (pvalue a) \<and> (\<forall>k \<in> set ks. well_typed k)"

definition layer_typed :: "layer \<Rightarrow> bool" where
  "layer_typed l \<longleftrightarrow> well_typed (lnode l)"

definition host_typed :: "host \<Rightarrow> bool" where
  "host_typed h \<longleftrightarrow> (\<forall>m c. new_prop h m = Some c \<longrightarrow> well_typed c)"

text \<open>Every layer of the open composition is well typed.\<close>

definition comp_typed :: "app \<Rightarrow> bool" where
  "comp_typed a \<longleftrightarrow> (case active_item a of Some (CompItem ls) \<Rightarrow> list_all layer_typed ls | _ \<Rightarrow> True)"

text \<open>
  What no operation changes: the layer's match name and its selection, which decide
  whether \<open>getSingleShapeLayerOrThrow\<close> picks the layer again.
\<close>

definition same_root :: "string \<Rightarrow> bool \<Rightarrow> layer \<Rightarrow> bool" where
  "same_root M S l \<longleftrightarrow> mname (lnode l) = M \<and> selected l = S"

section \<open>Lemmas\<close>

named_theorems typed_keeps "operations that keep every property value of its type"
named_theorems keeps_intros "how keeps goes through the combinators"
named_theorems root_keeps "operations that keep the layer's match name and selection"

lemma keepsI: "(\<And>s. P s \<Longrightarrow> P (snd (m s))) \<Longrightarrow> keeps P m"
  by (simp add: keeps_def)

lemma keepsD: "keeps P m \<Longrightarrow> P s \<Longrightarrow> P (snd (m s))"
  by (simp add: keeps_def)

lemma keeps_case_option [keeps_intros]:
  "keeps P a \<Longrightarrow> (\<And>y. keeps P (b y)) \<Longrightarrow> keeps P (case x of None \<Rightarrow> a | Some y \<Rightarrow> b y)"
  by (cases x) simp_all

lemma keeps_if [keeps_intros]: "keeps P a \<Longrightarrow> keeps P b \<Longrightarrow> keeps P (if c then a else b)"
  by simp

lemma keeps_case_prod [keeps_intros]: "(\<And>x y. keeps P (f x y)) \<Longrightarrow> keeps P (case p of (x, y) \<Rightarrow> f x y)"
  by (cases p) simp

lemma keeps_seq [keeps_intros]: "(\<And>m. m \<in> set ms \<Longrightarrow> keeps P m) \<Longrightarrow> keeps P (seq ms)"
  by (induction ms) auto

lemma keeps_discard [keeps_intros]: "keeps P m \<Longrightarrow> keeps P (discard m)"
  by (auto simp: discard_def)

lemmas [keeps_intros] = keeps_ebind keeps_try_catch keeps_ret keeps_throw keeps_read_at keeps_read_vec2

lemma keeps_layer_anchor_value [keeps_intros]: "keeps P layer_anchor_value"
  by (simp add: keeps_def layer_anchor_value_def ebind_def read_at_def ret_def split: option.splits)

lemma fits_typed: "fits t v \<Longrightarrow> typed t v"
  by (cases t) auto

lemma well_typed_get: "well_typed N \<Longrightarrow> get_at N p = Some n \<Longrightarrow> well_typed n"
proof (induction p arbitrary: N)
  case (Cons i p)
  then show ?case using nth_mem by (cases N) (fastforce split: if_splits)
qed simp

lemma well_typed_upd:
  "well_typed N \<Longrightarrow> (\<And>n. get_at N p = Some n \<Longrightarrow> well_typed (f n)) \<Longrightarrow> well_typed (upd_at p f N)"
proof (induction p arbitrary: N)
  case (Cons i p)
  obtain a ks where N: "N = Node a ks" by (cases N)
  show ?case
  proof (cases "i < length ks")
    case True
    have "well_typed (upd_at p f (ks ! i))" using Cons True N by (intro Cons.IH) auto
    then show ?thesis using Cons.prems True N set_update_subset_insert by fastforce
  qed (use Cons.prems N in simp)
qed simp

lemma set_value_typed: "well_typed n \<Longrightarrow> set_value v n = Inr n' \<Longrightarrow> well_typed n'"
  by (cases n) (auto simp: set_value_def fits_typed split: if_splits)

lemma set_expression_typed: "well_typed n \<Longrightarrow> set_expression e n = Inr n' \<Longrightarrow> well_typed n'"
  by (cases n) (auto simp: set_expression_def split: if_splits)

lemma set_expr_enabled_typed: "well_typed n \<Longrightarrow> set_expr_enabled b n = Inr n' \<Longrightarrow> well_typed n'"
  by (cases n) (auto simp: set_expr_enabled_def split: if_splits)

lemma set_name_typed: "well_typed n \<Longrightarrow> well_typed (set_name s n)"
  by (cases n) (auto simp: set_name_def)

lemma keeps_write_at:
  assumes "\<And>n n'. well_typed n \<Longrightarrow> f n = Inr n' \<Longrightarrow> well_typed n'"
  shows "keeps layer_typed (write_at p f)"
proof (rule keepsI)
  fix s assume s: "layer_typed s"
  show "layer_typed (snd (write_at p f s))"
  proof (cases "node_at s p")
    case (Some n)
    then show ?thesis using s assms well_typed_get[of "lnode s" p n]
      by (auto simp: write_at_def layer_typed_def node_at_def intro!: well_typed_upd split: sum.splits)
  qed (use s in \<open>simp add: write_at_def\<close>)
qed

lemma typed_writes [typed_keeps]:
  "keeps layer_typed (write_at p (set_value v))"
  "keeps layer_typed (write_at p (set_expression e))"
  "keeps layer_typed (write_at p (set_expr_enabled b))"
  "keeps layer_typed (write_at p (\<lambda>n. Inr (set_name nm n)))"
  by (rule keeps_write_at; auto intro: set_value_typed set_expression_typed set_expr_enabled_typed set_name_typed)+

lemma add_property_typed:
  assumes h: "host_typed h" and s: "layer_typed s"
  shows "layer_typed (snd (add_property h g m s))"
proof (cases "node_at s g")
  case (Some gn)
  show ?thesis
  proof (cases "new_prop h m")
    case (Some c)
    have "well_typed c" using h Some by (simp add: host_typed_def)
    then show ?thesis using s \<open>node_at s g = Some gn\<close> Some well_typed_get[of "lnode s" g]
      by (auto simp: add_property_def layer_typed_def node_at_def append_kid_def intro!: well_typed_upd)
        (metis node.collapse well_typed.simps)+
  qed (use s \<open>node_at s g = Some gn\<close> in \<open>simp add: add_property_def\<close>)
qed (use s in \<open>simp add: add_property_def\<close>)


lemma keeps_add_property [intro]:
  "host_typed h \<Longrightarrow> layer_typed s \<Longrightarrow> add_property h g m s = (r, s') \<Longrightarrow> layer_typed s'"
  using add_property_typed[of h s g m] by simp

lemma set_anchor_and_compensate_typed [typed_keeps]: "keeps layer_typed (set_anchor_and_compensate v)"
proof (rule keepsI)
  fix s assume s: "layer_typed s"
  show "layer_typed (snd (set_anchor_and_compensate v s))"
    unfolding set_anchor_and_compensate_def
    by (auto split: option.splits simp: throw_def s intro!: typed_keeps[THEN keepsD] keeps_intros[where P = layer_typed, THEN keepsD]; intro keeps_intros typed_keeps)
qed

lemma center_typed [typed_keeps]: "keeps layer_typed (center_layer_anchor_to_contents h)"
proof (rule keepsI)
  fix s assume s: "layer_typed s"
  show "layer_typed (snd (center_layer_anchor_to_contents h s))"
    unfolding center_layer_anchor_to_contents_def
    by (auto split: option.splits simp: throw_def s intro!: typed_keeps[THEN keepsD] keeps_intros[where P = layer_typed, THEN keepsD]; intro keeps_intros typed_keeps)
qed

lemma add_repeater_typed [typed_keeps]:
  assumes h: "host_typed h"
  shows "keeps layer_typed (add_repeater h)"
proof (rule keepsI)
  fix s assume s: "layer_typed s"
  show "layer_typed (snd ((add_repeater h) s))"
    unfolding add_repeater_def
    by (auto split: option.splits prod.splits sum.splits simp: throw_def s intro: keeps_add_property[OF h s] intro!: typed_keeps[THEN keepsD] keeps_intros[where P = layer_typed, THEN keepsD]; intro keeps_intros typed_keeps)
qed

lemma free_rep_position_typed [typed_keeps]: "keeps layer_typed (free_rep_position pp)"
  unfolding free_rep_position_def by (intro keeps_intros typed_keeps)

lemma bind_repeater_typed [typed_keeps]:
  shows "keeps layer_typed (bind_repeater rp)"
proof (rule keepsI)
  fix s assume s: "layer_typed s"
  show "layer_typed (snd ((bind_repeater rp) s))"
    unfolding bind_repeater_def
    by (auto split: option.splits prod.splits sum.splits simp: throw_def s intro!: typed_keeps[THEN keepsD] keeps_intros[where P = layer_typed, THEN keepsD]; intro keeps_intros typed_keeps)
qed

lemma preset_writes_typed [typed_keeps]: "keeps layer_typed (preset_writes pc pp pr c v rt)"
  unfolding preset_writes_def set_num_def set_vec_def clear_expr_def by (intro keeps_intros typed_keeps)

lemma apply_repeater_preset_typed [typed_keeps]:
  shows "keeps layer_typed (apply_repeater_preset h rp name)"
proof (rule keepsI)
  fix s assume s: "layer_typed s"
  show "layer_typed (snd ((apply_repeater_preset h rp name) s))"
    unfolding apply_repeater_preset_def
    by (auto split: option.splits prod.splits sum.splits simp: throw_def s Let_def split: preset.splits intro!: typed_keeps[THEN keepsD] keeps_intros[where P = layer_typed, THEN keepsD]; intro keeps_intros typed_keeps)
qed

lemma apply_repeater_preset_v19_typed [typed_keeps]:
  shows "keeps layer_typed (apply_repeater_preset_v19 h rp name)"
proof (rule keepsI)
  fix s assume s: "layer_typed s"
  show "layer_typed (snd ((apply_repeater_preset_v19 h rp name) s))"
    unfolding apply_repeater_preset_v19_def
    by (auto split: option.splits prod.splits sum.splits simp: throw_def s Let_def split: preset.splits intro!: typed_keeps[THEN keepsD] keeps_intros[where P = layer_typed, THEN keepsD]; intro keeps_intros typed_keeps)
qed

lemma ensure_effect_typed [typed_keeps]:
  assumes h: "host_typed h"
  shows "keeps layer_typed (ensure_effect h mn name)"
proof (rule keepsI)
  fix s assume s: "layer_typed s"
  show "layer_typed (snd ((ensure_effect h mn name) s))"
    unfolding ensure_effect_def
    by (auto split: option.splits prod.splits sum.splits simp: throw_def s intro: keeps_add_property[OF h s] intro!: typed_keeps[THEN keepsD] keeps_intros[where P = layer_typed, THEN keepsD]; intro keeps_intros typed_keeps)
qed

lemma comment_typed [typed_keeps]: "keeps layer_typed (\<lambda>l. (Inr (), l\<lparr>comment := c\<rparr>))"
  by (simp add: keeps_def layer_typed_def)

lemma write_opt_typed [typed_keeps]: "keeps layer_typed (write_opt po (set_value v))"
  unfolding write_opt_def by (intro keeps_intros typed_keeps)

lemma ensure_controls_typed:
  assumes h: "host_typed h"
  shows "m \<in> set (ensure_controls h l hs) \<Longrightarrow> keeps layer_typed m"
  unfolding ensure_controls_def ensure_slider_def ensure_point_def Let_def
  by (auto split: pval.split intro!: keeps_intros ensure_effect_typed[OF h] typed_keeps)

lemma set_expr_typed [typed_keeps]: "keeps layer_typed (set_expr po e)"
  unfolding set_expr_def by (intro keeps_intros typed_keeps)

lemma link_typed [typed_keeps]:
  assumes h: "host_typed h"
  shows "keeps layer_typed (link_repeater_to_layer_controls h rp)"
proof (rule keepsI)
  fix s assume s: "layer_typed s"
  show "layer_typed (snd (link_repeater_to_layer_controls h rp s))"
  proof (cases "node_at s rp")
    case (Some r)
    show ?thesis
    proof (cases "rep_xform r")
      case (Some xi)
      let ?hs = "rep_handles rp r xi"
      have "keeps layer_typed (seq (ensure_controls h s ?hs @ map2 set_expr ?hs rep_exprs))"
        by (rule keeps_seq) (auto dest: ensure_controls_typed[OF h] intro: set_expr_typed)
      from keepsD[OF this s] show ?thesis
        using \<open>node_at s rp = Some r\<close> Some by (simp add: link_repeater_to_layer_controls_def Let_def)
    qed (use s \<open>node_at s rp = Some r\<close> in \<open>simp add: link_repeater_to_layer_controls_def throw_def\<close>)
  qed (use s in \<open>simp add: link_repeater_to_layer_controls_def\<close>)
qed

lemma save_anchor_typed [typed_keeps]:
  assumes h: "host_typed h"
  shows "keeps layer_typed (save_anchor_to_memory h)"
proof (rule keepsI)
  fix s assume s: "layer_typed s"
  show "layer_typed (snd ((save_anchor_to_memory h) s))"
    unfolding save_anchor_to_memory_def save_anchor_in_def ensure_memory_effect_in_def
    by (auto split: option.splits prod.splits sum.splits simp: throw_def s intro: ensure_effect_typed[OF h] intro: keeps_add_property[OF h s] intro!: typed_keeps[THEN keepsD] keeps_intros[where P = layer_typed, THEN keepsD]; intro keeps_intros typed_keeps)
qed

lemma save_anchor_v19_typed [typed_keeps]:
  assumes h: "host_typed h"
  shows "keeps layer_typed (save_anchor_to_memory_v19 h)"
proof (rule keepsI)
  fix s assume s: "layer_typed s"
  show "layer_typed (snd ((save_anchor_to_memory_v19 h) s))"
    unfolding save_anchor_to_memory_v19_def save_anchor_in_def ensure_memory_effect_in_def
    by (auto split: option.splits prod.splits sum.splits simp: throw_def s intro: ensure_effect_typed[OF h] intro: keeps_add_property[OF h s] intro!: typed_keeps[THEN keepsD] keeps_intros[where P = layer_typed, THEN keepsD]; intro keeps_intros typed_keeps)
qed

lemma reset_anchor_typed [typed_keeps]:
  shows "keeps layer_typed (reset_anchor)"
proof (rule keepsI)
  fix s assume s: "layer_typed s"
  show "layer_typed (snd ((reset_anchor) s))"
    unfolding reset_anchor_def
    by (auto split: option.splits prod.splits sum.splits simp: throw_def s  intro!: typed_keeps[THEN keepsD] keeps_intros[where P = layer_typed, THEN keepsD]; intro keeps_intros typed_keeps)
qed

lemma reset_anchor_v19_typed [typed_keeps]:
  shows "keeps layer_typed (reset_anchor_v19)"
proof (rule keepsI)
  fix s assume s: "layer_typed s"
  show "layer_typed (snd ((reset_anchor_v19) s))"
    unfolding reset_anchor_v19_def
    by (auto split: option.splits prod.splits sum.splits simp: throw_def s  intro!: typed_keeps[THEN keepsD] keeps_intros[where P = layer_typed, THEN keepsD]; intro keeps_intros typed_keeps)
qed

lemma primary_typed [typed_keeps]: "host_typed h \<Longrightarrow> keeps layer_typed (primary h preset)"
  unfolding primary_def by (intro keeps_intros typed_keeps)

lemma primary_v19_typed [typed_keeps]: "host_typed h \<Longrightarrow> keeps layer_typed (primary_v19 h preset)"
  unfolding primary_v19_def by (intro keeps_intros typed_keeps)

lemma get_single_less: "get_single_shape_layer_or_throw ls = Inr i \<Longrightarrow> i < length ls"
proof -
  assume a: "get_single_shape_layer_or_throw ls = Inr i"
  let ?sel = "filter (\<lambda>i. selected (ls ! i)) [0..<length ls]"
  have "length ?sel = 1" "i = hd ?sel"
    using a by (auto simp: get_single_shape_layer_or_throw_def Let_def split: if_splits)
  then have "i \<in> set ?sel" by (cases ?sel) auto
  then show ?thesis by simp
qed

lemma with_layer_typed:
  assumes k: "keeps layer_typed m" and a: "comp_typed a"
  shows "comp_typed (snd (with_layer m a))"
proof (cases "get_comp_or_throw a")
  case (Inr ls)
  show ?thesis
  proof (cases "get_single_shape_layer_or_throw ls")
    case (Inr i)
    have ls: "list_all layer_typed ls" using a get_comp_Inr[OF \<open>get_comp_or_throw a = Inr ls\<close>]
      by (simp add: comp_typed_def)
    obtain r l' where m: "m (ls ! i) = (r, l')" by fastforce
    have i: "i < length ls" using Inr by (rule get_single_less)
    have "layer_typed l'" using keepsD[OF k, of "ls ! i"] m ls i by (simp add: list_all_length)
    then have "list_all layer_typed (ls[i := l'])" using ls i by (auto simp: list_all_length nth_list_update)
    then show ?thesis using \<open>get_comp_or_throw a = Inr ls\<close> Inr m by (simp add: with_layer_def comp_typed_def)
  qed (use a \<open>get_comp_or_throw a = Inr ls\<close> in \<open>simp add: with_layer_def\<close>)
qed (use a in \<open>simp add: with_layer_def\<close>)

lemma entry_typed: "keeps layer_typed m \<Longrightarrow> comp_typed a \<Longrightarrow> comp_typed (entry n t m a)"
  using with_layer_typed[of m "a\<lparr>undo_log := undo_log a @ [BeginUndo n]\<rparr>"]
  by (auto simp: entry_def Let_def comp_typed_def with_layer_undo_log split: prod.splits sum.splits)

lemma entry_points_typed:
  assumes "host_typed h" "comp_typed a"
  shows "comp_typed (main h s a)" "comp_typed (on_update_anchor h a)" "comp_typed (on_reset_anchor a)"
    "comp_typed (main_v19 h s a)" "comp_typed (on_update_anchor_v19 h a)" "comp_typed (on_reset_anchor_v19 a)"
  using assms unfolding main_def on_update_anchor_def on_reset_anchor_def main_v19_def on_update_anchor_v19_def
    on_reset_anchor_v19_def
  by (auto intro!: entry_typed typed_keeps)

lemma mname_upd: "get_at N p = Some n \<Longrightarrow> mname (g n) = mname n \<Longrightarrow> mname (upd_at p g N) = mname N"
  by (cases p) auto

lemma keeps_write_root:
  assumes "\<And>n n'. f n = Inr n' \<Longrightarrow> mname n' = mname n"
  shows "keeps (same_root M S) (write_at p f)"
proof (rule keepsI)
  fix s assume s: "same_root M S s"
  show "same_root M S (snd (write_at p f s))"
  proof (cases "node_at s p")
    case (Some n)
    then show ?thesis using s assms mname_upd[of "lnode s" p n]
      by (auto simp: write_at_def same_root_def node_at_def split: sum.splits)
  qed (use s in \<open>simp add: write_at_def\<close>)
qed

lemma root_writes [root_keeps]:
  "keeps (same_root M S) (write_at p (set_value v))"
  "keeps (same_root M S) (write_at p (set_expression e))"
  "keeps (same_root M S) (write_at p (\<lambda>n. Inr (set_name nm n)))"
  by (rule keeps_write_root; auto simp: set_value_def set_expression_def set_name_def split: if_splits)+

lemma add_property_root: "same_root M S s \<Longrightarrow> add_property h g m s = (r, s') \<Longrightarrow> same_root M S s'"
  by (auto simp: add_property_def same_root_def node_at_def append_kid_def split: option.splits
      dest: mname_upd[where g = "append_kid _"])

lemma comment_root [root_keeps]: "keeps (same_root M S) (\<lambda>l. (Inr (), l\<lparr>comment := c\<rparr>))"
  by (simp add: keeps_def same_root_def)

lemma set_anchor_root [root_keeps]: "keeps (same_root M S) (set_anchor_and_compensate v)"
proof (rule keepsI)
  fix s assume s: "same_root M S s"
  show "same_root M S (snd ((set_anchor_and_compensate v) s))"
    unfolding set_anchor_and_compensate_def
    by (auto split: option.splits prod.splits sum.splits simp: throw_def s  intro!: root_keeps[THEN keepsD] keeps_intros[where P = "same_root M S", THEN keepsD]; intro keeps_intros root_keeps)
qed

lemma ensure_effect_root [root_keeps]: "keeps (same_root M S) (ensure_effect h mn name)"
proof (rule keepsI)
  fix s assume s: "same_root M S s"
  show "same_root M S (snd ((ensure_effect h mn name) s))"
    unfolding ensure_effect_def
    by (auto split: option.splits prod.splits sum.splits simp: throw_def s  intro: add_property_root[OF s] intro!: root_keeps[THEN keepsD] keeps_intros[where P = "same_root M S", THEN keepsD]; intro keeps_intros root_keeps)
qed

lemma save_anchor_root [root_keeps]: "keeps (same_root M S) (save_anchor_to_memory h)"
proof (rule keepsI)
  fix s assume s: "same_root M S s"
  show "same_root M S (snd ((save_anchor_to_memory h) s))"
    unfolding save_anchor_to_memory_def save_anchor_in_def ensure_memory_effect_in_def
    by (auto split: option.splits prod.splits sum.splits simp: throw_def s intro: ensure_effect_root intro!: root_keeps[THEN keepsD] keeps_intros[where P = "same_root M S", THEN keepsD]; intro keeps_intros root_keeps)
qed

lemma reset_anchor_root [root_keeps]: "keeps (same_root M S) (reset_anchor)"
proof (rule keepsI)
  fix s assume s: "same_root M S s"
  show "same_root M S (snd ((reset_anchor) s))"
    unfolding reset_anchor_def
    by (auto split: option.splits prod.splits sum.splits simp: throw_def s  intro!: root_keeps[THEN keepsD] keeps_intros[where P = "same_root M S", THEN keepsD]; intro keeps_intros root_keeps)
qed

end
