(* ===== verification/Panel.thy ===== *)
theory Panel
  imports Typing
begin

text \<open>
  The UI panel of \<open>buildUI\<close> as far as it carries behaviour: the preset dropdown, the
  debug checkbox and the flag \<open>gDebug\<close> it feeds (v2.0 only), and the four buttons,
  whose \<open>onClick\<close> handlers call the entry points of theory Operations (v2.0) or V19
  (v1.9), and \<open>onAbout\<close>. Layout (orientation, margins, alignment, resizing) has no
  behaviour and is not modelled. The panel is a state machine: its state is the
  dropdown's selection, the checkbox, \<open>gDebug\<close> and the application; an event is what
  the user does with a control. Between two clicks the user may also edit the
  document (move the anchor, change the selection, open another composition); the
  reachable states below allow that.
\<close>

section \<open>Panel state and events\<close>

definition preset_items :: "string list" where
  "preset_items = [''Default'', ''Vertical Repeater'', ''Horizontal Repeater'', ''Spiral Repeater'']"

text \<open>
  \<open>ddPreset.selection\<close> is an item of the list or \<open>null\<close>; the model keeps the item's
  text, which is all the handler reads.
\<close>

record panel =
  dd_sel :: "string option"
  chk_debug :: bool
  g_debug :: bool
  papp :: app

definition init_panel :: "app \<Rightarrow> panel" where
  "init_panel a = \<lparr>dd_sel = Some (preset_items ! 0), chk_debug = False, g_debug = False, papp = a\<rparr>"

datatype ui_event = SelectPreset nat | SetDebug bool | DoIt | UpdateAnchor | ResetAnchor | About

text \<open>\<open>ddPreset.selection ? ddPreset.selection.text : "Default"\<close>.\<close>

definition selected_preset :: "panel \<Rightarrow> string" where
  "selected_preset p = (case dd_sel p of Some t \<Rightarrow> t | None \<Rightarrow> ''Default'')"

section \<open>onAbout\<close>

definition about_msg :: string where
  "about_msg =
     ''Center Anchor Point + Add Repeater is a script by Stephen @ Drywater Dev Co.  '' @
     ''It takes the pain out of repeaters on shape layers being jacked up.  '' @
     ''Simply create a shape layer anywhere, then run the script.  '' @
     ''It will center the repeater anchor point to allow for the repeater to centered.  '' @
     ''You can still move the center of the repeater by moving the anchor point of the shape layer.  '' @
     ''If you manually move the anchor point, you can reset it via the '' @ [CHR 0x22] @ ''Reset Anchor'' @
     [CHR 0x22] @ '' button, which will re-center the anchor point.''"

text \<open>\<open>alert(msg, title)\<close>: the alert shows the message; the dialog title is not recorded.\<close>

definition on_about :: "app \<Rightarrow> app" where
  "on_about a = a\<lparr>alerts := alerts a @ [about_msg]\<rparr>"

section \<open>The handlers\<close>

text \<open>
  v2.0: \<open>btnDoIt.onClick\<close> copies the checkbox into \<open>gDebug\<close> and runs \<open>main\<close> on the
  selected preset; the other buttons run their entry point. Picking an item of the
  dropdown (the user can only pick one of its four items) and ticking the checkbox
  change the controls.
\<close>

fun panel_click :: "host \<Rightarrow> ui_event \<Rightarrow> panel \<Rightarrow> panel" where
  "panel_click h (SelectPreset i) p =
     (if i < length preset_items then p\<lparr>dd_sel := Some (preset_items ! i)\<rparr> else p)"
| "panel_click h (SetDebug b) p = p\<lparr>chk_debug := b\<rparr>"
| "panel_click h DoIt p =
     (let p1 = p\<lparr>g_debug := chk_debug p\<rparr> in p1\<lparr>papp := main h (selected_preset p1) (papp p1)\<rparr>)"
| "panel_click h UpdateAnchor p = p\<lparr>papp := on_update_anchor h (papp p)\<rparr>"
| "panel_click h ResetAnchor p = p\<lparr>papp := on_reset_anchor (papp p)\<rparr>"
| "panel_click h About p = p\<lparr>papp := on_about (papp p)\<rparr>"

text \<open>
  v1.9: the same panel without the debug checkbox (\<open>SetDebug\<close> has no control to act
  on) and with the v1.9 entry points; its \<open>onAbout\<close> differs only in the dialog title.
\<close>

fun panel_click_v19 :: "host \<Rightarrow> ui_event \<Rightarrow> panel \<Rightarrow> panel" where
  "panel_click_v19 h (SelectPreset i) p =
     (if i < length preset_items then p\<lparr>dd_sel := Some (preset_items ! i)\<rparr> else p)"
| "panel_click_v19 h (SetDebug b) p = p"
| "panel_click_v19 h DoIt p = p\<lparr>papp := main_v19 h (selected_preset p) (papp p)\<rparr>"
| "panel_click_v19 h UpdateAnchor p = p\<lparr>papp := on_update_anchor_v19 h (papp p)\<rparr>"
| "panel_click_v19 h ResetAnchor p = p\<lparr>papp := on_reset_anchor_v19 (papp p)\<rparr>"
| "panel_click_v19 h About p = p\<lparr>papp := on_about (papp p)\<rparr>"

text \<open>A run of events, in order.\<close>

definition run_panel :: "host \<Rightarrow> ui_event list \<Rightarrow> panel \<Rightarrow> panel" where
  "run_panel h es p = fold (panel_click h) es p"

section \<open>Reachable states\<close>

text \<open>
  The panel opens on a fresh undo history; then the user clicks, or edits the document
  and the selection (the active item) between clicks.
\<close>

inductive panel_reach :: "host \<Rightarrow> panel \<Rightarrow> bool" for h where
  init: "undo_log a = [] \<Longrightarrow> panel_reach h (init_panel a)"
| click: "panel_reach h p \<Longrightarrow> panel_reach h (panel_click h e p)"
| edit: "panel_reach h p \<Longrightarrow> panel_reach h (p\<lparr>papp := (papp p)\<lparr>active_item := x\<rparr>\<rparr>)"

text \<open>
  The undo history the host sees: complete groups, each \<open>beginUndoGroup\<close> followed by its
  \<open>endUndoGroup\<close>, none left open and none nested.
\<close>

fun balanced :: "undo_event list \<Rightarrow> bool" where
  "balanced [] = True"
| "balanced (BeginUndo n # EndUndo # xs) = balanced xs"
| "balanced _ = False"

definition panel_inv :: "panel \<Rightarrow> bool" where
  "panel_inv p \<longleftrightarrow> balanced (undo_log (papp p)) \<and> dd_sel p \<in> Some ` set preset_items"

section \<open>Lemmas\<close>

lemma balanced_append: "balanced xs \<Longrightarrow> balanced (xs @ [BeginUndo n, EndUndo])"
  by (induction xs rule: balanced.induct) simp_all

lemma entry_undo_log: "undo_log (entry n t m a) = undo_log a @ [BeginUndo n, EndUndo]"
  by (simp add: entry_def Let_def with_layer_undo_log with_layer_keeps_log split: prod.splits sum.splits)

lemma entry_points_undo_log:
  "undo_log (main h s a) = undo_log a @ [BeginUndo ''Center AP + Add Repeater'', EndUndo]"
  "\<exists>n. undo_log (on_update_anchor h a) = undo_log a @ [BeginUndo n, EndUndo]"
  "undo_log (on_reset_anchor a) = undo_log a @ [BeginUndo ''Reset Anchor from Memory'', EndUndo]"
  "undo_log (on_about a) = undo_log a"
  by (simp_all add: main_def on_update_anchor_def on_reset_anchor_def on_about_def entry_undo_log)

lemma panel_click_inv: "panel_inv p \<Longrightarrow> panel_inv (panel_click h e p)"
proof (cases e)
  case UpdateAnchor
  moreover obtain n where "undo_log (on_update_anchor h (papp p)) = undo_log (papp p) @ [BeginUndo n, EndUndo]"
    using entry_points_undo_log(2) by blast
  ultimately show "panel_inv p \<Longrightarrow> ?thesis" by (simp add: panel_inv_def balanced_append)
qed (auto simp: panel_inv_def entry_points_undo_log balanced_append Let_def)

lemma panel_reach_inv: "panel_reach h p \<Longrightarrow> panel_inv p"
proof (induction rule: panel_reach.induct)
  case (init a)
  then show ?case by (simp add: panel_inv_def init_panel_def preset_items_def)
next
  case (click p e)
  then show ?case by (simp add: panel_click_inv)
next
  case (edit p x)
  then show ?case by (simp add: panel_inv_def)
qed

lemma run_panel_reach: "panel_reach h p \<Longrightarrow> panel_reach h (run_panel h es p)"
  by (induction es arbitrary: p) (simp_all add: run_panel_def panel_reach.click)

lemma demo_panel_reach: "panel_reach demo_host (init_panel demo_app)"
  by (rule panel_reach.init) (simp add: demo_app_def)

text \<open>
  C22. However the user interleaves clicks on the four buttons, picks in the dropdown
  and edits of the document, the undo history the script leaves is a sequence of
  complete groups: every \<open>beginUndoGroup\<close> is closed by its \<open>endUndoGroup\<close> before the
  next one opens, also when an entry point fails.
\<close>

theorem reach_undo_balanced: "panel_reach h p \<Longrightarrow> balanced (undo_log (papp p))"
  using panel_reach_inv by (simp add: panel_inv_def)

theorem reach_undo_balanced_witness:
  "balanced (undo_log (papp (run_panel demo_host [SelectPreset 1, DoIt, UpdateAnchor, ResetAnchor, About]
     (init_panel demo_app))))"
  by (rule reach_undo_balanced[OF run_panel_reach[OF demo_panel_reach]])

text \<open>
  C23. In every reachable state the dropdown has a selection, one of its four items, and
  "Do It" runs \<open>main\<close> with exactly that item's text: the fallback \<open>"Default"\<close> of
  the handler, for a \<open>null\<close> selection, is never taken.
\<close>

theorem do_it_listed_preset:
  "panel_reach h p \<Longrightarrow>
     \<exists>s \<in> set preset_items. dd_sel p = Some s \<and> papp (panel_click h DoIt p) = main h s (papp p)"
  using panel_reach_inv[of h p] by (auto simp: panel_inv_def selected_preset_def Let_def)

theorem do_it_listed_preset_witness:
  "\<exists>s \<in> set preset_items. dd_sel (init_panel demo_app) = Some s \<and>
     papp (panel_click demo_host DoIt (init_panel demo_app)) = main demo_host s demo_app"
  using do_it_listed_preset[OF demo_panel_reach] by (simp add: init_panel_def)

lemma single_update:
  assumes i: "get_single_shape_layer_or_throw ls = Inr i"
    and r: "same_root (mname (lnode (ls ! i))) (selected (ls ! i)) l'"
  shows "get_single_shape_layer_or_throw (ls[i := l']) = Inr i"
proof -
  have il: "i < length ls" using i by (rule get_single_less)
  have "filter (\<lambda>j. selected (ls[i := l'] ! j)) [0..<length (ls[i := l'])] =
        filter (\<lambda>j. selected (ls ! j)) [0..<length ls]"
    using r il by (intro filter_cong) (auto simp: nth_list_update same_root_def)
  then show ?thesis using i il r
    by (simp add: get_single_shape_layer_or_throw_def Let_def same_root_def split: if_splits)
qed

lemma entry_success:
  assumes c: "get_comp_or_throw a = Inr ls" and i: "get_single_shape_layer_or_throw ls = Inr i"
    and m: "m (ls ! i) = (Inr (), l')"
  shows "active_item (entry n t m a) = Some (CompItem (ls[i := l'])) \<and> alerts (entry n t m a) = alerts a"
  using get_comp_Inr[OF c] i m
  by (simp add: entry_def Let_def with_layer_def get_comp_or_throw_def)

text \<open>
  C24. Restoring is always within reach: in any panel state whose composition has a
  selected shape layer that can hold the anchor memory (effects group, usable anchor
  point and position), the two clicks "Update Anchor" then "Reset Anchor" both succeed
  (no alert), and the layer ends with the anchor point and position it had.
\<close>

theorem update_then_reset:
  assumes c: "get_comp_or_throw (papp p) = Inr ls" and i: "get_single_shape_layer_or_throw ls = Inr i"
    and ok: "memory_ok h (ls ! i)" and pv: "pivot_ok (ls ! i)"
    and a: "anchor_of (ls ! i) = Some (ax, ay)" and q: "position_of (ls ! i) = Some (px, py)"
  shows "\<exists>l'. active_item (papp (run_panel h [UpdateAnchor, ResetAnchor] p)) = Some (CompItem (ls[i := l'])) \<and>
           alerts (papp (run_panel h [UpdateAnchor, ResetAnchor] p)) = alerts (papp p) \<and>
           anchor_of l' = Some (ax, ay) \<and> position_of l' = Some (px, py)"
proof -
  let ?l = "ls ! i" and ?R = "same_root (mname (lnode (ls ! i))) (selected (ls ! i))"
  obtain l1 fi t where s: "save_anchor_to_memory h ?l = (Inr (), l1)" and g1: "get_saved_anchor l1 = Some (ax, ay)"
    and pv1: "pivot_ok l1" and a1: "anchor_of l1 = Some (ax, ay)" and p1: "position_of l1 = Some (px, py)"
    by (rule save_pivot_result[OF ok pv a q]) (rule that; assumption)
  obtain l2 where s2: "set_anchor_and_compensate (ax, ay) l1 = (Inr (), l2)"
    and a2: "anchor_of l2 = Some (ax, ay)" and p2: "position_of l2 = Some (px + (ax - ax), py + (ay - ay))"
    by (rule set_anchor_and_compensate_result[OF pv1 a1 p1, of ax ay]) (rule that; assumption)
  have r: "reset_anchor l1 = (Inr (), l2)" using g1 s2 by (simp add: reset_anchor_def)
  have r0: "?R ?l" by (simp add: same_root_def)
  have r1: "?R l1" using keepsD[OF save_anchor_root[of _ _ h] r0] s by simp
  have r2: "?R l2" using keepsD[OF reset_anchor_root r1] r by simp
  let ?a1 = "on_update_anchor h (papp p)"
  have u: "active_item ?a1 = Some (CompItem (ls[i := l1])) \<and> alerts ?a1 = alerts (papp p)"
    unfolding on_update_anchor_def by (rule entry_success[where m = "save_anchor_to_memory h", OF c i s])
  have c1: "get_comp_or_throw ?a1 = Inr (ls[i := l1])" using u by (simp add: get_comp_or_throw_def)
  have i1: "get_single_shape_layer_or_throw (ls[i := l1]) = Inr i" using single_update[OF i r1] .
  have il: "i < length ls" using i by (rule get_single_less)
  have "reset_anchor (ls[i := l1] ! i) = (Inr (), l2)" using r il by simp
  from entry_success[where m = reset_anchor, OF c1 i1 this, of "''Reset Anchor from Memory''" "''Reset Anchor''"]
  have "active_item (on_reset_anchor ?a1) = Some (CompItem (ls[i := l2])) \<and> alerts (on_reset_anchor ?a1) = alerts (papp p)"
    using u by (simp add: on_reset_anchor_def)
  then show ?thesis using a2 p2 by (auto simp: run_panel_def)
qed

theorem update_then_reset_witness:
  "\<exists>l'. active_item (papp (run_panel demo_host [UpdateAnchor, ResetAnchor] (init_panel demo_app))) =
         Some (CompItem [l']) \<and>
       alerts (papp (run_panel demo_host [UpdateAnchor, ResetAnchor] (init_panel demo_app))) = [] \<and>
       anchor_of l' = Some (10, 5) \<and> position_of l' = Some (960, 540)"
proof -
  have h: "get_comp_or_throw (papp (init_panel demo_app)) = Inr [demo_layer]"
    "get_single_shape_layer_or_throw [demo_layer] = Inr 0"
    "memory_ok demo_host ([demo_layer] ! 0)" "pivot_ok ([demo_layer] ! 0)"
    "anchor_of ([demo_layer] ! 0) = Some (10, 5)" "position_of ([demo_layer] ! 0) = Some (960, 540)"
    by (simp_all add: init_panel_def get_comp_or_throw_def demo_app_def get_single_shape_layer_or_throw_def
        memory_ok_def memory_ok_in_def pivot_ok_def anchor_of_def position_of_def anchor_path_def position_path_def
        transform_idx_def effects_parade_def prop_by_name_def node_at_def scene_defs demo_host_def ae_new_prop_def
        ae_point_def has_2d_def vec2_def mem_name_def takes_xy_def)
  show ?thesis using update_then_reset[OF h] by (simp add: init_panel_def demo_app_def)
qed

end
