(* ===== verification/Loops.thy ===== *)
theory Loops
  imports Memory
begin

text \<open>
  The index loops of the finders, as the code writes them. Every finder of the script
  scans a group with \<open>for (j = 1; j <= g.numProperties; j++) { q = g.property(j); if
  (!q) continue; if (P(q)) return q; }\<close>; the other theories model such a loop by the
  list search \<open>find_idx\<close>. Here the loop is \<open>index_scan\<close>, a \<open>partial_function
  (option)\<close> on the counter, so that a loop that never ends would be the value \<open>None\<close>,
  and the v1.9 finders of src/CenterAP_AddRepeater_v1.9.jsx (\<open>findOneD\<close>,
  \<open>findVectorPosition\<close>, \<open>findCopies\<close>, the anchor search of \<open>bindRepeater\<close>,
  \<open>getAPMemoryPointProp\<close>) are written over it line for line. The lemmas show that
  the loop returns on every group and from every start (a measure on the counter), that
  each loop-level finder returns exactly what the list model of v2.0 returns, so that
  v1.9's copies of these functions are the v2.0 definitions, and the contract of
  \<open>findOneD\<close>'s last-resort loop.
\<close>

section \<open>The index loop\<close>

text \<open>
  \<open>index_scan P g j\<close> runs the loop from counter \<open>j\<close>: \<open>Some (Some q)\<close> when it
  returns child \<open>q\<close> (a position counted from 0), \<open>Some None\<close> when it falls out of
  the loop, \<open>None\<close> if it never ends. \<open>g.property(j)\<close> is \<open>prop_by_index\<close>, which is
  \<open>null\<close> out of range, whence the \<open>continue\<close>.
\<close>

partial_function (option) index_scan :: "(node \<Rightarrow> bool) \<Rightarrow> node \<Rightarrow> nat \<Rightarrow> nat option option" where
  "index_scan P g j =
     (if j \<le> length (kids g) then
        (case prop_by_index g j of
           None \<Rightarrow> index_scan P g (j + 1)
         | Some q \<Rightarrow> if P (kids g ! q) then Some (Some q) else index_scan P g (j + 1))
      else Some None)"

section \<open>The v1.9 finders over the loop\<close>

text \<open>
  \<open>findOneD(parent, preferredMatchNames, nameRegex)\<close> (v1.9): the preferred names in
  order, then the loop over name pattern and \<open>OneD\<close>, then the last-resort loop over
  \<open>OneD\<close> alone; each loop returns early.
\<close>

definition find_one_d_v19 :: "node \<Rightarrow> string list \<Rightarrow> regex \<Rightarrow> nat option option" where
  "find_one_d_v19 g pref re =
     (case first_some (prop_by_name g) pref of
        Some p \<Rightarrow> Some (Some p)
      | None \<Rightarrow>
          (case index_scan (\<lambda>q. re_test re (dname q) \<and> vtype q = OneD) g 1 of
             None \<Rightarrow> None
           | Some (Some q) \<Rightarrow> Some (Some q)
           | Some None \<Rightarrow> index_scan (\<lambda>r. vtype r = OneD) g 1))"

text \<open>\<open>findVectorPosition(xform)\<close> (v1.9): the match name, else the loop over the lower-cased name and a 2D type.\<close>

definition find_vector_position_v19 :: "node \<Rightarrow> nat option option" where
  "find_vector_position_v19 x =
     (case prop_by_name x ''ADBE Vector Position'' of
        Some p \<Rightarrow> Some (Some p)
      | None \<Rightarrow> index_scan (\<lambda>q. re_test re_position (lower (dname q)) \<and>
                               (vtype q = TwoD \<or> vtype q = TwoD_SPATIAL)) x 1)"

text \<open>\<open>findCopies(repeater)\<close> (v1.9): two match names, else \<open>findOneD\<close> with the copies pattern.\<close>

definition find_copies_v19 :: "node \<Rightarrow> nat option option" where
  "find_copies_v19 r =
     (case alt (prop_by_name r ''ADBE Vector Repeater Copies'') (prop_by_name r ''ADBE Vector Repeater Copies 2'') of
        Some p \<Rightarrow> Some (Some p)
      | None \<Rightarrow> find_one_d_v19 r [] re_copies)"

text \<open>
  The anchor search of \<open>bindRepeater\<close> (v1.9): the match name, else the loop that
  stops (\<open>break\<close>) at the first child with that match name or with a name matching
  \<open>/anchor/i\<close> and a \<open>TwoD_SPATIAL\<close> type.
\<close>

definition find_rep_anchor_v19 :: "node \<Rightarrow> nat option option" where
  "find_rep_anchor_v19 x =
     (case prop_by_name x ''ADBE Vector Anchor'' of
        Some p \<Rightarrow> Some (Some p)
      | None \<Rightarrow> index_scan (\<lambda>p. mname p = ''ADBE Vector Anchor'' \<or>
                               (re_test re_anchor (dname p) \<and> vtype p = TwoD_SPATIAL)) x 1)"

text \<open>\<open>getAPMemoryPointProp(memEffect)\<close> (v1.9): the loop over a 2D type, else \<open>memEffect.property(1) || null\<close>.\<close>

definition get_ap_memory_point_prop_v19 :: "node \<Rightarrow> nat option option" where
  "get_ap_memory_point_prop_v19 m =
     Option.bind (index_scan (\<lambda>p. vtype p = TwoD \<or> vtype p = TwoD_SPATIAL) m 1)
       (\<lambda>r. case r of Some i \<Rightarrow> Some (Some i) | None \<Rightarrow> Some (prop_by_index m 1))"

section \<open>Lemmas\<close>

text \<open>The loop from counter \<open>k + 1\<close> is the list search on the children from position \<open>k\<close>.\<close>

lemma index_scan_drop:
  "index_scan P g (Suc k) = Some (map_option (\<lambda>i. k + i) (find_idx P (drop k (kids g))))"
proof (induction k rule: measure_induct_rule[where f = "\<lambda>k. length (kids g) - k"])
  case (less k)
  show ?case
  proof (cases "k < length (kids g)")
    case True
    then have d: "drop k (kids g) = kids g ! k # drop (Suc k) (kids g)"
      by (simp add: Cons_nth_drop_Suc)
    have ih: "index_scan P g (Suc (Suc k)) =
                Some (map_option (\<lambda>i. Suc k + i) (find_idx P (drop (Suc k) (kids g))))"
      using True by (intro less) simp
    show ?thesis
      using True by (subst index_scan.simps)
        (simp add: d ih prop_by_index_def option.map_comp comp_def)
  next
    case False
    then show ?thesis
      by (subst index_scan.simps) simp
  qed
qed

lemma index_scan_find_idx: "index_scan P g (Suc 0) = Some (find_idx P (kids g))"
  using index_scan_drop[of P g 0] by (cases "find_idx P (kids g)") simp_all

text \<open>
  C28. The index loop terminates: from every counter, on every group and for every
  test, the loop of the finders returns (it returns a child or falls out of the loop);
  the measure is the number of counter values left, \<open>numProperties + 1 - j\<close>.
\<close>

theorem index_scan_returns: "\<exists>r. index_scan P g j = Some r"
proof (induction j rule: measure_induct_rule[where f = "\<lambda>j. Suc (length (kids g)) - j"])
  case (less j)
  show ?case
  proof (cases "j \<le> length (kids g)")
    case True
    then have "\<exists>r. index_scan P g (j + 1) = Some r"
      by (intro less) simp
    with True show ?thesis
      by (subst index_scan.simps) (auto split: option.splits)
  next
    case False
    then show ?thesis
      by (subst index_scan.simps) simp
  qed
qed

text \<open>
  v1.9's finders, written with their loops, always return, and return what the list
  models of theory Resolver and Memory return; this is what allows v1.9's copies of these
  functions to be modelled by the v2.0 definitions.
\<close>

lemma find_one_d_v19_eq: "find_one_d_v19 g pref re = Some (find_one_d g pref re)"
  by (simp add: find_one_d_v19_def find_one_d_def index_scan_find_idx alt_def split: option.split)

lemma find_vector_position_v19_eq: "find_vector_position_v19 x = Some (find_vector_position x)"
  by (simp add: find_vector_position_v19_def find_vector_position_def index_scan_find_idx alt_def is_2d_def
      split: option.split)

lemma find_rep_anchor_v19_eq: "find_rep_anchor_v19 x = Some (find_rep_anchor x)"
  by (simp add: find_rep_anchor_v19_def find_rep_anchor_def index_scan_find_idx alt_def split: option.split)

lemma get_ap_memory_point_prop_v19_eq: "get_ap_memory_point_prop_v19 m = Some (get_ap_memory_point_prop m)"
  by (simp add: get_ap_memory_point_prop_v19_def get_ap_memory_point_prop_def index_scan_find_idx alt_def
      split: option.split)

lemma find_copies_v19_eq: "find_copies_v19 r = Some (find_copies r)"
  by (simp add: find_copies_v19_def find_copies_def find_one_d_v19_eq alt_def split: option.split)

text \<open>
  C29. \<open>findOneD\<close>'s contract, as the call sites use it (no preferred names): its loops
  return on every group; the result is \<open>null\<close> exactly when no child is \<open>OneD\<close>
  (the last-resort loop takes any \<open>OneD\<close> child); and a returned child is \<open>OneD\<close>,
  and its display name matches the pattern unless no \<open>OneD\<close> child's name does.
\<close>

theorem find_one_d_v19_last_resort:
  "\<exists>r. find_one_d_v19 g [] re = Some r \<and>
     (r = None \<longleftrightarrow> (\<forall>c \<in> set (kids g). vtype c \<noteq> OneD)) \<and>
     (\<forall>i. r = Some i \<longrightarrow> i < length (kids g) \<and> vtype (kids g ! i) = OneD \<and>
        (re_test re (dname (kids g ! i)) \<or> (\<forall>c \<in> set (kids g). \<not> (re_test re (dname c) \<and> vtype c = OneD))))"
proof -
  let ?P = "\<lambda>q. re_test re (dname q) \<and> vtype q = OneD" and ?T = "\<lambda>q. vtype q = OneD"
  have e: "find_one_d_v19 g [] re = Some (alt (find_idx ?P (kids g)) (find_idx ?T (kids g)))"
    by (simp add: find_one_d_v19_eq find_one_d_def)
  show ?thesis
  proof (cases "find_idx ?P (kids g)")
    case None
    then have np: "\<forall>c \<in> set (kids g). \<not> ?P c" by (simp add: find_idx_None_iff)
    show ?thesis
    proof (cases "find_idx ?T (kids g)")
      case None
      then show ?thesis using e np \<open>find_idx ?P (kids g) = None\<close> by (simp add: find_idx_None_iff)
    next
      case (Some i)
      then have "i < length (kids g)" "?T (kids g ! i)" by auto
      moreover from this have "\<not> (\<forall>c \<in> set (kids g). vtype c \<noteq> OneD)" by (metis nth_mem)
      ultimately show ?thesis using e np Some \<open>find_idx ?P (kids g) = None\<close> by simp
    qed
  next
    case (Some i)
    then have "i < length (kids g)" "?P (kids g ! i)" by auto
    moreover from this have "\<not> (\<forall>c \<in> set (kids g). vtype c \<noteq> OneD)" by (metis nth_mem)
    ultimately show ?thesis using e Some by simp
  qed
qed

theorem find_one_d_v19_last_resort_witness:
  "\<exists>i. find_one_d_v19 (kids de_repeater ! 3) [] re_start_opacity = Some (Some i) \<and>
     vtype (kids (kids de_repeater ! 3) ! i) = OneD"
proof -
  have t: "\<exists>c \<in> set (kids (kids de_repeater ! 3)). vtype c = OneD" by code_simp
  obtain r where r: "find_one_d_v19 (kids de_repeater ! 3) [] re_start_opacity = Some r"
    and n: "r = None \<longleftrightarrow> (\<forall>c \<in> set (kids (kids de_repeater ! 3)). vtype c \<noteq> OneD)"
    and s: "\<forall>i. r = Some i \<longrightarrow> vtype (kids (kids de_repeater ! 3) ! i) = OneD"
    using find_one_d_v19_last_resort[of "kids de_repeater ! 3" re_start_opacity] by blast
  obtain i where "r = Some i" using n t by (cases r) auto
  then show ?thesis using r s by blast
qed

end
