(* ===== verification/Spec2Isabelle.thy ===== *)
theory Spec2Isabelle
  imports Panel Loops
begin

text \<open>
  \<^bold>\<open>Center AnchorPoint + Repeater: a verification development.\<close>

  The repository holds one After Effects ExtendScript in two versions,
  src/CenterAP_AddRepeater_v2.0.jsx (the current one, the subject of spec.md) and
  src/CenterAP_AddRepeater_v1.9.jsx (its predecessor). The script works on the one
  selected shape layer of the active composition: "Do It" centres the layer's anchor
  point on its contents without moving anything on screen, appends a Repeater to the
  contents, binds the repeater's anchor to the layer's anchor by an expression,
  applies a preset (copies, offset, rotation), and (v2.0) exposes the repeater's
  parameters as effect controls on the layer; the anchor it chose is saved in a Point
  Control effect, which "Update Anchor" rewrites and "Reset Anchor" restores from.

  \<^bold>\<open>How the model is built.\<close> The script mutates the host document in place and
  may throw at any point; every operation is therefore a function of type
  \<open>('s, 'a) exc = 's \<Rightarrow> (error + 'a) \<times> 's\<close> (theory Prelude): it returns
  \<open>Inl e\<close> for a \<open>throw\<close> (\<open>Thrown\<close> for the script's own strings, \<open>HostFault\<close> for a
  TypeError of the host) or \<open>Inr v\<close>, together with the state reached, so a throw
  after a write keeps the write, as in JavaScript. \<open>ebind\<close> is statement
  sequencing, \<open>try_catch\<close> the script's \<open>try { } catch (_) { }\<close>, \<open>seq\<close> a run of
  statements. The state is a \<open>layer\<close> record (theory Host): the layer's property tree,
  its comment and time; the composition and the undo log are the \<open>app\<close> record of
  theory Operations. A handle the script keeps in a variable is a \<^emph>\<open>path\<close> of child
  positions. JavaScript numbers are \<open>real\<close>s: no operation of the script is sensitive
  to rounding except the \<open>1e9\<close> sentinels of \<open>bboxFromShape\<close>, which are kept
  (C8). Strings are HOL byte strings, a non-ASCII letter being its UTF-8 bytes; quotes
  are \<open>CHR 0x27\<close> and \<open>CHR 0x22\<close>. Case-insensitive matching folds ASCII and the
  Latin-1 capitals (\<open>lower\<close>, theory Prelude), as \<open>toLowerCase\<close> and \<open>/i\<close> do;
  letters beyond Latin-1 are not folded.

  \<^bold>\<open>Theories, in import order, and the code they model.\<close>
  \<^item> Prelude: the exception-state monad, \<open>keeps\<close> (an invariant every step of a
    computation preserves), lower-casing and the regular expressions of the finders,
    shared list and option lemmas (collection \<open>model_simps\<close>).
  \<^item> Host: the host API the script calls (\<open>property\<close> by name or index,
    \<open>setValue\<close>, \<open>expression\<close>, \<open>addProperty\<close>, \<open>sourceRectAtTime\<close>), modelled from
    spec section 6; what only the host knows (default children of a new property,
    rendered bounding boxes, number formatting) is a field of the \<open>host\<close> record, and
    every lemma holds for every host.
  \<^item> Scenes: concrete layers for the witnesses (the 100 by 50 rectangle with a stroke
    of 10 of spec section 8; a layer with a repeater; German display names).
  \<^item> Resolver (spec 4.1): \<open>findOneD\<close>, \<open>findVectorPosition\<close>, \<open>findRotation\<close>,
    \<open>findCopies\<close> and the repeater lookups of \<open>bindRepeater\<close> and
    \<open>linkRepeaterToLayerControls\<close>.
  \<^item> Pivot (spec 4.3): \<open>setAnchorAndCompensate\<close>, \<open>centerLayerAnchorToContents\<close>.
  \<^item> Geometry (spec 4.2): \<open>measureShape\<close> with its recursive \<open>walk\<close> and
    \<open>bboxFromShape\<close>, and a reference definition \<open>measure_ref\<close> of what spec 4.2 says.
  \<^item> Binder (spec 4.4): \<open>addRepeater\<close>, \<open>bindRepeater\<close>.
  \<^item> Preset (spec 4.5): \<open>applyRepeaterPreset\<close> with \<open>clearExpr\<close>, \<open>setNum\<close>,
    \<open>setVec\<close>, and the preset table of the spec (\<open>preset_spec\<close>).
  \<^item> Controls (spec 4.6): \<open>effectsParade\<close>, \<open>ensureSlider\<close>, \<open>ensurePoint\<close>,
    \<open>linkRepeaterToLayerControls\<close>.
  \<^item> Memory (spec 4.7): \<open>ensureAPMemoryEffect\<close>, \<open>getAPMemoryPointProp\<close>,
    \<open>saveAnchorToMemory\<close>, \<open>getSavedAnchor\<close>, written once with the effect's name
    as a parameter (\<open>save_anchor_in\<close>, \<open>get_saved_anchor_in\<close>); v2.0 and v1.9 are
    the two instances, and the lemmas hold for both.
  \<^item> Loops: the index loop every finder runs (\<open>for (j = 1; j <= numProperties;
    j++) { q = g.property(j); if (!q) continue; ... return q; }\<close>) as \<open>index_scan\<close>, a
    \<open>partial_function (option)\<close>, and v1.9's \<open>findOneD\<close>, \<open>findVectorPosition\<close>,
    \<open>findCopies\<close>, the anchor loop of \<open>bindRepeater\<close> and \<open>getAPMemoryPointProp\<close>
    written over it as the code writes them.
  \<^item> Operations: \<open>getCompOrThrow\<close>, \<open>getSingleShapeLayerOrThrow\<close> and the entry
    points \<open>main\<close>, \<open>onUpdateAnchor\<close>, \<open>onResetAnchor\<close>, each bracketed by
    \<open>beginUndoGroup\<close>/\<open>endUndoGroup\<close> with the alert of its \<open>catch\<close> (\<open>entry\<close>).
  \<^item> V19: what v1.9 does differently (\<open>findRotation\<close>'s pattern,
    \<open>measureShapeSize\<close> with \<open>scanGroup\<close>, presets without stroke padding, the
    "AP Memory" effect, \<open>main\<close> without controls); the functions v1.9 shares with v2.0
    line for line are the v2.0 definitions.
  \<^item> Typing: the type invariant of the document (every property holds a value of its
    value type, \<open>well_typed\<close>) with one \<open>keeps\<close> lemma per operation of both versions
    (collection \<open>typed_keeps\<close>); since the host refuses ill-typed writes this is a
    library fact, not a claim. The same machinery shows what no operation changes (the
    layer's match name and selection, collection \<open>root_keeps\<close>), which the panel's
    liveness lemma uses.
  \<^item> Panel: \<open>buildUI\<close>'s behaviour as a state machine: the dropdown, the debug
    checkbox and \<open>gDebug\<close>, the four buttons' handlers (\<open>panel_click\<close>, and
    \<open>panel_click_v19\<close> for v1.9) and \<open>onAbout\<close>; reachable states
    (\<open>panel_reach\<close>) allow any interleaving of clicks and document edits.

  \<^bold>\<open>What the lemmas show\<close> (claim numbers C1 to C30 in the text before each).
  Pivot: moving the anchor compensates the position so that position minus anchor,
  what is rendered, stays put (C1); centring is idempotent (C2), lands on the centre
  of the host's box (C3), and throws on empty contents (C4). Geometry: the recursive
  walk equals the reference measurement (C5), sizes ignore strokes (C6),
  \<open>bboxFromShape\<close> equals the extent of the vertices within its sentinels (C7) and
  over-reports the width of every vertex list beyond them (C8), and all results are
  non-negative (C18). Binder: the repeater anchor is bound to the layer anchor (C9),
  the repeater position keeps a value that is a pair of numbers, the host's (100,0)
  (C10), and on every repeater whose anchor has neither the shape transform's id nor an
  English name, as in a German UI, the bind throws and changes nothing (C14). Preset:
  the engine implements the preset table (C11, a refinement) and never throws (C12).
  Controls: the seven repeater parameters end bound to their controls (C13). Memory:
  save then load returns the anchor (C15), and find-or-create is idempotent (C26).
  Operations: reset without snapshot only alerts (C16), save, move and reset returns
  to the saved anchor with no visual jump (C17), and a "Do It" whose bind fails (a
  German UI) alerts the error and leaves the layer centred, position compensated, with
  the new repeater appended: the script rolls nothing back (C30, composing the pivot,
  the repeater's creation, the binder and the entry point). V19: v1.9's size equals
  v2.0's reference size on plain contents (C19), its vertical preset spaces by height
  alone (C20), whatever v1.9's save does on a layer without v2.0's memory, v2.0 finds
  no snapshot afterwards (C21), v1.9's own save and load are a round trip (C25), and
  the two \<open>findRotation\<close>s agree unless a display name contains the Spanish "rotacion"
  with an accented o in any case (C27). Panel: in every reachable state the undo history
  is a sequence of complete groups (C22, by rule induction on \<open>panel_reach\<close>), the
  dropdown has one of its four items selected and "Do It" runs \<open>main\<close> with it (C23),
  and from any state whose selected layer can hold the memory, "Update Anchor" then
  "Reset Anchor" succeed and restore the layer (C24). Loops: the index loop returns on
  every group from every start (C28, termination), and \<open>findOneD\<close> returns \<open>null\<close>
  exactly when the group has no \<open>OneD\<close> child, a returned child being \<open>OneD\<close> and
  matching the pattern when some \<open>OneD\<close> child does (C29). Lemmas of theory Loops
  also show that v1.9's loop-level finders return what the v2.0 list models return,
  which is what licenses modelling those v1.9 functions by the v2.0 definitions.

  \<^bold>\<open>Termination and fuel.\<close> Every loop of the script runs over the children of a
  node. The recursive walks are structural on the finite tree (\<open>walk_list\<close>,
  \<open>shape_items\<close>, \<open>scan_group\<close> are \<open>function\<close>s with a \<open>size\<close> measure), and the
  finders' searches are \<open>find_idx\<close> on the list of children, so no fuel is needed and
  these operations are total functions. The counter loop of the code itself, whose
  termination is not structural, is \<open>index_scan\<close> (theory Loops): a \<open>partial_function
  (option)\<close> whose value \<open>None\<close> would be a loop that never ends. C28 proves it returns
  by induction on the measure \<open>numProperties + 1 - j\<close>; each finder over it returns
  \<open>Some\<close> of the list model's result (lemmas of theory Loops, and C29).

  \<^bold>\<open>Not modelled.\<close> The layout of the panel (orientation, margins, alignment,
  resizing), the bootstrap that opens it as a docked panel or a floating window, and
  the dialog title of \<open>onAbout\<close>'s alert: they change no state the script reads. The
  debug alert of \<open>applyRepeaterPreset\<close> only displays the measurement, formatted by
  the host (the panel keeps \<open>gDebug\<close>, which only that alert reads): with Debug on,
  the alerts the model records for "Do It" omit it, and no claim is about them. The
  host itself is an assumption, not code of the repository: its behaviour is the
  Host theory, and the concrete defaults of a new repeater are those of Scenes.
  Undo is recorded as events; the host's rollback of a group is not modelled.
\<close>

end
